theory Spec2Isabelle
  imports Main "HOL-Library.Word" "HOL-Library.AList"
begin

section \<open>es-node-keeper: data model\<close>

text \<open>
  The repository holds three revisions of the same program: version 0.10
  (first half of \<^verbatim>\<open>es-node-keeper.go\<close>), version 0.13 (the unnamed part) and
  version 0.19 (second half of \<^verbatim>\<open>es-node-keeper.go\<close>). Functions whose text is the
  same in the revisions are modelled once; the others carry the revision as a suffix.

  Go's \<^verbatim>\<open>int\<close> is taken as a 64-bit two's complement integer: \<open>+\<close>, \<open>-\<close> and \<open>*\<close>
  wrap, comparisons are signed (\<open><s\<close>). Go strings are byte strings. A Go \<^verbatim>\<open>error\<close> is
  its message; a function returning \<^verbatim>\<open>(T, error)\<close> returns \<open>string + T\<close>, with \<open>Inl\<close>
  the error, and one returning only \<^verbatim>\<open>error\<close> returns \<open>string option\<close>, \<open>None\<close> for
  \<^verbatim>\<open>nil\<close>.
\<close>

type_synonym go_int = "64 word"

text \<open>One element of \<^verbatim>\<open>LocalNodes.Nodes\<close>.\<close>

record local_node =
  Instance :: string
  Service :: string

type_synonym LocalNodes = "local_node list"

text \<open>
  The inner \<^verbatim>\<open>map[string]interface{}\<close> of the registry always has the two keys that
  \<^verbatim>\<open>localNodesToMap\<close> puts there, a string and an int, so it is a record
  (\<^verbatim>\<open>lastRestart\<close> is named \<^verbatim>\<open>lastRestartTimestamp\<close> in version 0.19). The outer
  \<^verbatim>\<open>map[string]...\<close> is an association list with one entry per key; the order of the
  list stands for the order in which \<^verbatim>\<open>range\<close> visits the map, which Go leaves open.
\<close>

record node_entry =
  instanceName :: string
  lastRestart :: go_int

type_synonym registry = "(string \<times> node_entry) list"

definition localNodesToMap :: "LocalNodes \<Rightarrow> registry" where
  "localNodesToMap localNodes =
     fold (\<lambda>localNode nodes.
             AList.update (Service localNode)
               \<lparr>instanceName = Instance localNode, lastRestart = 0\<rparr> nodes)
          localNodes []"

text \<open>\<^verbatim>\<open>map[string]struct{}\<close> is a set of strings.\<close>

definition getInvalidNodes :: "registry \<Rightarrow> string set \<Rightarrow> string list" where
  "getInvalidNodes localNodes activeNodes =
     map fst (filter (\<lambda>(service, v). instanceName v \<notin> activeNodes) localNodes)"

section \<open>The world outside the program\<close>

text \<open>
  Every call that leaves the program is an event, and the history of events is threaded
  through the model. The answer of the outside world to a call is a function of the
  history up to and including that call, so a world is deterministic and the theorems,
  which hold for every world, cover every behaviour of cluster, host and clock.
  Log output is left out: no branch depends on it.
\<close>

datatype event =
    HttpGet string
  | Exec string "string list"
  | Now
  | Sleep nat

text \<open>
  An HTTP request either fails (the request cannot be built or sent, it times out, or
  the body cannot be read: the source returns the error in each case) or is answered
  with a status code, a status line and a body. The timeout flag only decides when the
  world lets a request fail, so it is not a parameter of the model.
\<close>

datatype http_outcome =
    RequestFailed string
  | Responded nat string string

text \<open>What \<^verbatim>\<open>cmd.Run()\<close> leaves behind: its error, if any, and the two buffers.\<close>

record cmd_outcome =
  run_error :: "string option"
  stdout :: string
  stderr :: string

text \<open>
  The library functions the source calls are parameters: the decoders of
  \<^verbatim>\<open>encoding/json\<close> and \<^verbatim>\<open>yaml\<close> at the three result types, the submatch of the
  regular expression, \<^verbatim>\<open>time.Parse\<close> followed by \<^verbatim>\<open>Unix()\<close>, and the lower-casing of
  strings that are not pure ASCII.
\<close>

record world =
  http :: "event list \<Rightarrow> http_outcome"
  unix_time :: "event list \<Rightarrow> go_int"
  run :: "event list \<Rightarrow> cmd_outcome"
  read_file :: "string \<Rightarrow> string + string"
  json_nodes :: "string \<Rightarrow> string list option"
  json_status :: "string \<Rightarrow> string option"
  json_enable :: "string \<Rightarrow> string option"
  yaml_nodes :: "string \<Rightarrow> string + LocalNodes"
  find_timestamp :: "string \<Rightarrow> string option"
  time_parse :: "string \<Rightarrow> string + go_int"
  unicode_lower :: "string \<Rightarrow> string"

definition interval :: nat where
  "interval = 30"

section \<open>Cluster client\<close>

text \<open>Version 0.10: \<^verbatim>\<open>esQueryGet\<close>, with its check of the status code.\<close>

definition esQueryGet :: "world \<Rightarrow> string \<Rightarrow> event list \<Rightarrow> (string + string) \<times> event list" where
  "esQueryGet w url h =
     (let h' = h @ [HttpGet url] in
      case http w h' of
        RequestFailed errs \<Rightarrow> (Inl errs, h')
      | Responded code status body \<Rightarrow>
          if code \<noteq> 200 then (Inl (''HTTP response code: '' @ status), h')
          else (Inr body, h'))"

text \<open>Versions 0.13 and 0.19: \<^verbatim>\<open>httpGet\<close>.\<close>

definition httpGet :: "world \<Rightarrow> string \<Rightarrow> event list \<Rightarrow> (string + string) \<times> event list" where
  "httpGet w url h =
     (let h' = h @ [HttpGet url] in
      case http w h' of
        RequestFailed err \<Rightarrow> (Inl err, h')
      | Responded code status body \<Rightarrow> (Inr body, h'))"

definition parseNodes :: "world \<Rightarrow> string \<Rightarrow> string + string list" where
  "parseNodes w data =
     (case json_nodes w data of
        None \<Rightarrow> Inl ''JSON parse failed''
      | Some nodes \<Rightarrow> Inr nodes)"

definition parseClusterStatus :: "world \<Rightarrow> string \<Rightarrow> string + string" where
  "parseClusterStatus w data =
     (case json_status w data of
        None \<Rightarrow> Inl ''JSON parse failed''
      | Some clusterStatus \<Rightarrow> Inr clusterStatus)"

definition parseClusterSettings :: "world \<Rightarrow> string \<Rightarrow> string + string" where
  "parseClusterSettings w data =
     (case json_enable w data of
        None \<Rightarrow> Inl ''JSON parse failed''
      | Some clusterSettings \<Rightarrow> Inr clusterSettings)"

definition getActiveNodes ::
  "world \<Rightarrow> string \<Rightarrow> event list \<Rightarrow> (string + string set) \<times> event list" where
  "getActiveNodes w esUrl h =
     (case httpGet w (esUrl @ ''/_cat/nodes?h=name&format=json'') h of
        (Inl err, h') \<Rightarrow> (Inl err, h')
      | (Inr esData, h') \<Rightarrow>
          (case parseNodes w esData of
             Inl err \<Rightarrow> (Inl err, h')
           | Inr nodes \<Rightarrow> (Inr (set nodes), h')))"

definition getClusterStatus ::
  "world \<Rightarrow> string \<Rightarrow> event list \<Rightarrow> (string + string) \<times> event list" where
  "getClusterStatus w esUrl h =
     (case httpGet w (esUrl @ ''/_cluster/health'') h of
        (Inl err, h') \<Rightarrow> (Inl err, h')
      | (Inr esData, h') \<Rightarrow>
          (case parseClusterStatus w esData of
             Inl err \<Rightarrow> (Inl err, h')
           | Inr clusterStatus \<Rightarrow> (Inr clusterStatus, h')))"

definition getClusterRoutingAllocation ::
  "world \<Rightarrow> string \<Rightarrow> event list \<Rightarrow> (string + string) \<times> event list" where
  "getClusterRoutingAllocation w esUrl h =
     (case httpGet w (esUrl @ ''/_cluster/settings'') h of
        (Inl err, h') \<Rightarrow> (Inl err, h')
      | (Inr esData, h') \<Rightarrow>
          (case parseClusterSettings w esData of
             Inl err \<Rightarrow> (Inl err, h')
           | Inr enable \<Rightarrow> (Inr enable, h')))"

text \<open>The same three queries in version 0.10, over \<^verbatim>\<open>esQueryGet\<close>.\<close>

definition getActiveNodes_v010 ::
  "world \<Rightarrow> string \<Rightarrow> event list \<Rightarrow> (string + string set) \<times> event list" where
  "getActiveNodes_v010 w esURL h =
     (case esQueryGet w (esURL @ ''/_cat/nodes?h=name&format=json'') h of
        (Inl err, h') \<Rightarrow> (Inl err, h')
      | (Inr esData, h') \<Rightarrow>
          (case parseNodes w esData of
             Inl err \<Rightarrow> (Inl err, h')
           | Inr nodes \<Rightarrow> (Inr (set nodes), h')))"

definition getClusterStatus_v010 ::
  "world \<Rightarrow> string \<Rightarrow> event list \<Rightarrow> (string + string) \<times> event list" where
  "getClusterStatus_v010 w esURL h =
     (case esQueryGet w (esURL @ ''/_cluster/health'') h of
        (Inl err, h') \<Rightarrow> (Inl err, h')
      | (Inr esData, h') \<Rightarrow>
          (case parseClusterStatus w esData of
             Inl err \<Rightarrow> (Inl err, h')
           | Inr clusterStatus \<Rightarrow> (Inr clusterStatus, h')))"

definition getClusterRoutingAllocation_v010 ::
  "world \<Rightarrow> string \<Rightarrow> event list \<Rightarrow> (string + string) \<times> event list" where
  "getClusterRoutingAllocation_v010 w esURL h =
     (case esQueryGet w (esURL @ ''/_cluster/settings'') h of
        (Inl err, h') \<Rightarrow> (Inl err, h')
      | (Inr esData, h') \<Rightarrow>
          (case parseClusterSettings w esData of
             Inl err \<Rightarrow> (Inl err, h')
           | Inr enable \<Rightarrow> (Inr enable, h')))"

section \<open>Configuration\<close>

text \<open>Versions 0.13 and 0.19: an unreadable file gives the empty configuration.\<close>

definition parseConfig :: "world \<Rightarrow> string \<Rightarrow> string + LocalNodes" where
  "parseConfig w file =
     (case read_file w file of
        Inr source \<Rightarrow>
          (case yaml_nodes w source of
             Inl err \<Rightarrow> Inl err
           | Inr nodes \<Rightarrow> Inr nodes)
      | Inl err \<Rightarrow> Inr [])"

text \<open>Version 0.10: both failures are returned.\<close>

definition parseConfig_v010 :: "world \<Rightarrow> string \<Rightarrow> string + LocalNodes" where
  "parseConfig_v010 w file =
     (case read_file w file of
        Inl err \<Rightarrow> Inl err
      | Inr source \<Rightarrow>
          (case yaml_nodes w source of
             Inl err \<Rightarrow> Inl err
           | Inr nodes \<Rightarrow> Inr nodes))"

text \<open>
  \<^verbatim>\<open>main\<close> either leaves the process with an exit status or starts \<^verbatim>\<open>nodeKeeper\<close> on
  the registry and blocks for ever.
\<close>

datatype startup = Exit nat | Running registry

definition main_v019 :: "world \<Rightarrow> string \<Rightarrow> startup" where
  "main_v019 w config =
     (case parseConfig w config of
        Inl err \<Rightarrow> Exit 1
      | Inr localNodes \<Rightarrow> Running (localNodesToMap localNodes))"

definition main_v010 :: "world \<Rightarrow> string \<Rightarrow> startup" where
  "main_v010 w config =
     (case parseConfig_v010 w config of
        Inl err \<Rightarrow> Exit 1
      | Inr localNodes \<Rightarrow> Running (localNodesToMap localNodes))"

section \<open>Service controller\<close>

text \<open>
  Version 0.10: \<^verbatim>\<open>restartNode\<close> runs \<^verbatim>\<open>service <node> restart\<close>. Of the error it
  returns only the difference from \<^verbatim>\<open>nil\<close> is used; its text is logged.
\<close>

definition restartNode :: "world \<Rightarrow> string \<Rightarrow> event list \<Rightarrow> string option \<times> event list" where
  "restartNode w node h =
     (let h' = h @ [Exec ''service'' [node, ''restart'']] in
      case run_error (run w h') of
        Some err \<Rightarrow> (Some (err @ '': '' @ stderr (run w h')), h')
      | None \<Rightarrow> (None, h'))"

text \<open>Version 0.13: \<^verbatim>\<open>restartSystemdService\<close> runs \<^verbatim>\<open>systemctl restart <service>\<close> itself.\<close>

definition restartSystemdService_v013 ::
  "world \<Rightarrow> string \<Rightarrow> event list \<Rightarrow> string option \<times> event list" where
  "restartSystemdService_v013 w service h =
     (let h' = h @ [Exec ''systemctl'' [''restart'', service]] in
      case run_error (run w h') of
        Some err \<Rightarrow> (Some (err @ '': '' @ stderr (run w h')), h')
      | None \<Rightarrow> (None, h'))"

text \<open>Version 0.19: both commands go through \<^verbatim>\<open>executeCommand\<close>.\<close>

definition executeCommand ::
  "world \<Rightarrow> string \<Rightarrow> string list \<Rightarrow> event list \<Rightarrow> (string + string) \<times> event list" where
  "executeCommand w command args h =
     (let h' = h @ [Exec command args] in
      case run_error (run w h') of
        Some err \<Rightarrow> (Inl (err @ '': '' @ stderr (run w h')), h')
      | None \<Rightarrow> (Inr (stdout (run w h')), h'))"

definition restartSystemdService ::
  "world \<Rightarrow> string \<Rightarrow> event list \<Rightarrow> string option \<times> event list" where
  "restartSystemdService w service h =
     (case executeCommand w ''systemctl'' [''restart'', service] h of
        (Inl err, h') \<Rightarrow> (Some (''Command execution fail: '' @ err), h')
      | (Inr out, h') \<Rightarrow> (None, h'))"

definition getSystemdServiceActiveEnterTimestamp ::
  "world \<Rightarrow> string \<Rightarrow> event list \<Rightarrow> (string + go_int) \<times> event list" where
  "getSystemdServiceActiveEnterTimestamp w service h =
     (case executeCommand w ''systemctl''
             [''--no-pager'', ''--property=ActiveEnterTimestamp'', ''show'', service] h of
        (Inl err, h') \<Rightarrow> (Inl (''Command execution fail: '' @ err), h')
      | (Inr out, h') \<Rightarrow>
          (case find_timestamp w out of
             None \<Rightarrow> (Inl ''Cannot find timestamp string in command output'', h')
           | Some findStrResult \<Rightarrow>
               (case time_parse w findStrResult of
                  Inl err \<Rightarrow> (Inl (''Parse date failed: '' @ err), h')
                | Inr timestamp \<Rightarrow> (Inr timestamp, h'))))"

definition sleepLoop :: "event list \<Rightarrow> event list" where
  "sleepLoop h = h @ [Sleep interval]"

section \<open>Reconciler\<close>

text \<open>
  \<^verbatim>\<open>strings.ToLower\<close>: a string of ASCII bytes has its letters \<^verbatim>\<open>A\<close> to \<^verbatim>\<open>Z\<close> moved to
  lower case byte by byte; any other string is mapped rune by rune by the Unicode
  tables, which are a parameter of the world.
\<close>

definition lower_byte :: "char \<Rightarrow> char" where
  "lower_byte c =
     (if 65 \<le> (of_char c :: nat) \<and> (of_char c :: nat) \<le> 90
      then char_of (of_char c + (32 :: nat)) else c)"

definition ToLower :: "world \<Rightarrow> string \<Rightarrow> string" where
  "ToLower w s =
     (if list_all (\<lambda>c. (of_char c :: nat) < 128) s then map lower_byte s
      else unicode_lower w s)"

text \<open>
  Reading and writing \<^verbatim>\<open>localNodes[service]["lastRestart"]\<close>. For a service that is not
  a key of the registry the read panics in the type assertion and the write panics on
  the nil inner map; \<open>None\<close> is the panic.
\<close>

definition load_lastRestart :: "registry \<Rightarrow> string \<Rightarrow> go_int option" where
  "load_lastRestart localNodes service =
     (case map_of localNodes service of
        None \<Rightarrow> None
      | Some v \<Rightarrow> Some (lastRestart v))"

definition store_lastRestart :: "string \<Rightarrow> go_int \<Rightarrow> registry \<Rightarrow> registry option" where
  "store_lastRestart service t localNodes =
     (case map_of localNodes service of
        None \<Rightarrow> None
      | Some v \<Rightarrow> Some (AList.update service (v\<lparr>lastRestart := t\<rparr>) localNodes))"

definition time_now :: "world \<Rightarrow> event list \<Rightarrow> go_int \<times> event list" where
  "time_now w h = (unix_time w (h @ [Now]), h @ [Now])"

type_synonym keeper_state = "registry \<times> event list"

subsection \<open>Version 0.19\<close>

text \<open>
  The body of the loop over \<^verbatim>\<open>invalidNodes\<close>, in its two parts. First the recency
  re-derivation: the time at which systemd saw the unit become active, when it can be
  had, overwrites the stored timestamp.
\<close>

definition nodeKeeper_rederive_v019 ::
  "world \<Rightarrow> string \<Rightarrow> keeper_state \<Rightarrow> keeper_state option" where
  "nodeKeeper_rederive_v019 w service st =
     (case st of (localNodes, h) \<Rightarrow>
      case getSystemdServiceActiveEnterTimestamp w (service @ ''.service'') h of
        (Inr serviceActiveEnterTimestamp, h1) \<Rightarrow>
          (case store_lastRestart service serviceActiveEnterTimestamp localNodes of
             None \<Rightarrow> None
           | Some localNodes1 \<Rightarrow> Some (localNodes1, h1))
      | (Inl err, h1) \<Rightarrow> Some (localNodes, h1))"

text \<open>Then the decision; each \<^verbatim>\<open>continue\<close> ends it.\<close>

definition nodeKeeper_decide_v019 ::
  "world \<Rightarrow> bool \<Rightarrow> go_int \<Rightarrow> string \<Rightarrow> string \<Rightarrow> keeper_state \<Rightarrow> keeper_state option" where
  "nodeKeeper_decide_v019 w dryRun restartExclusionPeriod esUrl service st =
     (case st of (localNodes, h) \<Rightarrow>
      let systemdService = service @ ''.service'' in
      case time_now w h of (now, h2) \<Rightarrow>
      case load_lastRestart localNodes service of
        None \<Rightarrow> None
      | Some lastTs \<Rightarrow>
      if restartExclusionPeriod <s now - lastTs then
        case getClusterStatus w esUrl h2 of
          (Inl err, h3) \<Rightarrow> Some (localNodes, h3)
        | (Inr clusterStatus, h3) \<Rightarrow>
        case getClusterRoutingAllocation w esUrl h3 of
          (Inl err, h4) \<Rightarrow> Some (localNodes, h4)
        | (Inr clusterRoutingAllocation, h4) \<Rightarrow>
        if clusterRoutingAllocation = [] then Some (localNodes, h4)
        else if ToLower w clusterStatus \<noteq> ''red''
                \<and> ToLower w clusterRoutingAllocation = ''all'' then
          if dryRun then Some (localNodes, h4)
          else
            case restartSystemdService w systemdService h4 of
              (None, h5) \<Rightarrow>
                (case store_lastRestart service now localNodes of
                   None \<Rightarrow> None
                 | Some localNodes2 \<Rightarrow> Some (localNodes2, h5))
            | (Some err, h5) \<Rightarrow> Some (localNodes, h5)
        else Some (localNodes, h4)
      else Some (localNodes, h2))"

definition nodeKeeper_service_v019 ::
  "world \<Rightarrow> bool \<Rightarrow> go_int \<Rightarrow> string \<Rightarrow> string \<Rightarrow> keeper_state \<Rightarrow> keeper_state option" where
  "nodeKeeper_service_v019 w dryRun restartExclusionPeriod esUrl service st =
     (case nodeKeeper_rederive_v019 w service st of
        None \<Rightarrow> None
      | Some st1 \<Rightarrow> nodeKeeper_decide_v019 w dryRun restartExclusionPeriod esUrl service st1)"

fun nodeKeeper_services_v019 ::
  "world \<Rightarrow> bool \<Rightarrow> go_int \<Rightarrow> string \<Rightarrow> string list \<Rightarrow> keeper_state \<Rightarrow> keeper_state option" where
  "nodeKeeper_services_v019 w dryRun period esUrl [] st = Some st"
| "nodeKeeper_services_v019 w dryRun period esUrl (service # invalidNodes) st =
     (case nodeKeeper_service_v019 w dryRun period esUrl service st of
        None \<Rightarrow> None
      | Some st' \<Rightarrow> nodeKeeper_services_v019 w dryRun period esUrl invalidNodes st')"

text \<open>One pass of the outer \<^verbatim>\<open>for\<close>.\<close>

definition nodeKeeper_tick_v019 ::
  "world \<Rightarrow> bool \<Rightarrow> go_int \<Rightarrow> string \<Rightarrow> keeper_state \<Rightarrow> keeper_state option" where
  "nodeKeeper_tick_v019 w dryRun period esUrl st =
     (case st of (localNodes, h) \<Rightarrow>
      case getActiveNodes w esUrl h of
        (Inl err, h1) \<Rightarrow> Some (localNodes, sleepLoop h1)
      | (Inr activeNodes, h1) \<Rightarrow>
          (case nodeKeeper_services_v019 w dryRun period esUrl
                  (getInvalidNodes localNodes activeNodes) (localNodes, h1) of
             None \<Rightarrow> None
           | Some (localNodes', h2) \<Rightarrow> Some (localNodes', sleepLoop h2)))"

text \<open>
  The outer \<^verbatim>\<open>for\<close> never ends; \<open>nodeKeeper_v019 ... n\<close> is the state after its first
  \<open>n\<close> passes.
\<close>

fun nodeKeeper_v019 ::
  "world \<Rightarrow> bool \<Rightarrow> go_int \<Rightarrow> string \<Rightarrow> nat \<Rightarrow> keeper_state \<Rightarrow> keeper_state option" where
  "nodeKeeper_v019 w dryRun period esUrl 0 st = Some st"
| "nodeKeeper_v019 w dryRun period esUrl (Suc n) st =
     (case nodeKeeper_tick_v019 w dryRun period esUrl st of
        None \<Rightarrow> None
      | Some st' \<Rightarrow> nodeKeeper_v019 w dryRun period esUrl n st')"

subsection \<open>Version 0.13\<close>

text \<open>No recency re-derivation; the exclusion period is given in minutes.\<close>

definition nodeKeeper_service_v013 ::
  "world \<Rightarrow> bool \<Rightarrow> go_int \<Rightarrow> string \<Rightarrow> string \<Rightarrow> keeper_state \<Rightarrow> keeper_state option" where
  "nodeKeeper_service_v013 w dryRun noRestartTime esUrl service st =
     (case st of (localNodes, h) \<Rightarrow>
      let systemdService = service @ ''.service'' in
      case time_now w h of (now, h2) \<Rightarrow>
      case load_lastRestart localNodes service of
        None \<Rightarrow> None
      | Some lastTs \<Rightarrow>
      if noRestartTime * 60 <s now - lastTs then
        case getClusterStatus w esUrl h2 of
          (Inl err, h3) \<Rightarrow> Some (localNodes, h3)
        | (Inr clusterStatus, h3) \<Rightarrow>
        case getClusterRoutingAllocation w esUrl h3 of
          (Inl err, h4) \<Rightarrow> Some (localNodes, h4)
        | (Inr clusterRoutingAllocation, h4) \<Rightarrow>
        if clusterRoutingAllocation = [] then Some (localNodes, h4)
        else if ToLower w clusterStatus \<noteq> ''red''
                \<and> ToLower w clusterRoutingAllocation = ''all'' then
          if dryRun then Some (localNodes, h4)
          else
            case restartSystemdService_v013 w systemdService h4 of
              (None, h5) \<Rightarrow>
                (case store_lastRestart service now localNodes of
                   None \<Rightarrow> None
                 | Some localNodes2 \<Rightarrow> Some (localNodes2, h5))
            | (Some err, h5) \<Rightarrow> Some (localNodes, h5)
        else Some (localNodes, h4)
      else Some (localNodes, h2))"

fun nodeKeeper_services_v013 ::
  "world \<Rightarrow> bool \<Rightarrow> go_int \<Rightarrow> string \<Rightarrow> string list \<Rightarrow> keeper_state \<Rightarrow> keeper_state option" where
  "nodeKeeper_services_v013 w dryRun noRestartTime esUrl [] st = Some st"
| "nodeKeeper_services_v013 w dryRun noRestartTime esUrl (service # invalidNodes) st =
     (case nodeKeeper_service_v013 w dryRun noRestartTime esUrl service st of
        None \<Rightarrow> None
      | Some st' \<Rightarrow> nodeKeeper_services_v013 w dryRun noRestartTime esUrl invalidNodes st')"

definition nodeKeeper_tick_v013 ::
  "world \<Rightarrow> bool \<Rightarrow> go_int \<Rightarrow> string \<Rightarrow> keeper_state \<Rightarrow> keeper_state option" where
  "nodeKeeper_tick_v013 w dryRun noRestartTime esUrl st =
     (case st of (localNodes, h) \<Rightarrow>
      case getActiveNodes w esUrl h of
        (Inl err, h1) \<Rightarrow> Some (localNodes, sleepLoop h1)
      | (Inr activeNodes, h1) \<Rightarrow>
          (case nodeKeeper_services_v013 w dryRun noRestartTime esUrl
                  (getInvalidNodes localNodes activeNodes) (localNodes, h1) of
             None \<Rightarrow> None
           | Some (localNodes', h2) \<Rightarrow> Some (localNodes', sleepLoop h2)))"

fun nodeKeeper_v013 ::
  "world \<Rightarrow> bool \<Rightarrow> go_int \<Rightarrow> string \<Rightarrow> nat \<Rightarrow> keeper_state \<Rightarrow> keeper_state option" where
  "nodeKeeper_v013 w dryRun noRestartTime esUrl 0 st = Some st"
| "nodeKeeper_v013 w dryRun noRestartTime esUrl (Suc n) st =
     (case nodeKeeper_tick_v013 w dryRun noRestartTime esUrl st of
        None \<Rightarrow> None
      | Some st' \<Rightarrow> nodeKeeper_v013 w dryRun noRestartTime esUrl n st')"

subsection \<open>Version 0.10\<close>

text \<open>
  No dry run and no test for the empty allocation setting. When the active nodes cannot
  be fetched the pass ends with \<^verbatim>\<open>continue\<close>, before the \<^verbatim>\<open>time.Sleep\<close> at the end of
  the loop body.
\<close>

definition nodeKeeper_service_v010 ::
  "world \<Rightarrow> go_int \<Rightarrow> string \<Rightarrow> string \<Rightarrow> keeper_state \<Rightarrow> keeper_state option" where
  "nodeKeeper_service_v010 w noRestartTime esURL service st =
     (case st of (localNodes, h) \<Rightarrow>
      case time_now w h of (now, h2) \<Rightarrow>
      case load_lastRestart localNodes service of
        None \<Rightarrow> None
      | Some lastTs \<Rightarrow>
      if noRestartTime * 60 <s now - lastTs then
        case getClusterStatus_v010 w esURL h2 of
          (Inl err, h3) \<Rightarrow> Some (localNodes, h3)
        | (Inr clusterStatus, h3) \<Rightarrow>
        case getClusterRoutingAllocation_v010 w esURL h3 of
          (Inl err, h4) \<Rightarrow> Some (localNodes, h4)
        | (Inr clusterRoutingAllocation, h4) \<Rightarrow>
        if ToLower w clusterStatus \<noteq> ''red''
           \<and> ToLower w clusterRoutingAllocation = ''all'' then
          case restartNode w service h4 of
            (None, h5) \<Rightarrow>
              (case store_lastRestart service now localNodes of
                 None \<Rightarrow> None
               | Some localNodes2 \<Rightarrow> Some (localNodes2, h5))
          | (Some err, h5) \<Rightarrow> Some (localNodes, h5)
        else Some (localNodes, h4)
      else Some (localNodes, h2))"

fun nodeKeeper_services_v010 ::
  "world \<Rightarrow> go_int \<Rightarrow> string \<Rightarrow> string list \<Rightarrow> keeper_state \<Rightarrow> keeper_state option" where
  "nodeKeeper_services_v010 w noRestartTime esURL [] st = Some st"
| "nodeKeeper_services_v010 w noRestartTime esURL (service # invalidNodes) st =
     (case nodeKeeper_service_v010 w noRestartTime esURL service st of
        None \<Rightarrow> None
      | Some st' \<Rightarrow> nodeKeeper_services_v010 w noRestartTime esURL invalidNodes st')"

definition nodeKeeper_tick_v010 ::
  "world \<Rightarrow> go_int \<Rightarrow> string \<Rightarrow> keeper_state \<Rightarrow> keeper_state option" where
  "nodeKeeper_tick_v010 w noRestartTime esURL st =
     (case st of (localNodes, h) \<Rightarrow>
      case getActiveNodes_v010 w esURL h of
        (Inl err, h1) \<Rightarrow> Some (localNodes, h1)
      | (Inr activeNodes, h1) \<Rightarrow>
          (case nodeKeeper_services_v010 w noRestartTime esURL
                  (getInvalidNodes localNodes activeNodes) (localNodes, h1) of
             None \<Rightarrow> None
           | Some (localNodes', h2) \<Rightarrow> Some (localNodes', h2 @ [Sleep interval])))"

fun nodeKeeper_v010 ::
  "world \<Rightarrow> go_int \<Rightarrow> string \<Rightarrow> nat \<Rightarrow> keeper_state \<Rightarrow> keeper_state option" where
  "nodeKeeper_v010 w noRestartTime esURL 0 st = Some st"
| "nodeKeeper_v010 w noRestartTime esURL (Suc n) st =
     (case nodeKeeper_tick_v010 w noRestartTime esURL st of
        None \<Rightarrow> None
      | Some st' \<Rightarrow> nodeKeeper_v010 w noRestartTime esURL n st')"

section \<open>Observing a run\<close>

text \<open>The two commands of versions 0.13 and 0.19, and the one of version 0.10, as events.\<close>

definition show_event :: "string \<Rightarrow> event" where
  "show_event service =
     Exec ''systemctl''
       [''--no-pager'', ''--property=ActiveEnterTimestamp'', ''show'', service @ ''.service'']"

definition restart_event :: "string \<Rightarrow> event" where
  "restart_event service = Exec ''systemctl'' [''restart'', service @ ''.service'']"

definition restart_event_v010 :: "string \<Rightarrow> event" where
  "restart_event_v010 service = Exec ''service'' [service, ''restart'']"

fun is_restart :: "event \<Rightarrow> bool" where
  "is_restart (Exec command args) =
     (command = ''systemctl'' \<and> take 1 args = [''restart'']
      \<or> command = ''service'' \<and> drop 1 args = [''restart''])"
| "is_restart _ = False"

fun is_sleep :: "event \<Rightarrow> bool" where
  "is_sleep (Sleep n) = True"
| "is_sleep _ = False"

text \<open>The events a step added to the history \<open>h\<close> it started from.\<close>

definition new_events :: "event list \<Rightarrow> keeper_state option \<Rightarrow> event list" where
  "new_events h r = (case r of None \<Rightarrow> [] | Some (localNodes, h') \<Rightarrow> drop (length h) h')"

text \<open>
  A family of small worlds for concrete runs. The cluster lives at \<^verbatim>\<open>es\<close>; it answers
  the node listing with \<open>nodes\<close> and the health and settings queries with status 200 and
  the bodies \<open>health\<close> and \<open>alloc\<close>, which the decoders hand on as they are. The clock
  starts at 1000 and moves on by 30 with every sleep. \<^verbatim>\<open>systemctl show\<close> behaves as
  \<open>shown\<close>, a restart command ends with \<open>restart_err\<close>.
\<close>

definition demo_world ::
  "http_outcome \<Rightarrow> string \<Rightarrow> string \<Rightarrow> cmd_outcome \<Rightarrow> string option \<Rightarrow> world" where
  "demo_world nodes health alloc shown restart_err =
     \<lparr>http = (\<lambda>h. case last h of
                HttpGet url \<Rightarrow>
                  if url = ''es/_cluster/health'' then Responded 200 ''200 OK'' health
                  else if url = ''es/_cluster/settings'' then Responded 200 ''200 OK'' alloc
                  else nodes
              | _ \<Rightarrow> RequestFailed ''no request''),
      unix_time = (\<lambda>h. 1000 + 30 * of_nat (length (filter is_sleep h))),
      run = (\<lambda>h. if is_restart (last h)
                then \<lparr>run_error = restart_err, stdout = [], stderr = []\<rparr>
                else shown),
      read_file = (\<lambda>file. Inl ''no such file''),
      json_nodes = (\<lambda>data. if data = ''[]'' then Some [] else None),
      json_status = Some,
      json_enable = Some,
      yaml_nodes = (\<lambda>source. Inl ''cannot unmarshal''),
      find_timestamp = (\<lambda>out. if out = [] then None else Some out),
      time_parse = (\<lambda>s. if s = ''T100'' then Inr 100 else Inl ''cannot parse''),
      unicode_lower = (\<lambda>s. s)\<rparr>"

definition no_nodes :: http_outcome where
  "no_nodes = Responded 200 ''200 OK'' ''[]''"

definition show_fails :: cmd_outcome where
  "show_fails = \<lparr>run_error = Some ''exit status 1'', stdout = [], stderr = ''not found''\<rparr>"

definition show_T100 :: cmd_outcome where
  "show_T100 = \<lparr>run_error = None, stdout = ''T100'', stderr = []\<rparr>"

definition svc1_config :: LocalNodes where
  "svc1_config = [\<lparr>Instance = ''instA'', Service = ''svc1''\<rparr>]"

text \<open>
  The clock reading of the pass a history is in: the clock at the history up to and
  including its last \<open>Now\<close>.
\<close>

definition pass_now :: "world \<Rightarrow> event list \<Rightarrow> go_int" where
  "pass_now w h = unix_time w (rev (dropWhile (\<lambda>e. e \<noteq> Now) (rev h)))"

text \<open>
  The time of the last successful restart of a service, read off the events \<open>evs\<close> that
  follow a history \<open>h\<close>: every \<^verbatim>\<open>systemctl restart\<close> of the service that the world lets
  succeed replaces the time by the clock reading of its pass; \<open>t\<close> is the time before.
\<close>

fun last_successful_restart ::
  "world \<Rightarrow> string \<Rightarrow> event list \<Rightarrow> event list \<Rightarrow> go_int \<Rightarrow> go_int" where
  "last_successful_restart w service h [] t = t"
| "last_successful_restart w service h (e # es) t =
     last_successful_restart w service (h @ [e]) es
       (if e = restart_event service \<and> run_error (run w (h @ [e])) = None
        then pass_now w h else t)"

text \<open>What a loop over a list of services leaves in the history and the registry.\<close>

definition loop_summary ::
  "string list \<Rightarrow> registry \<Rightarrow> registry \<Rightarrow> event list \<Rightarrow> bool" where
  "loop_summary ss l l' evs \<longleftrightarrow>
     length (filter (\<lambda>e. e = Now) evs) = length ss
     \<and> (\<forall>e \<in> set evs. \<not> is_sleep e)
     \<and> (\<forall>x. restart_event x \<in> set evs \<longrightarrow> x \<in> set ss)
     \<and> (\<forall>x. restart_event_v010 x \<in> set evs \<longrightarrow> x \<in> set ss)
     \<and> (\<forall>x. show_event x \<in> set evs \<longrightarrow> x \<in> set ss)
     \<and> (\<forall>x. x \<notin> set ss \<longrightarrow> map_of l' x = map_of l x)"

text \<open>
  A world in which the cluster lists the one node \<^verbatim>\<open>instA\<close>, and a configuration of two
  services of which the first expects that instance.
\<close>

definition instA_world :: world where
  "instA_world =
     (demo_world (Responded 200 ''200 OK'' ''[instA]'') ''green'' ''all'' show_fails None)
       \<lparr>json_nodes := \<lambda>data. Some [''instA'']\<rparr>"

definition two_config :: LocalNodes where
  "two_config = [\<lparr>Instance = ''instA'', Service = ''svc1''\<rparr>,
                 \<lparr>Instance = ''instB'', Service = ''svc2''\<rparr>]"

section \<open>Properties\<close>

lemma distinct_fold_update:
  "distinct (map fst acc) \<Longrightarrow>
   distinct (map fst (fold (\<lambda>x m. AList.update (f x) (g x) m) xs acc))"
  by (induction xs arbitrary: acc) (simp_all add: distinct_update)

lemma distinct_localNodesToMap: "distinct (map fst (localNodesToMap ns))"
  unfolding localNodesToMap_def by (rule distinct_fold_update) simp

subsection \<open>Every call adds one event\<close>

lemma snd_esQueryGet: "snd (esQueryGet w url h) = h @ [HttpGet url]"
  by (simp add: esQueryGet_def Let_def split: http_outcome.splits)

lemma snd_httpGet: "snd (httpGet w url h) = h @ [HttpGet url]"
  by (simp add: httpGet_def Let_def split: http_outcome.splits)

lemma snd_getActiveNodes:
  "snd (getActiveNodes w u h) = h @ [HttpGet (u @ ''/_cat/nodes?h=name&format=json'')]"
  using snd_httpGet [of w "u @ ''/_cat/nodes?h=name&format=json''" h]
  by (auto simp: getActiveNodes_def split: prod.splits sum.splits)

lemma snd_getClusterStatus:
  "snd (getClusterStatus w u h) = h @ [HttpGet (u @ ''/_cluster/health'')]"
  using snd_httpGet [of w "u @ ''/_cluster/health''" h]
  by (auto simp: getClusterStatus_def split: prod.splits sum.splits)

lemma snd_getClusterRoutingAllocation:
  "snd (getClusterRoutingAllocation w u h) = h @ [HttpGet (u @ ''/_cluster/settings'')]"
  using snd_httpGet [of w "u @ ''/_cluster/settings''" h]
  by (auto simp: getClusterRoutingAllocation_def split: prod.splits sum.splits)

lemma snd_getActiveNodes_v010:
  "snd (getActiveNodes_v010 w u h) = h @ [HttpGet (u @ ''/_cat/nodes?h=name&format=json'')]"
  using snd_esQueryGet [of w "u @ ''/_cat/nodes?h=name&format=json''" h]
  by (auto simp: getActiveNodes_v010_def split: prod.splits sum.splits)

lemma snd_getClusterStatus_v010:
  "snd (getClusterStatus_v010 w u h) = h @ [HttpGet (u @ ''/_cluster/health'')]"
  using snd_esQueryGet [of w "u @ ''/_cluster/health''" h]
  by (auto simp: getClusterStatus_v010_def split: prod.splits sum.splits)

lemma snd_getClusterRoutingAllocation_v010:
  "snd (getClusterRoutingAllocation_v010 w u h) = h @ [HttpGet (u @ ''/_cluster/settings'')]"
  using snd_esQueryGet [of w "u @ ''/_cluster/settings''" h]
  by (auto simp: getClusterRoutingAllocation_v010_def split: prod.splits sum.splits)

lemma snd_executeCommand: "snd (executeCommand w c args h) = h @ [Exec c args]"
  by (simp add: executeCommand_def Let_def split: option.splits)

lemma snd_restartSystemdService:
  "snd (restartSystemdService w (s @ ''.service'') h) = h @ [restart_event s]"
  using snd_executeCommand [of w "''systemctl''" "[''restart'', s @ ''.service'']" h]
  by (auto simp: restartSystemdService_def restart_event_def split: prod.splits sum.splits)

lemma snd_restartSystemdService_v013:
  "snd (restartSystemdService_v013 w (s @ ''.service'') h) = h @ [restart_event s]"
  by (simp add: restartSystemdService_v013_def restart_event_def Let_def split: option.splits)

lemma snd_restartNode: "snd (restartNode w s h) = h @ [restart_event_v010 s]"
  by (simp add: restartNode_def restart_event_v010_def Let_def split: option.splits)

lemma snd_getSystemd:
  "snd (getSystemdServiceActiveEnterTimestamp w (s @ ''.service'') h) = h @ [show_event s]"
  using snd_executeCommand [of w "''systemctl''"
      "[''--no-pager'', ''--property=ActiveEnterTimestamp'', ''show'', s @ ''.service'']" h]
  by (auto simp: getSystemdServiceActiveEnterTimestamp_def show_event_def
      split: prod.splits sum.splits option.splits)

lemmas history_simps =
  snd_getActiveNodes snd_getClusterStatus snd_getClusterRoutingAllocation
  snd_getActiveNodes_v010 snd_getClusterStatus_v010 snd_getClusterRoutingAllocation_v010
  snd_restartSystemdService snd_restartSystemdService_v013 snd_restartNode snd_getSystemd

lemma is_restart_events [simp]:
  "is_restart (restart_event s)" "is_restart (restart_event_v010 s)" "\<not> is_restart (show_event s)"
  by (simp_all add: restart_event_def restart_event_v010_def show_event_def)

text \<open>The definitions a concrete run unfolds.\<close>

lemmas run_simps =
  nodeKeeper_service_v019_def nodeKeeper_rederive_v019_def nodeKeeper_decide_v019_def
  nodeKeeper_service_v013_def nodeKeeper_service_v010_def
  nodeKeeper_tick_v019_def nodeKeeper_tick_v013_def nodeKeeper_tick_v010_def
  getActiveNodes_def getClusterStatus_def getClusterRoutingAllocation_def httpGet_def
  getActiveNodes_v010_def getClusterStatus_v010_def getClusterRoutingAllocation_v010_def
  esQueryGet_def parseNodes_def parseClusterStatus_def parseClusterSettings_def
  restartNode_def restartSystemdService_v013_def restartSystemdService_def executeCommand_def
  getSystemdServiceActiveEnterTimestamp_def sleepLoop_def interval_def
  ToLower_def lower_byte_def char_of_def bit_0 load_lastRestart_def store_lastRestart_def
  time_now_def
  getInvalidNodes_def localNodesToMap_def new_events_def
  show_event_def restart_event_def restart_event_v010_def
  demo_world_def no_nodes_def show_fails_def show_T100_def svc1_config_def

subsection \<open>The safety gate\<close>

lemma restart_needs_gate_v019:
  assumes "\<exists>ev \<in> set (new_events h
             (nodeKeeper_service_v019 w dryRun period esUrl service (localNodes, h))). is_restart ev"
  shows "\<exists>status alloc.
           fst (getClusterStatus w esUrl (h @ [show_event service, Now])) = Inr status \<and>
           fst (getClusterRoutingAllocation w esUrl
                  (h @ [show_event service, Now, HttpGet (esUrl @ ''/_cluster/health'')]))
             = Inr alloc \<and>
           ToLower w status \<noteq> ''red'' \<and> ToLower w alloc = ''all''"
  using assms
  by (auto simp: nodeKeeper_service_v019_def nodeKeeper_rederive_v019_def
      nodeKeeper_decide_v019_def time_now_def new_events_def Let_def split_beta history_simps
      split: sum.splits option.splits if_splits)

lemma restart_needs_gate_v013:
  assumes "\<exists>ev \<in> set (new_events h
             (nodeKeeper_service_v013 w dryRun noRestartTime esUrl service (localNodes, h))).
             is_restart ev"
  shows "\<exists>status alloc.
           fst (getClusterStatus w esUrl (h @ [Now])) = Inr status \<and>
           fst (getClusterRoutingAllocation w esUrl
                  (h @ [Now, HttpGet (esUrl @ ''/_cluster/health'')])) = Inr alloc \<and>
           ToLower w status \<noteq> ''red'' \<and> ToLower w alloc = ''all''"
  using assms
  by (auto simp: nodeKeeper_service_v013_def time_now_def new_events_def Let_def split_beta
      history_simps split: sum.splits option.splits if_splits)

lemma restart_needs_gate_v010:
  assumes "\<exists>ev \<in> set (new_events h
             (nodeKeeper_service_v010 w noRestartTime esURL service (localNodes, h))).
             is_restart ev"
  shows "\<exists>status alloc.
           fst (getClusterStatus_v010 w esURL (h @ [Now])) = Inr status \<and>
           fst (getClusterRoutingAllocation_v010 w esURL
                  (h @ [Now, HttpGet (esURL @ ''/_cluster/health'')])) = Inr alloc \<and>
           ToLower w status \<noteq> ''red'' \<and> ToLower w alloc = ''all''"
  using assms
  by (auto simp: nodeKeeper_service_v010_def time_now_def new_events_def Let_def split_beta
      history_simps split: sum.splits option.splits if_splits)

lemma ToLower_Nil: "ToLower w [] = []"
  by (simp add: ToLower_def)

text \<open>
  C1. In each of the three versions, when the pass over one invalid service runs a restart
  command, the health and the allocation setting were both fetched in that pass, at the
  points where the loop body asks for them, and the lower-cased health is not \<open>red\<close> and
  the lower-cased allocation setting is \<open>all\<close> (so the setting is not empty). Every other
  outcome of the two fetches leaves the pass without a restart command.
\<close>

theorem restart_only_when_safe:
  "((\<exists>ev \<in> set (new_events h
        (nodeKeeper_service_v019 w dryRun period esUrl service (localNodes, h))). is_restart ev)
    \<longrightarrow> (\<exists>status alloc.
           fst (getClusterStatus w esUrl (h @ [show_event service, Now])) = Inr status \<and>
           fst (getClusterRoutingAllocation w esUrl
                  (h @ [show_event service, Now, HttpGet (esUrl @ ''/_cluster/health'')]))
             = Inr alloc \<and>
           ToLower w status \<noteq> ''red'' \<and> ToLower w alloc = ''all'' \<and> alloc \<noteq> []))
   \<and> ((\<exists>ev \<in> set (new_events h
        (nodeKeeper_service_v013 w dryRun noRestartTime esUrl service (localNodes, h))).
          is_restart ev)
    \<longrightarrow> (\<exists>status alloc.
           fst (getClusterStatus w esUrl (h @ [Now])) = Inr status \<and>
           fst (getClusterRoutingAllocation w esUrl
                  (h @ [Now, HttpGet (esUrl @ ''/_cluster/health'')])) = Inr alloc \<and>
           ToLower w status \<noteq> ''red'' \<and> ToLower w alloc = ''all'' \<and> alloc \<noteq> []))
   \<and> ((\<exists>ev \<in> set (new_events h
        (nodeKeeper_service_v010 w noRestartTime esUrl service (localNodes, h))). is_restart ev)
    \<longrightarrow> (\<exists>status alloc.
           fst (getClusterStatus_v010 w esUrl (h @ [Now])) = Inr status \<and>
           fst (getClusterRoutingAllocation_v010 w esUrl
                  (h @ [Now, HttpGet (esUrl @ ''/_cluster/health'')])) = Inr alloc \<and>
           ToLower w status \<noteq> ''red'' \<and> ToLower w alloc = ''all'' \<and> alloc \<noteq> []))"
proof -
  have nonempty: "alloc \<noteq> []" if "ToLower w alloc = ''all''" for alloc
    using that ToLower_Nil [of w] by auto
  show ?thesis
    using restart_needs_gate_v019 [of h w dryRun period esUrl service localNodes]
      restart_needs_gate_v013 [of h w dryRun noRestartTime esUrl service localNodes]
      restart_needs_gate_v010 [of h w noRestartTime esUrl service localNodes]
      nonempty
    by blast
qed

text \<open>
  The three versions in a world with a green cluster and allocation \<open>all\<close>: each restarts
  the one service of the registry, whose instance the cluster does not list.
\<close>

theorem restart_only_when_safe_witness:
  "(\<exists>ev \<in> set (new_events []
        (nodeKeeper_service_v019 (demo_world no_nodes ''Green'' ''ALL'' show_fails None)
           False 600 ''es'' ''svc1'' (localNodesToMap svc1_config, []))). is_restart ev)
   \<and> (\<exists>ev \<in> set (new_events []
        (nodeKeeper_service_v013 (demo_world no_nodes ''Green'' ''ALL'' show_fails None)
           False 10 ''es'' ''svc1'' (localNodesToMap svc1_config, []))). is_restart ev)
   \<and> (\<exists>ev \<in> set (new_events []
        (nodeKeeper_service_v010 (demo_world no_nodes ''Green'' ''ALL'' show_fails None)
           10 ''es'' ''svc1'' (localNodesToMap svc1_config, []))). is_restart ev)
   \<and> (\<exists>status alloc.
        fst (getClusterStatus (demo_world no_nodes ''Green'' ''ALL'' show_fails None) ''es''
               ([] @ [show_event ''svc1'', Now])) = Inr status \<and>
        ToLower (demo_world no_nodes ''Green'' ''ALL'' show_fails None) status \<noteq> ''red'' \<and>
        ToLower (demo_world no_nodes ''Green'' ''ALL'' show_fails None) alloc = ''all'')"
proof -
  let ?w = "demo_world no_nodes ''Green'' ''ALL'' show_fails None"
  have a: "\<exists>ev \<in> set (new_events []
        (nodeKeeper_service_v019 ?w False 600 ''es'' ''svc1'' (localNodesToMap svc1_config, []))).
        is_restart ev"
    by (simp add: run_simps)
  have b: "\<exists>ev \<in> set (new_events []
        (nodeKeeper_service_v013 ?w False 10 ''es'' ''svc1'' (localNodesToMap svc1_config, []))).
        is_restart ev"
    by (simp add: run_simps)
  have c: "\<exists>ev \<in> set (new_events []
        (nodeKeeper_service_v010 ?w 10 ''es'' ''svc1'' (localNodesToMap svc1_config, []))).
        is_restart ev"
    by (simp add: run_simps)
  from a restart_only_when_safe [of "[]" ?w False 600 "''es''" "''svc1''"
      "localNodesToMap svc1_config"]
  have "\<exists>status alloc.
        fst (getClusterStatus ?w ''es'' ([] @ [show_event ''svc1'', Now])) = Inr status \<and>
        ToLower ?w status \<noteq> ''red'' \<and> ToLower ?w alloc = ''all''"
    by blast
  with a b c show ?thesis by blast
qed

subsection \<open>The exclusion period\<close>

text \<open>
  The guard compares 64-bit values: \<open>now - lastRestart\<close> wraps, and so does the product of
  the flag and 60 in the versions that count minutes. Where neither leaves the 64-bit
  range the guard is the comparison of the integers.
\<close>

lemma sint_diff_in_range:
  fixes a b :: go_int
  assumes "- (2 ^ 63) \<le> sint a - sint b" "sint a - sint b < 2 ^ 63"
  shows "sint (a - b) = sint a - sint b"
  using assms by (simp add: sint_word_ariths signed_take_bit_int_eq_self)

lemma sint_times_60_in_range:
  fixes n :: go_int
  assumes "- (2 ^ 63) \<le> sint n * 60" "sint n * 60 < 2 ^ 63"
  shows "sint (n * 60) = sint n * 60"
  using assms by (simp add: sint_word_ariths signed_take_bit_int_eq_self)

lemma guard_fails_seconds:
  fixes now lastTs period :: go_int
  assumes "sint now - sint lastTs \<le> sint period"
    and "- (2 ^ 63) \<le> sint now - sint lastTs" "sint now - sint lastTs < 2 ^ 63"
  shows "\<not> period <s now - lastTs"
  using assms by (simp add: word_sless_alt sint_diff_in_range)

lemma guard_fails_minutes:
  fixes now lastTs noRestartTime :: go_int
  assumes "sint now - sint lastTs \<le> sint noRestartTime * 60"
    and "- (2 ^ 63) \<le> sint now - sint lastTs" "sint now - sint lastTs < 2 ^ 63"
    and "- (2 ^ 63) \<le> sint noRestartTime * 60" "sint noRestartTime * 60 < 2 ^ 63"
  shows "\<not> noRestartTime * 60 <s now - lastTs"
  using assms by (simp add: word_sless_alt sint_diff_in_range sint_times_60_in_range)

text \<open>
  C2, as the code has it. Let the elapsed time be the integer \<open>now - lastRestart\<close> and the
  configured exclusion period the integer value of the flag (version 0.19, seconds) or
  sixty times it (versions 0.13 and 0.10, minutes). When the elapsed time is at most the
  period, and the elapsed time and, where it is computed, the product fit in 64 bits, the
  pass over the service ends after reading the clock: the registry is as it was at the
  check, and the pass added no HTTP request and no restart command, whatever the cluster
  would have answered. In version 0.19 the check is made on the registry as the
  re-derivation left it.
\<close>

theorem suppressed_within_exclusion_period:
  "(nodeKeeper_rederive_v019 w service (localNodes, h) = Some (localNodes1, h1)
      \<and> load_lastRestart localNodes1 service = Some lastTs
      \<and> sint (unix_time w (h1 @ [Now])) - sint lastTs \<le> sint period
      \<and> - (2 ^ 63) \<le> sint (unix_time w (h1 @ [Now])) - sint lastTs
      \<and> sint (unix_time w (h1 @ [Now])) - sint lastTs < 2 ^ 63
    \<longrightarrow> nodeKeeper_service_v019 w dryRun period esUrl service (localNodes, h)
          = Some (localNodes1, h @ [show_event service, Now]))
   \<and> (load_lastRestart localNodes service = Some lastTs
      \<and> sint (unix_time w (h @ [Now])) - sint lastTs \<le> sint noRestartTime * 60
      \<and> - (2 ^ 63) \<le> sint (unix_time w (h @ [Now])) - sint lastTs
      \<and> sint (unix_time w (h @ [Now])) - sint lastTs < 2 ^ 63
      \<and> - (2 ^ 63) \<le> sint noRestartTime * 60 \<and> sint noRestartTime * 60 < 2 ^ 63
    \<longrightarrow> nodeKeeper_service_v013 w dryRun noRestartTime esUrl service (localNodes, h)
          = Some (localNodes, h @ [Now]))
   \<and> (load_lastRestart localNodes service = Some lastTs
      \<and> sint (unix_time w (h @ [Now])) - sint lastTs \<le> sint noRestartTime * 60
      \<and> - (2 ^ 63) \<le> sint (unix_time w (h @ [Now])) - sint lastTs
      \<and> sint (unix_time w (h @ [Now])) - sint lastTs < 2 ^ 63
      \<and> - (2 ^ 63) \<le> sint noRestartTime * 60 \<and> sint noRestartTime * 60 < 2 ^ 63
    \<longrightarrow> nodeKeeper_service_v010 w noRestartTime esUrl service (localNodes, h)
          = Some (localNodes, h @ [Now]))"
proof (intro conjI impI)
  assume a: "nodeKeeper_rederive_v019 w service (localNodes, h) = Some (localNodes1, h1)
      \<and> load_lastRestart localNodes1 service = Some lastTs
      \<and> sint (unix_time w (h1 @ [Now])) - sint lastTs \<le> sint period
      \<and> - (2 ^ 63) \<le> sint (unix_time w (h1 @ [Now])) - sint lastTs
      \<and> sint (unix_time w (h1 @ [Now])) - sint lastTs < 2 ^ 63"
  then have h1: "h1 = h @ [show_event service]"
    using snd_getSystemd [of w service h]
    by (auto simp: nodeKeeper_rederive_v019_def split: prod.splits sum.splits option.splits)
  from a have "\<not> period <s unix_time w (h1 @ [Now]) - lastTs"
    using guard_fails_seconds by blast
  with a h1 show "nodeKeeper_service_v019 w dryRun period esUrl service (localNodes, h)
          = Some (localNodes1, h @ [show_event service, Now])"
    by (simp add: nodeKeeper_service_v019_def nodeKeeper_decide_v019_def time_now_def)
next
  assume a: "load_lastRestart localNodes service = Some lastTs
      \<and> sint (unix_time w (h @ [Now])) - sint lastTs \<le> sint noRestartTime * 60
      \<and> - (2 ^ 63) \<le> sint (unix_time w (h @ [Now])) - sint lastTs
      \<and> sint (unix_time w (h @ [Now])) - sint lastTs < 2 ^ 63
      \<and> - (2 ^ 63) \<le> sint noRestartTime * 60 \<and> sint noRestartTime * 60 < 2 ^ 63"
  then have g: "\<not> noRestartTime * 60 <s unix_time w (h @ [Now]) - lastTs"
    using guard_fails_minutes by blast
  from a g show "nodeKeeper_service_v013 w dryRun noRestartTime esUrl service (localNodes, h)
          = Some (localNodes, h @ [Now])"
    by (simp add: nodeKeeper_service_v013_def time_now_def)
  from a g show "nodeKeeper_service_v010 w noRestartTime esUrl service (localNodes, h)
          = Some (localNodes, h @ [Now])"
    by (simp add: nodeKeeper_service_v010_def time_now_def)
qed

text \<open>
  A service last restarted at 0, the clock at 1000 and an exclusion period of exactly 1000
  seconds (20 minutes in the versions that count minutes), in a world where the cluster is
  green and allocation is \<open>all\<close>.
\<close>

theorem suppressed_within_exclusion_period_witness:
  "nodeKeeper_rederive_v019 (demo_world no_nodes ''green'' ''all'' show_fails None) ''svc1''
       (localNodesToMap svc1_config, [])
     = Some (localNodesToMap svc1_config, [show_event ''svc1''])
   \<and> load_lastRestart (localNodesToMap svc1_config) ''svc1'' = Some 0
   \<and> sint (unix_time (demo_world no_nodes ''green'' ''all'' show_fails None)
              ([show_event ''svc1''] @ [Now])) - sint (0 :: go_int) \<le> sint (1000 :: go_int)
   \<and> - (2 ^ 63) \<le> sint (unix_time (demo_world no_nodes ''green'' ''all'' show_fails None)
              ([show_event ''svc1''] @ [Now])) - sint (0 :: go_int)
   \<and> sint (unix_time (demo_world no_nodes ''green'' ''all'' show_fails None)
              ([show_event ''svc1''] @ [Now])) - sint (0 :: go_int) < 2 ^ 63
   \<and> sint (unix_time (demo_world no_nodes ''green'' ''all'' show_fails None)
              ([] @ [Now])) - sint (0 :: go_int) \<le> sint (20 :: go_int) * 60
   \<and> - (2 ^ 63) \<le> sint (unix_time (demo_world no_nodes ''green'' ''all'' show_fails None)
              ([] @ [Now])) - sint (0 :: go_int)
   \<and> sint (unix_time (demo_world no_nodes ''green'' ''all'' show_fails None)
              ([] @ [Now])) - sint (0 :: go_int) < 2 ^ 63
   \<and> - (2 ^ 63) \<le> sint (20 :: go_int) * 60 \<and> sint (20 :: go_int) * 60 < 2 ^ 63
   \<and> nodeKeeper_service_v019 (demo_world no_nodes ''green'' ''all'' show_fails None)
        False 1000 ''es'' ''svc1'' (localNodesToMap svc1_config, [])
      = Some (localNodesToMap svc1_config, [] @ [show_event ''svc1'', Now])
   \<and> nodeKeeper_service_v013 (demo_world no_nodes ''green'' ''all'' show_fails None)
        False 20 ''es'' ''svc1'' (localNodesToMap svc1_config, [])
      = Some (localNodesToMap svc1_config, [] @ [Now])
   \<and> nodeKeeper_service_v010 (demo_world no_nodes ''green'' ''all'' show_fails None)
        20 ''es'' ''svc1'' (localNodesToMap svc1_config, [])
      = Some (localNodesToMap svc1_config, [] @ [Now])"
proof -
  let ?w = "demo_world no_nodes ''green'' ''all'' show_fails None"
  let ?reg = "localNodesToMap svc1_config"
  have a: "nodeKeeper_rederive_v019 ?w ''svc1'' (?reg, []) = Some (?reg, [show_event ''svc1''])"
    by (simp add: run_simps)
  have b: "load_lastRestart ?reg ''svc1'' = Some 0"
    by (simp add: run_simps)
  have c: "sint (unix_time ?w ([show_event ''svc1''] @ [Now])) - sint (0 :: go_int)
             \<le> sint (1000 :: go_int)"
    "- (2 ^ 63) \<le> sint (unix_time ?w ([show_event ''svc1''] @ [Now])) - sint (0 :: go_int)"
    "sint (unix_time ?w ([show_event ''svc1''] @ [Now])) - sint (0 :: go_int) < 2 ^ 63"
    by (simp_all add: run_simps)
  have d: "sint (unix_time ?w ([] @ [Now])) - sint (0 :: go_int) \<le> sint (20 :: go_int) * 60"
    "- (2 ^ 63) \<le> sint (unix_time ?w ([] @ [Now])) - sint (0 :: go_int)"
    "sint (unix_time ?w ([] @ [Now])) - sint (0 :: go_int) < 2 ^ 63"
    "- (2 ^ 63) \<le> sint (20 :: go_int) * 60" "sint (20 :: go_int) * 60 < 2 ^ 63"
    by (simp_all add: run_simps)
  note t = suppressed_within_exclusion_period
  from a b c t [of ?w "''svc1''" ?reg "[]" ?reg "[show_event ''svc1'']" 0 1000 False "''es''"]
  have e: "nodeKeeper_service_v019 ?w False 1000 ''es'' ''svc1'' (?reg, [])
      = Some (?reg, [] @ [show_event ''svc1'', Now])"
    by blast
  from b d t [of ?w "''svc1''" ?reg "[]" ?reg "[]" 0 1000 False "''es''" 20]
  have f: "nodeKeeper_service_v013 ?w False 20 ''es'' ''svc1'' (?reg, []) = Some (?reg, [] @ [Now])"
    and g: "nodeKeeper_service_v010 ?w 20 ''es'' ''svc1'' (?reg, []) = Some (?reg, [] @ [Now])"
    by blast+
  from a b c d e f g show ?thesis by blast
qed

text \<open>
  C2 fails as it is stated. The flag \<^verbatim>\<open>--no-restart-time\<close> is 153722867280912931 minutes;
  sixty times that is beyond the 64-bit range and wraps to a negative number. A service
  last restarted at 0 is checked at clock 1000: the elapsed 1000 seconds are far below the
  configured period, and versions 0.13 and 0.10 fetch health and allocation and restart it.
\<close>

theorem exclusion_period_overflows:
  "load_lastRestart (localNodesToMap svc1_config) ''svc1'' = Some 0
   \<and> unix_time (demo_world no_nodes ''green'' ''all'' show_fails None) ([] @ [Now]) = 1000
   \<and> sint (1000 :: go_int) - sint (0 :: go_int) \<le> sint (153722867280912931 :: go_int) * 60
   \<and> sint (153722867280912931 * 60 :: go_int) < 0
   \<and> nodeKeeper_service_v013 (demo_world no_nodes ''green'' ''all'' show_fails None)
        False 153722867280912931 ''es'' ''svc1'' (localNodesToMap svc1_config, [])
      = Some ([(''svc1'', \<lparr>instanceName = ''instA'', lastRestart = 1000\<rparr>)],
              [Now, HttpGet ''es/_cluster/health'', HttpGet ''es/_cluster/settings'',
               restart_event ''svc1''])
   \<and> nodeKeeper_service_v010 (demo_world no_nodes ''green'' ''all'' show_fails None)
        153722867280912931 ''es'' ''svc1'' (localNodesToMap svc1_config, [])
      = Some ([(''svc1'', \<lparr>instanceName = ''instA'', lastRestart = 1000\<rparr>)],
              [Now, HttpGet ''es/_cluster/health'', HttpGet ''es/_cluster/settings'',
               restart_event_v010 ''svc1''])"
  by (simp add: run_simps)

subsection \<open>Dry run\<close>

lemma dry_decide_v019:
  "nodeKeeper_decide_v019 w True p u s (l, h) = Some (l', h') \<Longrightarrow>
   l' = l \<and> (\<exists>evs. h' = h @ evs \<and> (\<forall>ev \<in> set evs. \<not> is_restart ev))"
  by (auto simp: nodeKeeper_decide_v019_def time_now_def Let_def split_beta history_simps
      split: sum.splits option.splits if_splits)

lemma dry_service_v019:
  "nodeKeeper_service_v019 w True p u s (l, h) = Some (l', h') \<Longrightarrow>
   \<exists>evs. h' = h @ evs \<and> (\<forall>ev \<in> set evs. \<not> is_restart ev)"
  by (auto simp: nodeKeeper_service_v019_def nodeKeeper_rederive_v019_def split_beta history_simps
      split: sum.splits option.splits if_splits dest!: dry_decide_v019)

lemma dry_service_v013:
  "nodeKeeper_service_v013 w True p u s (l, h) = Some (l', h') \<Longrightarrow>
   l' = l \<and> (\<exists>evs. h' = h @ evs \<and> (\<forall>ev \<in> set evs. \<not> is_restart ev))"
  by (auto simp: nodeKeeper_service_v013_def time_now_def Let_def split_beta history_simps
      split: sum.splits option.splits if_splits)

lemma dry_services_v019:
  "nodeKeeper_services_v019 w True p u ss (l, h) = Some (l', h') \<Longrightarrow>
   \<exists>evs. h' = h @ evs \<and> (\<forall>ev \<in> set evs. \<not> is_restart ev)"
proof (induction ss arbitrary: l h)
  case Nil
  then show ?case by simp
next
  case (Cons s ss)
  then obtain l1 h1 where 1: "nodeKeeper_service_v019 w True p u s (l, h) = Some (l1, h1)"
    and 2: "nodeKeeper_services_v019 w True p u ss (l1, h1) = Some (l', h')"
    by (auto split: option.splits)
  from dry_service_v019 [OF 1] Cons.IH [OF 2] show ?case by auto
qed

lemma dry_services_v013:
  "nodeKeeper_services_v013 w True p u ss (l, h) = Some (l', h') \<Longrightarrow>
   l' = l \<and> (\<exists>evs. h' = h @ evs \<and> (\<forall>ev \<in> set evs. \<not> is_restart ev))"
proof (induction ss arbitrary: l h)
  case Nil
  then show ?case by simp
next
  case (Cons s ss)
  then obtain l1 h1 where 1: "nodeKeeper_service_v013 w True p u s (l, h) = Some (l1, h1)"
    and 2: "nodeKeeper_services_v013 w True p u ss (l1, h1) = Some (l', h')"
    by (auto split: option.splits)
  from dry_service_v013 [OF 1] Cons.IH [OF 2] show ?case by auto
qed

lemma dry_tick_v019:
  "nodeKeeper_tick_v019 w True p u (l, h) = Some (l', h') \<Longrightarrow>
   \<exists>evs. h' = h @ evs \<and> (\<forall>ev \<in> set evs. \<not> is_restart ev)"
  by (auto simp: nodeKeeper_tick_v019_def sleepLoop_def split_beta history_simps
      split: sum.splits option.splits dest!: dry_services_v019)

lemma dry_tick_v013:
  "nodeKeeper_tick_v013 w True p u (l, h) = Some (l', h') \<Longrightarrow>
   l' = l \<and> (\<exists>evs. h' = h @ evs \<and> (\<forall>ev \<in> set evs. \<not> is_restart ev))"
  by (auto simp: nodeKeeper_tick_v013_def sleepLoop_def split_beta history_simps
      split: sum.splits option.splits dest!: dry_services_v013)

lemma dry_run_v019:
  "nodeKeeper_v019 w True p u n (l, h) = Some (l', h') \<Longrightarrow>
   \<exists>evs. h' = h @ evs \<and> (\<forall>ev \<in> set evs. \<not> is_restart ev)"
proof (induction n arbitrary: l h)
  case 0
  then show ?case by simp
next
  case (Suc n)
  then obtain l1 h1 where 1: "nodeKeeper_tick_v019 w True p u (l, h) = Some (l1, h1)"
    and 2: "nodeKeeper_v019 w True p u n (l1, h1) = Some (l', h')"
    by (auto split: option.splits)
  from dry_tick_v019 [OF 1] Suc.IH [OF 2] show ?case by auto
qed

lemma dry_run_v013:
  "nodeKeeper_v013 w True p u n (l, h) = Some (l', h') \<Longrightarrow>
   l' = l \<and> (\<exists>evs. h' = h @ evs \<and> (\<forall>ev \<in> set evs. \<not> is_restart ev))"
proof (induction n arbitrary: l h)
  case 0
  then show ?case by simp
next
  case (Suc n)
  then obtain l1 h1 where 1: "nodeKeeper_tick_v013 w True p u (l, h) = Some (l1, h1)"
    and 2: "nodeKeeper_v013 w True p u n (l1, h1) = Some (l', h')"
    by (auto split: option.splits)
  from dry_tick_v013 [OF 1] Suc.IH [OF 2] show ?case by auto
qed

text \<open>
  C7. With dry run on, the decision part of a pass ends with the registry as it found it,
  in version 0.19 and in version 0.13, also when the exclusion check and the safety gate
  let the restart through; and however many passes of the outer loop are run, from any
  registry and in any world, no restart command is among the events of the run.
\<close>

theorem dry_run_never_restarts:
  "(nodeKeeper_decide_v019 w True period esUrl service (localNodes, h) = Some (localNodes', h')
      \<longrightarrow> localNodes' = localNodes)
   \<and> (nodeKeeper_service_v013 w True noRestartTime esUrl service (localNodes, h)
        = Some (localNodes', h')
      \<longrightarrow> localNodes' = localNodes)
   \<and> (\<forall>ev \<in> set (new_events h (nodeKeeper_v019 w True period esUrl n (localNodes, h))).
        \<not> is_restart ev)
   \<and> (\<forall>ev \<in> set (new_events h (nodeKeeper_v013 w True noRestartTime esUrl n (localNodes, h))).
        \<not> is_restart ev)"
proof (intro conjI impI)
  show "\<forall>ev \<in> set (new_events h (nodeKeeper_v019 w True period esUrl n (localNodes, h))).
        \<not> is_restart ev"
    by (cases "nodeKeeper_v019 w True period esUrl n (localNodes, h)")
      (auto simp: new_events_def dest!: dry_run_v019)
  show "\<forall>ev \<in> set (new_events h (nodeKeeper_v013 w True noRestartTime esUrl n (localNodes, h))).
        \<not> is_restart ev"
    by (cases "nodeKeeper_v013 w True noRestartTime esUrl n (localNodes, h)")
      (auto simp: new_events_def dest!: dry_run_v013)
qed (auto dest: dry_decide_v019 dry_service_v013)

text \<open>
  A green cluster with allocation \<open>all\<close> and a service never restarted: with dry run on,
  both versions fetch health and allocation and stop there.
\<close>

theorem dry_run_never_restarts_witness:
  "nodeKeeper_decide_v019 (demo_world no_nodes ''green'' ''all'' show_fails None)
       True 600 ''es'' ''svc1'' (localNodesToMap svc1_config, [])
     = Some (localNodesToMap svc1_config,
             [Now, HttpGet ''es/_cluster/health'', HttpGet ''es/_cluster/settings''])
   \<and> nodeKeeper_service_v013 (demo_world no_nodes ''green'' ''all'' show_fails None)
       True 10 ''es'' ''svc1'' (localNodesToMap svc1_config, [])
     = Some (localNodesToMap svc1_config,
             [Now, HttpGet ''es/_cluster/health'', HttpGet ''es/_cluster/settings''])
   \<and> new_events [] (nodeKeeper_v019 (demo_world no_nodes ''green'' ''all'' show_fails None)
       True 600 ''es'' (Suc 0) (localNodesToMap svc1_config, []))
     = [HttpGet ''es/_cat/nodes?h=name&format=json'', show_event ''svc1'', Now,
        HttpGet ''es/_cluster/health'', HttpGet ''es/_cluster/settings'', Sleep 30]
   \<and> filter is_restart (new_events []
          (nodeKeeper_v019 (demo_world no_nodes ''green'' ''all'' show_fails None)
             True 600 ''es'' (Suc 0) (localNodesToMap svc1_config, []))) = []"
proof -
  let ?w = "demo_world no_nodes ''green'' ''all'' show_fails None"
  let ?reg = "localNodesToMap svc1_config"
  have a: "nodeKeeper_decide_v019 ?w True 600 ''es'' ''svc1'' (?reg, [])
     = Some ([(''svc1'', \<lparr>instanceName = ''instA'', lastRestart = 0\<rparr>)],
             [Now, HttpGet ''es/_cluster/health'', HttpGet ''es/_cluster/settings''])"
    by (simp add: run_simps)
  have b: "nodeKeeper_service_v013 ?w True 10 ''es'' ''svc1'' (?reg, [])
     = Some ([(''svc1'', \<lparr>instanceName = ''instA'', lastRestart = 0\<rparr>)],
             [Now, HttpGet ''es/_cluster/health'', HttpGet ''es/_cluster/settings''])"
    by (simp add: run_simps)
  have c: "new_events [] (nodeKeeper_v019 ?w True 600 ''es'' (Suc 0) (?reg, []))
     = [HttpGet ''es/_cat/nodes?h=name&format=json'', show_event ''svc1'', Now,
        HttpGet ''es/_cluster/health'', HttpGet ''es/_cluster/settings'', Sleep 30]"
    by (simp add: run_simps)
  note t = dry_run_never_restarts [of ?w 600 "''es''" "''svc1''" ?reg "[]"
      "[(''svc1'', \<lparr>instanceName = ''instA'', lastRestart = 0\<rparr>)]"
      "[Now, HttpGet ''es/_cluster/health'', HttpGet ''es/_cluster/settings'']" 10 "Suc 0"]
  from a t have a': "[(''svc1'', \<lparr>instanceName = ''instA'', lastRestart = 0\<rparr>)] = ?reg"
    by blast
  from t have d: "filter is_restart
      (new_events [] (nodeKeeper_v019 ?w True 600 ''es'' (Suc 0) (?reg, []))) = []"
    unfolding filter_empty_conv by blast
  from a b c d a' show ?thesis by simp
qed

subsection \<open>Configuration loading\<close>

lemma parseConfig_v010_read_failure:
  "read_file w file = Inl err \<Longrightarrow>
   parseConfig_v010 w file = Inl err \<and> main_v010 w file = Exit 1"
  by (simp add: parseConfig_v010_def main_v010_def)

text \<open>
  C9. In versions 0.13 and 0.19, when the configuration file cannot be read,
  \<^verbatim>\<open>parseConfig\<close> returns the empty node list without an error and \<^verbatim>\<open>main\<close> goes on to run
  the keeper on the empty registry; when the file is read and its YAML cannot be decoded,
  \<^verbatim>\<open>parseConfig\<close> returns that error and \<^verbatim>\<open>main\<close> exits with status 1.
\<close>

theorem config_failure_by_kind:
  "(read_file w file = Inl err
      \<longrightarrow> parseConfig w file = Inr [] \<and> main_v019 w file = Running [])
   \<and> (read_file w file = Inr source \<and> yaml_nodes w source = Inl err
      \<longrightarrow> parseConfig w file = Inl err \<and> main_v019 w file = Exit 1)"
  by (simp add: parseConfig_def main_v019_def localNodesToMap_def)

theorem config_failure_by_kind_witness:
  "read_file (demo_world no_nodes ''green'' ''all'' show_fails None) ''/etc/es-node-keeper.yaml''
     = Inl ''no such file''
   \<and> main_v019 (demo_world no_nodes ''green'' ''all'' show_fails None)
       ''/etc/es-node-keeper.yaml'' = Running []
   \<and> read_file ((demo_world no_nodes ''green'' ''all'' show_fails None)
         \<lparr>read_file := \<lambda>file. Inr ''nodes: [''\<rparr>) ''/etc/es-node-keeper.yaml''
     = Inr ''nodes: [''
   \<and> yaml_nodes ((demo_world no_nodes ''green'' ''all'' show_fails None)
         \<lparr>read_file := \<lambda>file. Inr ''nodes: [''\<rparr>) ''nodes: ['' = Inl ''cannot unmarshal''
   \<and> main_v019 ((demo_world no_nodes ''green'' ''all'' show_fails None)
         \<lparr>read_file := \<lambda>file. Inr ''nodes: [''\<rparr>) ''/etc/es-node-keeper.yaml'' = Exit 1"
proof -
  let ?w = "demo_world no_nodes ''green'' ''all'' show_fails None"
  let ?w' = "?w\<lparr>read_file := \<lambda>file. Inr ''nodes: [''\<rparr>"
  have a: "read_file ?w ''/etc/es-node-keeper.yaml'' = Inl ''no such file''"
    by (simp add: demo_world_def)
  have b: "read_file ?w' ''/etc/es-node-keeper.yaml'' = Inr ''nodes: [''"
    by simp
  have c: "yaml_nodes ?w' ''nodes: ['' = Inl ''cannot unmarshal''"
    by (simp add: demo_world_def)
  from a config_failure_by_kind [of ?w "''/etc/es-node-keeper.yaml''" "''no such file''"]
  have d: "main_v019 ?w ''/etc/es-node-keeper.yaml'' = Running []"
    by blast
  from b c config_failure_by_kind [of ?w' "''/etc/es-node-keeper.yaml''" "''cannot unmarshal''"
      "''nodes: [''"]
  have e: "main_v019 ?w' ''/etc/es-node-keeper.yaml'' = Exit 1"
    by blast
  from a b c d e show ?thesis by blast
qed

subsection \<open>The decision as a function of what the world answers\<close>

text \<open>
  Since every call adds one event, the histories at which the loop body asks the world
  are known in advance, and the decision can be written out over the answers alone.
\<close>

lemma store_after_load:
  "load_lastRestart localNodes service = Some lastTs \<Longrightarrow>
   \<exists>localNodes'. store_lastRestart service t localNodes = Some localNodes'"
  by (auto simp: load_lastRestart_def store_lastRestart_def split: option.splits)

lemma decide_v019_eq:
  "nodeKeeper_decide_v019 w dryRun period esUrl service (localNodes, h) =
     (case load_lastRestart localNodes service of
        None \<Rightarrow> None
      | Some lastTs \<Rightarrow>
          if period <s unix_time w (h @ [Now]) - lastTs then
            (case fst (getClusterStatus w esUrl (h @ [Now])) of
               Inl err \<Rightarrow> Some (localNodes, h @ [Now, HttpGet (esUrl @ ''/_cluster/health'')])
             | Inr status \<Rightarrow>
                 (case fst (getClusterRoutingAllocation w esUrl
                              (h @ [Now, HttpGet (esUrl @ ''/_cluster/health'')])) of
                    Inl err \<Rightarrow>
                      Some (localNodes, h @ [Now, HttpGet (esUrl @ ''/_cluster/health''),
                                             HttpGet (esUrl @ ''/_cluster/settings'')])
                  | Inr alloc \<Rightarrow>
                      if \<not> dryRun \<and> alloc \<noteq> [] \<and> ToLower w status \<noteq> ''red''
                         \<and> ToLower w alloc = ''all''
                      then
                        (case fst (restartSystemdService w (service @ ''.service'')
                                     (h @ [Now, HttpGet (esUrl @ ''/_cluster/health''),
                                           HttpGet (esUrl @ ''/_cluster/settings'')])) of
                           None \<Rightarrow>
                             (case store_lastRestart service (unix_time w (h @ [Now])) localNodes of
                                None \<Rightarrow> None
                              | Some localNodes2 \<Rightarrow>
                                  Some (localNodes2,
                                        h @ [Now, HttpGet (esUrl @ ''/_cluster/health''),
                                             HttpGet (esUrl @ ''/_cluster/settings''),
                                             restart_event service]))
                         | Some err \<Rightarrow>
                             Some (localNodes,
                                   h @ [Now, HttpGet (esUrl @ ''/_cluster/health''),
                                        HttpGet (esUrl @ ''/_cluster/settings''),
                                        restart_event service]))
                      else Some (localNodes, h @ [Now, HttpGet (esUrl @ ''/_cluster/health''),
                                                  HttpGet (esUrl @ ''/_cluster/settings'')])))
          else Some (localNodes, h @ [Now]))"
  by (simp add: nodeKeeper_decide_v019_def time_now_def Let_def split_beta history_simps
      split: sum.splits option.splits)

lemma service_v013_eq:
  "nodeKeeper_service_v013 w dryRun noRestartTime esUrl service (localNodes, h) =
     (case load_lastRestart localNodes service of
        None \<Rightarrow> None
      | Some lastTs \<Rightarrow>
          if noRestartTime * 60 <s unix_time w (h @ [Now]) - lastTs then
            (case fst (getClusterStatus w esUrl (h @ [Now])) of
               Inl err \<Rightarrow> Some (localNodes, h @ [Now, HttpGet (esUrl @ ''/_cluster/health'')])
             | Inr status \<Rightarrow>
                 (case fst (getClusterRoutingAllocation w esUrl
                              (h @ [Now, HttpGet (esUrl @ ''/_cluster/health'')])) of
                    Inl err \<Rightarrow>
                      Some (localNodes, h @ [Now, HttpGet (esUrl @ ''/_cluster/health''),
                                             HttpGet (esUrl @ ''/_cluster/settings'')])
                  | Inr alloc \<Rightarrow>
                      if \<not> dryRun \<and> alloc \<noteq> [] \<and> ToLower w status \<noteq> ''red''
                         \<and> ToLower w alloc = ''all''
                      then
                        (case fst (restartSystemdService_v013 w (service @ ''.service'')
                                     (h @ [Now, HttpGet (esUrl @ ''/_cluster/health''),
                                           HttpGet (esUrl @ ''/_cluster/settings'')])) of
                           None \<Rightarrow>
                             (case store_lastRestart service (unix_time w (h @ [Now])) localNodes of
                                None \<Rightarrow> None
                              | Some localNodes2 \<Rightarrow>
                                  Some (localNodes2,
                                        h @ [Now, HttpGet (esUrl @ ''/_cluster/health''),
                                             HttpGet (esUrl @ ''/_cluster/settings''),
                                             restart_event service]))
                         | Some err \<Rightarrow>
                             Some (localNodes,
                                   h @ [Now, HttpGet (esUrl @ ''/_cluster/health''),
                                        HttpGet (esUrl @ ''/_cluster/settings''),
                                        restart_event service]))
                      else Some (localNodes, h @ [Now, HttpGet (esUrl @ ''/_cluster/health''),
                                                  HttpGet (esUrl @ ''/_cluster/settings'')])))
          else Some (localNodes, h @ [Now]))"
  by (simp add: nodeKeeper_service_v013_def time_now_def Let_def split_beta history_simps
      split: sum.splits option.splits)

lemma new_events_simps [simp]:
  "new_events h None = []" "new_events h (Some (l, h @ evs)) = evs"
  by (simp_all add: new_events_def)

lemma decide_v019_after_fetch:
  assumes "load_lastRestart localNodes service = Some lastTs"
    and "period <s unix_time w (h @ [Now]) - lastTs"
    and "fst (getClusterStatus w esUrl (h @ [Now])) = Inr status"
    and "fst (getClusterRoutingAllocation w esUrl
                (h @ [Now, HttpGet (esUrl @ ''/_cluster/health'')])) = Inr alloc"
  shows "(\<exists>ev \<in> set (new_events h
            (nodeKeeper_decide_v019 w dryRun period esUrl service (localNodes, h))). is_restart ev)
         \<longleftrightarrow> \<not> dryRun \<and> alloc \<noteq> [] \<and> ToLower w status \<noteq> ''red'' \<and> ToLower w alloc = ''all''"
proof -
  obtain l' where l': "store_lastRestart service (unix_time w (h @ [Now])) localNodes = Some l'"
    using store_after_load [OF assms(1)] by blast
  with assms show ?thesis
    by (simp add: decide_v019_eq split: option.splits)
qed


lemma service_v013_after_fetch:
  assumes "load_lastRestart localNodes service = Some lastTs"
    and "noRestartTime * 60 <s unix_time w (h @ [Now]) - lastTs"
    and "fst (getClusterStatus w esUrl (h @ [Now])) = Inr status"
    and "fst (getClusterRoutingAllocation w esUrl
                (h @ [Now, HttpGet (esUrl @ ''/_cluster/health'')])) = Inr alloc"
  shows "(\<exists>ev \<in> set (new_events h
            (nodeKeeper_service_v013 w dryRun noRestartTime esUrl service (localNodes, h))).
            is_restart ev)
         \<longleftrightarrow> \<not> dryRun \<and> alloc \<noteq> [] \<and> ToLower w status \<noteq> ''red'' \<and> ToLower w alloc = ''all''"
proof -
  obtain l' where l': "store_lastRestart service (unix_time w (h @ [Now])) localNodes = Some l'"
    using store_after_load [OF assms(1)] by blast
  with assms show ?thesis
    by (simp add: service_v013_eq split: option.splits)
qed

subsection \<open>An empty health status\<close>

text \<open>
  C10. The empty status is not \<open>red\<close> after lower-casing. A health query answered with a
  body that decodes to the empty status returns that empty status without an error. And
  when a service has passed the exclusion check and the health fetched for it is the empty
  string, a restart command is run exactly when the lower-cased allocation setting is
  \<open>all\<close> (and dry run is off), in version 0.19 and in version 0.13.
\<close>

theorem empty_health_passes_gate:
  "ToLower w [] \<noteq> ''red''
   \<and> (http w (h @ [HttpGet (esUrl @ ''/_cluster/health'')]) = Responded code status body
        \<and> json_status w body = Some []
      \<longrightarrow> getClusterStatus w esUrl h = (Inr [], h @ [HttpGet (esUrl @ ''/_cluster/health'')]))
   \<and> (load_lastRestart localNodes service = Some lastTs
        \<and> period <s unix_time w (h @ [Now]) - lastTs
        \<and> fst (getClusterStatus w esUrl (h @ [Now])) = Inr []
        \<and> fst (getClusterRoutingAllocation w esUrl
                 (h @ [Now, HttpGet (esUrl @ ''/_cluster/health'')])) = Inr alloc
      \<longrightarrow> ((\<exists>ev \<in> set (new_events h
                (nodeKeeper_decide_v019 w dryRun period esUrl service (localNodes, h))).
                is_restart ev)
           \<longleftrightarrow> \<not> dryRun \<and> ToLower w alloc = ''all''))
   \<and> (load_lastRestart localNodes service = Some lastTs
        \<and> noRestartTime * 60 <s unix_time w (h @ [Now]) - lastTs
        \<and> fst (getClusterStatus w esUrl (h @ [Now])) = Inr []
        \<and> fst (getClusterRoutingAllocation w esUrl
                 (h @ [Now, HttpGet (esUrl @ ''/_cluster/health'')])) = Inr alloc
      \<longrightarrow> ((\<exists>ev \<in> set (new_events h
                (nodeKeeper_service_v013 w dryRun noRestartTime esUrl service (localNodes, h))).
                is_restart ev)
           \<longleftrightarrow> \<not> dryRun \<and> ToLower w alloc = ''all''))"
proof (intro conjI impI)
  show "ToLower w [] \<noteq> ''red''"
    by (simp add: ToLower_Nil)
  show "getClusterStatus w esUrl h = (Inr [], h @ [HttpGet (esUrl @ ''/_cluster/health'')])"
    if "http w (h @ [HttpGet (esUrl @ ''/_cluster/health'')]) = Responded code status body
        \<and> json_status w body = Some []"
    using that by (simp add: getClusterStatus_def httpGet_def parseClusterStatus_def)
  have nonempty: "alloc \<noteq> []" if "ToLower w alloc = ''all''"
    using that ToLower_Nil [of w] by auto
  show "(\<exists>ev \<in> set (new_events h
            (nodeKeeper_decide_v019 w dryRun period esUrl service (localNodes, h))). is_restart ev)
        \<longleftrightarrow> \<not> dryRun \<and> ToLower w alloc = ''all''"
    if "load_lastRestart localNodes service = Some lastTs
        \<and> period <s unix_time w (h @ [Now]) - lastTs
        \<and> fst (getClusterStatus w esUrl (h @ [Now])) = Inr []
        \<and> fst (getClusterRoutingAllocation w esUrl
                 (h @ [Now, HttpGet (esUrl @ ''/_cluster/health'')])) = Inr alloc"
    using that nonempty
      decide_v019_after_fetch [of localNodes service lastTs period w h esUrl "[]" alloc dryRun]
    by (auto simp: ToLower_Nil)
  show "(\<exists>ev \<in> set (new_events h
            (nodeKeeper_service_v013 w dryRun noRestartTime esUrl service (localNodes, h))).
            is_restart ev)
        \<longleftrightarrow> \<not> dryRun \<and> ToLower w alloc = ''all''"
    if "load_lastRestart localNodes service = Some lastTs
        \<and> noRestartTime * 60 <s unix_time w (h @ [Now]) - lastTs
        \<and> fst (getClusterStatus w esUrl (h @ [Now])) = Inr []
        \<and> fst (getClusterRoutingAllocation w esUrl
                 (h @ [Now, HttpGet (esUrl @ ''/_cluster/health'')])) = Inr alloc"
    using that nonempty
      service_v013_after_fetch [of localNodes service lastTs noRestartTime w h esUrl "[]" alloc
        dryRun]
    by (auto simp: ToLower_Nil)
qed

text \<open>
  A cluster whose health answer decodes to the empty status, with allocation \<open>all\<close>: the
  service, never restarted so far, is restarted by both versions.
\<close>

theorem empty_health_passes_gate_witness:
  "http (demo_world no_nodes [] ''all'' show_fails None)
       ([Now] @ [HttpGet (''es'' @ ''/_cluster/health'')]) = Responded 200 ''200 OK'' []
   \<and> json_status (demo_world no_nodes [] ''all'' show_fails None) [] = Some []
   \<and> load_lastRestart (localNodesToMap svc1_config) ''svc1'' = Some 0
   \<and> 600 <s unix_time (demo_world no_nodes [] ''all'' show_fails None) ([] @ [Now]) - 0
   \<and> 10 * 60 <s unix_time (demo_world no_nodes [] ''all'' show_fails None) ([] @ [Now]) - 0
   \<and> fst (getClusterStatus (demo_world no_nodes [] ''all'' show_fails None) ''es'' ([] @ [Now]))
       = Inr []
   \<and> fst (getClusterRoutingAllocation (demo_world no_nodes [] ''all'' show_fails None) ''es''
            ([] @ [Now, HttpGet (''es'' @ ''/_cluster/health'')])) = Inr ''all''
   \<and> (\<exists>ev \<in> set (new_events []
          (nodeKeeper_decide_v019 (demo_world no_nodes [] ''all'' show_fails None)
             False 600 ''es'' ''svc1'' (localNodesToMap svc1_config, []))). is_restart ev)
   \<and> (\<exists>ev \<in> set (new_events []
          (nodeKeeper_service_v013 (demo_world no_nodes [] ''all'' show_fails None)
             False 10 ''es'' ''svc1'' (localNodesToMap svc1_config, []))). is_restart ev)"
proof -
  let ?w = "demo_world no_nodes [] ''all'' show_fails None"
  let ?reg = "localNodesToMap svc1_config"
  have a: "http ?w ([Now] @ [HttpGet (''es'' @ ''/_cluster/health'')]) = Responded 200 ''200 OK'' []"
    by (simp add: demo_world_def)
  have b: "json_status ?w [] = Some []"
    by (simp add: demo_world_def)
  have c: "load_lastRestart ?reg ''svc1'' = Some 0"
    by (simp add: run_simps)
  have d: "600 <s unix_time ?w ([] @ [Now]) - 0" "10 * 60 <s unix_time ?w ([] @ [Now]) - 0"
    by (simp_all add: run_simps)
  have e: "fst (getClusterStatus ?w ''es'' ([] @ [Now])) = Inr []"
    by (simp add: run_simps)
  have f: "fst (getClusterRoutingAllocation ?w ''es''
            ([] @ [Now, HttpGet (''es'' @ ''/_cluster/health'')])) = Inr ''all''"
    by (simp add: run_simps)
  have g: "ToLower ?w ''all'' = ''all''"
    by (simp add: run_simps)
  note t = empty_health_passes_gate [of ?w "[]" "''es''" 200 "''200 OK''" "[]" ?reg "''svc1''" 0
      600 "''all''" False 10]
  from c d e f g t
  have "\<exists>ev \<in> set (new_events [] (nodeKeeper_decide_v019 ?w False 600 ''es'' ''svc1'' (?reg, []))).
          is_restart ev"
    and "\<exists>ev \<in> set (new_events [] (nodeKeeper_service_v013 ?w False 10 ''es'' ''svc1'' (?reg, []))).
          is_restart ev"
    by blast+
  with a b c d e f show ?thesis by blast
qed

subsection \<open>HTTP status codes\<close>

lemma esQueryGet_rejects_other_codes:
  "http w (h @ [HttpGet url]) = Responded code status body \<Longrightarrow> code \<noteq> 200 \<Longrightarrow>
   esQueryGet w url h = (Inl (''HTTP response code: '' @ status), h @ [HttpGet url])"
  by (simp add: esQueryGet_def)

lemma httpGet_returns_any_body:
  "http w (h @ [HttpGet url]) = Responded code status body \<Longrightarrow>
   httpGet w url h = (Inr body, h @ [HttpGet url])"
  by (simp add: httpGet_def)

text \<open>
  C5. The node listing is answered with status 503 and the body \<^verbatim>\<open>[]\<close>. In version 0.10
  \<^verbatim>\<open>getActiveNodes\<close> returns an error. In versions 0.13 and 0.19 it returns the empty set
  of active nodes, decoded from that body, and the pass of version 0.19 goes on to restart
  the service.
\<close>

theorem non_2xx_body_is_decoded:
  "getActiveNodes_v010
       (demo_world (Responded 503 ''503 Service Unavailable'' ''[]'') ''green'' ''all''
          show_fails None) ''es'' []
     = (Inl ''HTTP response code: 503 Service Unavailable'',
        [HttpGet ''es/_cat/nodes?h=name&format=json''])
   \<and> getActiveNodes
       (demo_world (Responded 503 ''503 Service Unavailable'' ''[]'') ''green'' ''all''
          show_fails None) ''es'' []
     = (Inr {}, [HttpGet ''es/_cat/nodes?h=name&format=json''])
   \<and> nodeKeeper_v019
       (demo_world (Responded 503 ''503 Service Unavailable'' ''[]'') ''green'' ''all''
          show_fails None) False 600 ''es'' (Suc 0) (localNodesToMap svc1_config, [])
     = Some ([(''svc1'', \<lparr>instanceName = ''instA'', lastRestart = 1000\<rparr>)],
             [HttpGet ''es/_cat/nodes?h=name&format=json'', show_event ''svc1'', Now,
              HttpGet ''es/_cluster/health'', HttpGet ''es/_cluster/settings'',
              restart_event ''svc1'', Sleep 30])"
  by (simp add: run_simps)

subsection \<open>A pass that cannot fetch the active nodes\<close>

lemma tick_v019_fetch_error:
  "fst (getActiveNodes w esUrl h) = Inl err \<Longrightarrow>
   nodeKeeper_tick_v019 w dryRun period esUrl (localNodes, h)
     = Some (localNodes, h @ [HttpGet (esUrl @ ''/_cat/nodes?h=name&format=json''), Sleep 30])"
  using snd_getActiveNodes [of w esUrl h]
  by (cases "getActiveNodes w esUrl h")
    (simp add: nodeKeeper_tick_v019_def sleepLoop_def interval_def)

lemma tick_v013_fetch_error:
  "fst (getActiveNodes w esUrl h) = Inl err \<Longrightarrow>
   nodeKeeper_tick_v013 w dryRun noRestartTime esUrl (localNodes, h)
     = Some (localNodes, h @ [HttpGet (esUrl @ ''/_cat/nodes?h=name&format=json''), Sleep 30])"
  using snd_getActiveNodes [of w esUrl h]
  by (cases "getActiveNodes w esUrl h")
    (simp add: nodeKeeper_tick_v013_def sleepLoop_def interval_def)

lemma tick_v010_fetch_error:
  "fst (getActiveNodes_v010 w esURL h) = Inl err \<Longrightarrow>
   nodeKeeper_tick_v010 w noRestartTime esURL (localNodes, h)
     = Some (localNodes, h @ [HttpGet (esURL @ ''/_cat/nodes?h=name&format=json'')])"
  using snd_getActiveNodes_v010 [of w esURL h]
  by (cases "getActiveNodes_v010 w esURL h") (simp add: nodeKeeper_tick_v010_def)

text \<open>
  C4. The cluster cannot be reached. Two passes of version 0.10 leave the registry as it
  was and consist of the two requests for the node listing, with no sleep between them or
  after them; the same two passes of versions 0.13 and 0.19 sleep for the interval after
  each request.
\<close>

theorem v010_fetch_error_skips_sleep:
  "nodeKeeper_v010 (demo_world (RequestFailed ''connection refused'') [] [] show_fails None)
       10 ''es'' (Suc (Suc 0)) (localNodesToMap svc1_config, [])
     = Some (localNodesToMap svc1_config,
             [HttpGet ''es/_cat/nodes?h=name&format=json'',
              HttpGet ''es/_cat/nodes?h=name&format=json''])
   \<and> nodeKeeper_v013 (demo_world (RequestFailed ''connection refused'') [] [] show_fails None)
       False 10 ''es'' (Suc (Suc 0)) (localNodesToMap svc1_config, [])
     = Some (localNodesToMap svc1_config,
             [HttpGet ''es/_cat/nodes?h=name&format=json'', Sleep 30,
              HttpGet ''es/_cat/nodes?h=name&format=json'', Sleep 30])
   \<and> nodeKeeper_v019 (demo_world (RequestFailed ''connection refused'') [] [] show_fails None)
       False 600 ''es'' (Suc (Suc 0)) (localNodesToMap svc1_config, [])
     = Some (localNodesToMap svc1_config,
             [HttpGet ''es/_cat/nodes?h=name&format=json'', Sleep 30,
              HttpGet ''es/_cat/nodes?h=name&format=json'', Sleep 30])"
  by (simp add: run_simps)

subsection \<open>The stored timestamp\<close>

lemma store_lastRestart_result:
  assumes "store_lastRestart service t localNodes = Some localNodes'"
  shows "load_lastRestart localNodes' service = Some t"
    and "\<And>s. s \<noteq> service \<Longrightarrow> map_of localNodes' s = map_of localNodes s"
    and "map fst localNodes' = map fst localNodes"
proof -
  from assms obtain v where v: "map_of localNodes service = Some v"
    and l': "localNodes' = AList.update service (v\<lparr>lastRestart := t\<rparr>) localNodes"
    by (auto simp: store_lastRestart_def split: option.splits)
  from v have "service \<in> fst ` set localNodes"
    using map_of_SomeD [of localNodes service v] by (force simp: image_iff)
  with l' show "map fst localNodes' = map fst localNodes"
    by (simp add: update_keys)
  from l' show "load_lastRestart localNodes' service = Some t"
    by (simp add: load_lastRestart_def update_conv)
  from l' show "\<And>s. s \<noteq> service \<Longrightarrow> map_of localNodes' s = map_of localNodes s"
    by (simp add: update_conv)
qed

lemma sint_diff_nonneg:
  fixes a b :: go_int
  assumes "0 \<le> sint a" "0 \<le> sint b"
  shows "sint (a - b) = sint a - sint b"
proof -
  have "sint a < 2 ^ 63" "sint b < 2 ^ 63"
    using sint_lt [of a] sint_lt [of b] by simp_all
  with assms have "- (2 ^ 63) \<le> sint a - sint b" "sint a - sint b < 2 ^ 63"
    by simp_all
  then show ?thesis
    by (simp add: sint_word_ariths signed_take_bit_int_eq_self)
qed

lemma rederive_v019_eq:
  "nodeKeeper_rederive_v019 w service (localNodes, h) =
     (case fst (getSystemdServiceActiveEnterTimestamp w (service @ ''.service'') h) of
        Inr ts \<Rightarrow>
          (case store_lastRestart service ts localNodes of
             None \<Rightarrow> None
           | Some localNodes1 \<Rightarrow> Some (localNodes1, h @ [show_event service]))
      | Inl err \<Rightarrow> Some (localNodes, h @ [show_event service]))"
  by (simp add: nodeKeeper_rederive_v019_def split_beta history_simps
      split: sum.splits option.splits)

lemma decide_v019_timestamp:
  assumes "nodeKeeper_decide_v019 w dryRun period esUrl service (localNodes, h) = Some (localNodes', h')"
    and "load_lastRestart localNodes service = Some lastTs"
  shows "localNodes' = localNodes \<or>
         (store_lastRestart service (unix_time w (h @ [Now])) localNodes = Some localNodes'
          \<and> period <s unix_time w (h @ [Now]) - lastTs)"
  using assms
  by (simp add: decide_v019_eq split: sum.splits option.splits if_splits)

lemma decide_v019_monotone:
  assumes "nodeKeeper_decide_v019 w dryRun period esUrl service (localNodes, h) = Some (localNodes', h')"
    and "load_lastRestart localNodes service = Some lastTs"
    and "0 \<le> sint period" "0 \<le> sint lastTs" "0 \<le> sint (unix_time w (h @ [Now]))"
  shows "(\<exists>t. load_lastRestart localNodes' service = Some t \<and> sint lastTs \<le> sint t)
         \<and> (\<forall>s. s \<noteq> service \<longrightarrow> map_of localNodes' s = map_of localNodes s)"
proof -
  from decide_v019_timestamp [OF assms(1,2)]
  consider "localNodes' = localNodes"
    | "store_lastRestart service (unix_time w (h @ [Now])) localNodes = Some localNodes'"
      "period <s unix_time w (h @ [Now]) - lastTs"
    by blast
  then show ?thesis
  proof cases
    case 1
    with assms(2) show ?thesis by simp
  next
    case 2
    from 2(2) assms(3-5) have "sint lastTs \<le> sint (unix_time w (h @ [Now]))"
      by (simp add: word_sless_alt sint_diff_nonneg)
    with store_lastRestart_result [OF 2(1)] show ?thesis by simp
  qed
qed

text \<open>
  C3, as the code has it. The re-derivation of version 0.19 keeps the registry when the
  host cannot report an activation time, and otherwise stores the reported time in place
  of whatever was there. The decision that follows never lowers the timestamp of the
  service and never touches another entry, provided the exclusion period, the stored
  timestamp and the clock are not negative (so that \<open>now - lastRestart\<close> does not wrap).
\<close>

theorem timestamp_across_pass_v019:
  "(fst (getSystemdServiceActiveEnterTimestamp w (service @ ''.service'') h) = Inl err
      \<longrightarrow> nodeKeeper_rederive_v019 w service (localNodes, h)
            = Some (localNodes, h @ [show_event service]))
   \<and> (fst (getSystemdServiceActiveEnterTimestamp w (service @ ''.service'') h) = Inr ts
        \<and> store_lastRestart service ts localNodes = Some localNodes1
      \<longrightarrow> nodeKeeper_rederive_v019 w service (localNodes, h)
            = Some (localNodes1, h @ [show_event service])
          \<and> load_lastRestart localNodes1 service = Some ts)
   \<and> (nodeKeeper_decide_v019 w dryRun period esUrl service (localNodes, h)
          = Some (localNodes', h')
        \<and> load_lastRestart localNodes service = Some lastTs
        \<and> 0 \<le> sint period \<and> 0 \<le> sint lastTs \<and> 0 \<le> sint (unix_time w (h @ [Now]))
      \<longrightarrow> (\<exists>t. load_lastRestart localNodes' service = Some t \<and> sint lastTs \<le> sint t)
          \<and> (\<forall>s. s \<noteq> service \<longrightarrow> map_of localNodes' s = map_of localNodes s))"
proof (intro conjI impI)
  assume "fst (getSystemdServiceActiveEnterTimestamp w (service @ ''.service'') h) = Inl err"
  then show "nodeKeeper_rederive_v019 w service (localNodes, h)
            = Some (localNodes, h @ [show_event service])"
    by (simp add: rederive_v019_eq)
next
  assume a: "fst (getSystemdServiceActiveEnterTimestamp w (service @ ''.service'') h) = Inr ts
        \<and> store_lastRestart service ts localNodes = Some localNodes1"
  then show "nodeKeeper_rederive_v019 w service (localNodes, h)
            = Some (localNodes1, h @ [show_event service])"
    by (simp add: rederive_v019_eq)
  from a show "load_lastRestart localNodes1 service = Some ts"
    using store_lastRestart_result(1) by blast
next
  assume a: "nodeKeeper_decide_v019 w dryRun period esUrl service (localNodes, h)
          = Some (localNodes', h')
        \<and> load_lastRestart localNodes service = Some lastTs
        \<and> 0 \<le> sint period \<and> 0 \<le> sint lastTs \<and> 0 \<le> sint (unix_time w (h @ [Now]))"
  then have b: "(\<exists>t. load_lastRestart localNodes' service = Some t \<and> sint lastTs \<le> sint t)
         \<and> (\<forall>s. s \<noteq> service \<longrightarrow> map_of localNodes' s = map_of localNodes s)"
    using decide_v019_monotone [of w dryRun period esUrl service localNodes h localNodes' h' lastTs]
    by blast
  from b show "\<exists>t. load_lastRestart localNodes' service = Some t \<and> sint lastTs \<le> sint t"
    by blast
  from b show "\<forall>s. s \<noteq> service \<longrightarrow> map_of localNodes' s = map_of localNodes s"
    by blast
qed

text \<open>
  A host that cannot answer; a host that reports activation at 100; and the decision at
  clock 1000 with that timestamp and an exclusion period of 600, which restarts the service
  and stores 1000.
\<close>

theorem timestamp_across_pass_v019_witness:
  "fst (getSystemdServiceActiveEnterTimestamp
          (demo_world no_nodes ''green'' ''all'' show_fails None) (''svc1'' @ ''.service'') [])
     = Inl ''Command execution fail: exit status 1: not found''
   \<and> nodeKeeper_rederive_v019 (demo_world no_nodes ''green'' ''all'' show_fails None) ''svc1''
        (localNodesToMap svc1_config, [])
     = Some (localNodesToMap svc1_config, [] @ [show_event ''svc1''])
   \<and> fst (getSystemdServiceActiveEnterTimestamp
          (demo_world no_nodes ''green'' ''all'' show_T100 None) (''svc1'' @ ''.service'') [])
     = Inr 100
   \<and> store_lastRestart ''svc1'' 100 (localNodesToMap svc1_config)
     = Some [(''svc1'', \<lparr>instanceName = ''instA'', lastRestart = 100\<rparr>)]
   \<and> nodeKeeper_rederive_v019 (demo_world no_nodes ''green'' ''all'' show_T100 None) ''svc1''
        (localNodesToMap svc1_config, [])
     = Some ([(''svc1'', \<lparr>instanceName = ''instA'', lastRestart = 100\<rparr>)],
             [] @ [show_event ''svc1''])
   \<and> nodeKeeper_decide_v019 (demo_world no_nodes ''green'' ''all'' show_T100 None)
        False 600 ''es'' ''svc1''
        ([(''svc1'', \<lparr>instanceName = ''instA'', lastRestart = 100\<rparr>)], [show_event ''svc1''])
     = Some ([(''svc1'', \<lparr>instanceName = ''instA'', lastRestart = 1000\<rparr>)],
             [show_event ''svc1'', Now, HttpGet ''es/_cluster/health'',
              HttpGet ''es/_cluster/settings'', restart_event ''svc1''])
   \<and> load_lastRestart [(''svc1'', \<lparr>instanceName = ''instA'', lastRestart = 100\<rparr>)] ''svc1''
     = Some 100
   \<and> 0 \<le> sint (600 :: go_int) \<and> 0 \<le> sint (100 :: go_int)
   \<and> 0 \<le> sint (unix_time (demo_world no_nodes ''green'' ''all'' show_T100 None)
                 ([show_event ''svc1''] @ [Now]))
   \<and> (\<exists>t. load_lastRestart [(''svc1'', \<lparr>instanceName = ''instA'', lastRestart = 1000\<rparr>)] ''svc1''
            = Some t \<and> sint (100 :: go_int) \<le> sint t)"
proof -
  let ?wf = "demo_world no_nodes ''green'' ''all'' show_fails None"
  let ?w = "demo_world no_nodes ''green'' ''all'' show_T100 None"
  let ?reg = "localNodesToMap svc1_config"
  let ?r100 = "[(''svc1'', \<lparr>instanceName = ''instA'', lastRestart = 100 :: go_int\<rparr>)]"
  let ?r1000 = "[(''svc1'', \<lparr>instanceName = ''instA'', lastRestart = 1000 :: go_int\<rparr>)]"
  let ?h' = "[show_event ''svc1'', Now, HttpGet ''es/_cluster/health'',
              HttpGet ''es/_cluster/settings'', restart_event ''svc1'']"
  have a: "fst (getSystemdServiceActiveEnterTimestamp ?wf (''svc1'' @ ''.service'') [])
     = Inl ''Command execution fail: exit status 1: not found''"
    by (simp add: run_simps)
  have b: "fst (getSystemdServiceActiveEnterTimestamp ?w (''svc1'' @ ''.service'') []) = Inr 100"
    by (simp add: run_simps)
  have c: "store_lastRestart ''svc1'' 100 ?reg = Some ?r100"
    by (simp add: run_simps)
  have d: "nodeKeeper_decide_v019 ?w False 600 ''es'' ''svc1'' (?r100, [show_event ''svc1''])
     = Some (?r1000, ?h')"
    by (simp add: run_simps)
  have e: "load_lastRestart ?r100 ''svc1'' = Some 100"
    by (simp add: run_simps)
  have f: "0 \<le> sint (600 :: go_int)" "0 \<le> sint (100 :: go_int)"
    "0 \<le> sint (unix_time ?w ([show_event ''svc1''] @ [Now]))"
    by (simp_all add: run_simps)
  from a timestamp_across_pass_v019 [of ?wf "''svc1''" "[]" _ ?reg]
  have g: "nodeKeeper_rederive_v019 ?wf ''svc1'' (?reg, []) = Some (?reg, [] @ [show_event ''svc1''])"
    by blast
  from b c timestamp_across_pass_v019 [of ?w "''svc1''" "[]" _ ?reg 100 ?r100]
  have h: "nodeKeeper_rederive_v019 ?w ''svc1'' (?reg, [])
     = Some (?r100, [] @ [show_event ''svc1''])"
    by blast
  from d e f timestamp_across_pass_v019 [of ?w "''svc1''" "[show_event ''svc1'']" _ ?r100 _ _
      False 600 "''es''" ?r1000 ?h' 100]
  have i: "\<exists>t. load_lastRestart ?r1000 ''svc1'' = Some t \<and> sint (100 :: go_int) \<le> sint t"
    by blast
  from a b c d e f g h i show ?thesis by blast
qed

text \<open>
  C3 fails as it is stated. The host reports activation at 100 on every query. The first
  pass of version 0.19 stores 100, restarts the service at clock 1000 and stores 1000. The
  re-derivation of the second pass then puts 100 in the place of 1000.
\<close>

theorem timestamp_decreases_v019:
  "nodeKeeper_v019 (demo_world no_nodes ''green'' ''all'' show_T100 None) False 600 ''es''
       (Suc 0) (localNodesToMap svc1_config, [])
     = Some ([(''svc1'', \<lparr>instanceName = ''instA'', lastRestart = 1000\<rparr>)],
             [HttpGet ''es/_cat/nodes?h=name&format=json'', show_event ''svc1'', Now,
              HttpGet ''es/_cluster/health'', HttpGet ''es/_cluster/settings'',
              restart_event ''svc1'', Sleep 30])
   \<and> nodeKeeper_rederive_v019 (demo_world no_nodes ''green'' ''all'' show_T100 None) ''svc1''
       ([(''svc1'', \<lparr>instanceName = ''instA'', lastRestart = 1000\<rparr>)],
        [HttpGet ''es/_cat/nodes?h=name&format=json'', show_event ''svc1'', Now,
         HttpGet ''es/_cluster/health'', HttpGet ''es/_cluster/settings'',
         restart_event ''svc1'', Sleep 30, HttpGet ''es/_cat/nodes?h=name&format=json''])
     = Some ([(''svc1'', \<lparr>instanceName = ''instA'', lastRestart = 100\<rparr>)],
             [HttpGet ''es/_cat/nodes?h=name&format=json'', show_event ''svc1'', Now,
              HttpGet ''es/_cluster/health'', HttpGet ''es/_cluster/settings'',
              restart_event ''svc1'', Sleep 30, HttpGet ''es/_cat/nodes?h=name&format=json'',
              show_event ''svc1''])
   \<and> sint (100 :: go_int) < sint (1000 :: go_int)"
  by (simp add: run_simps)

subsection \<open>The outcome of a restart\<close>

lemma decide_v019_restart_outcome:
  assumes "nodeKeeper_decide_v019 w dryRun period esUrl service (localNodes, h)
             = Some (localNodes', h')"
    and "\<exists>ev \<in> set (drop (length h) h'). is_restart ev"
  shows "case fst (restartSystemdService w (service @ ''.service'')
                     (h @ [Now, HttpGet (esUrl @ ''/_cluster/health''),
                           HttpGet (esUrl @ ''/_cluster/settings'')])) of
           None \<Rightarrow> store_lastRestart service (unix_time w (h @ [Now])) localNodes
                     = Some localNodes'
         | Some err \<Rightarrow> localNodes' = localNodes"
  using assms
  by (auto simp: decide_v019_eq split: sum.splits option.splits if_splits)

lemma service_v013_restart_outcome:
  assumes "nodeKeeper_service_v013 w dryRun noRestartTime esUrl service (localNodes, h)
             = Some (localNodes', h')"
    and "\<exists>ev \<in> set (drop (length h) h'). is_restart ev"
  shows "case fst (restartSystemdService_v013 w (service @ ''.service'')
                     (h @ [Now, HttpGet (esUrl @ ''/_cluster/health''),
                           HttpGet (esUrl @ ''/_cluster/settings'')])) of
           None \<Rightarrow> store_lastRestart service (unix_time w (h @ [Now])) localNodes
                     = Some localNodes'
         | Some err \<Rightarrow> localNodes' = localNodes"
  using assms
  by (auto simp: service_v013_eq split: sum.splits option.splits if_splits)

subsection \<open>The loop body never panics\<close>

text \<open>
  The services a pass works on are keys of the registry, and no step changes the keys; so
  the reads and writes of the timestamp find their entry, and any number of passes of the
  outer loop, from any registry and in any world, ends in a state.
\<close>

lemma load_in_registry:
  "service \<in> fst ` set localNodes \<Longrightarrow> \<exists>t. load_lastRestart localNodes service = Some t"
  by (cases "map_of localNodes service")
    (auto simp: load_lastRestart_def map_of_eq_None_iff)

lemma getInvalidNodes_subset:
  "set (getInvalidNodes localNodes activeNodes) \<subseteq> fst ` set localNodes"
  by (auto simp: getInvalidNodes_def)

lemma rederive_v019_returns:
  assumes "service \<in> fst ` set localNodes"
  shows "\<exists>localNodes' h'. nodeKeeper_rederive_v019 w service (localNodes, h) = Some (localNodes', h')
           \<and> map fst localNodes' = map fst localNodes"
proof (cases "fst (getSystemdServiceActiveEnterTimestamp w (service @ ''.service'') h)")
  case (Inl err)
  then show ?thesis by (simp add: rederive_v019_eq)
next
  case (Inr ts)
  from load_in_registry [OF assms] obtain t where "load_lastRestart localNodes service = Some t"
    by blast
  then obtain l' where l': "store_lastRestart service ts localNodes = Some l'"
    using store_after_load by blast
  from store_lastRestart_result(3) [OF l'] l' Inr show ?thesis
    by (simp add: rederive_v019_eq)
qed

lemma decide_v019_returns:
  assumes "service \<in> fst ` set localNodes"
  shows "\<exists>localNodes' h'.
           nodeKeeper_decide_v019 w dryRun period esUrl service (localNodes, h) = Some (localNodes', h')
           \<and> map fst localNodes' = map fst localNodes"
proof -
  from load_in_registry [OF assms] obtain t where t: "load_lastRestart localNodes service = Some t"
    by blast
  then obtain l' where l': "store_lastRestart service (unix_time w (h @ [Now])) localNodes = Some l'"
    using store_after_load by blast
  from store_lastRestart_result(3) [OF l'] t l' show ?thesis
    by (simp add: decide_v019_eq split: sum.splits option.splits)
qed

lemma service_v019_returns:
  assumes "service \<in> fst ` set localNodes"
  shows "\<exists>localNodes' h'.
           nodeKeeper_service_v019 w dryRun period esUrl service (localNodes, h) = Some (localNodes', h')
           \<and> map fst localNodes' = map fst localNodes"
proof -
  from rederive_v019_returns [OF assms] obtain l1 h1
    where 1: "nodeKeeper_rederive_v019 w service (localNodes, h) = Some (l1, h1)"
      and k: "map fst l1 = map fst localNodes"
    by blast
  from assms k have "service \<in> fst ` set l1"
    by (metis list.set_map)
  from decide_v019_returns [OF this, of w dryRun period esUrl h1] 1 k show ?thesis
    by (auto simp: nodeKeeper_service_v019_def)
qed

lemma services_v019_return:
  "set invalidNodes \<subseteq> fst ` set localNodes \<Longrightarrow>
   \<exists>localNodes' h'.
     nodeKeeper_services_v019 w dryRun period esUrl invalidNodes (localNodes, h) = Some (localNodes', h')
     \<and> map fst localNodes' = map fst localNodes"
proof (induction invalidNodes arbitrary: localNodes h)
  case Nil
  then show ?case by simp
next
  case (Cons service invalidNodes)
  then have "service \<in> fst ` set localNodes" by simp
  from service_v019_returns [OF this, of w dryRun period esUrl h] obtain l1 h1
    where 1: "nodeKeeper_service_v019 w dryRun period esUrl service (localNodes, h) = Some (l1, h1)"
      and k: "map fst l1 = map fst localNodes"
    by blast
  from Cons.prems k have "set invalidNodes \<subseteq> fst ` set l1"
    by (metis list.set_map set_subset_Cons subset_trans)
  from Cons.IH [OF this, of h1] 1 k show ?case by auto
qed

lemma tick_v019_returns:
  "\<exists>localNodes' h'. nodeKeeper_tick_v019 w dryRun period esUrl (localNodes, h) = Some (localNodes', h')
     \<and> map fst localNodes' = map fst localNodes"
proof (cases "getActiveNodes w esUrl h")
  case (Pair r h1)
  show ?thesis
  proof (cases r)
    case (Inl err)
    with Pair show ?thesis by (simp add: nodeKeeper_tick_v019_def)
  next
    case (Inr activeNodes)
    from services_v019_return [OF getInvalidNodes_subset, of w dryRun period esUrl localNodes activeNodes h1]
    show ?thesis using Pair Inr by (auto simp: nodeKeeper_tick_v019_def)
  qed
qed

lemma nodeKeeper_v019_returns:
  "\<exists>localNodes' h'. nodeKeeper_v019 w dryRun period esUrl n (localNodes, h) = Some (localNodes', h')
     \<and> map fst localNodes' = map fst localNodes"
proof (induction n arbitrary: localNodes h)
  case 0
  then show ?case by simp
next
  case (Suc n)
  from tick_v019_returns [of w dryRun period esUrl localNodes h] obtain l1 h1
    where 1: "nodeKeeper_tick_v019 w dryRun period esUrl (localNodes, h) = Some (l1, h1)"
      and k: "map fst l1 = map fst localNodes"
    by blast
  from Suc.IH [of l1 h1] 1 k show ?case by auto
qed

lemma service_v010_eq:
  "nodeKeeper_service_v010 w noRestartTime esURL service (localNodes, h) =
     (case load_lastRestart localNodes service of
        None \<Rightarrow> None
      | Some lastTs \<Rightarrow>
          if noRestartTime * 60 <s unix_time w (h @ [Now]) - lastTs then
            (case fst (getClusterStatus_v010 w esURL (h @ [Now])) of
               Inl err \<Rightarrow> Some (localNodes, h @ [Now, HttpGet (esURL @ ''/_cluster/health'')])
             | Inr status \<Rightarrow>
                 (case fst (getClusterRoutingAllocation_v010 w esURL
                              (h @ [Now, HttpGet (esURL @ ''/_cluster/health'')])) of
                    Inl err \<Rightarrow>
                      Some (localNodes, h @ [Now, HttpGet (esURL @ ''/_cluster/health''),
                                             HttpGet (esURL @ ''/_cluster/settings'')])
                  | Inr alloc \<Rightarrow>
                      if ToLower w status \<noteq> ''red'' \<and> ToLower w alloc = ''all''
                      then
                        (case fst (restartNode w service
                                     (h @ [Now, HttpGet (esURL @ ''/_cluster/health''),
                                           HttpGet (esURL @ ''/_cluster/settings'')])) of
                           None \<Rightarrow>
                             (case store_lastRestart service (unix_time w (h @ [Now])) localNodes of
                                None \<Rightarrow> None
                              | Some localNodes2 \<Rightarrow>
                                  Some (localNodes2,
                                        h @ [Now, HttpGet (esURL @ ''/_cluster/health''),
                                             HttpGet (esURL @ ''/_cluster/settings''),
                                             restart_event_v010 service]))
                         | Some err \<Rightarrow>
                             Some (localNodes,
                                   h @ [Now, HttpGet (esURL @ ''/_cluster/health''),
                                        HttpGet (esURL @ ''/_cluster/settings''),
                                        restart_event_v010 service]))
                      else Some (localNodes, h @ [Now, HttpGet (esURL @ ''/_cluster/health''),
                                                  HttpGet (esURL @ ''/_cluster/settings'')])))
          else Some (localNodes, h @ [Now]))"
  by (simp add: nodeKeeper_service_v010_def time_now_def Let_def split_beta history_simps
      split: sum.splits option.splits)

lemma service_v013_returns:
  assumes "service \<in> fst ` set localNodes"
  shows "\<exists>localNodes' h'.
           nodeKeeper_service_v013 w dryRun noRestartTime esUrl service (localNodes, h)
             = Some (localNodes', h')
           \<and> map fst localNodes' = map fst localNodes"
proof -
  from load_in_registry [OF assms] obtain t where t: "load_lastRestart localNodes service = Some t"
    by blast
  then obtain l' where l': "store_lastRestart service (unix_time w (h @ [Now])) localNodes = Some l'"
    using store_after_load by blast
  from store_lastRestart_result(3) [OF l'] t l' show ?thesis
    by (simp add: service_v013_eq split: sum.splits option.splits)
qed

lemma service_v010_returns:
  assumes "service \<in> fst ` set localNodes"
  shows "\<exists>localNodes' h'.
           nodeKeeper_service_v010 w noRestartTime esURL service (localNodes, h)
             = Some (localNodes', h')
           \<and> map fst localNodes' = map fst localNodes"
proof -
  from load_in_registry [OF assms] obtain t where t: "load_lastRestart localNodes service = Some t"
    by blast
  then obtain l' where l': "store_lastRestart service (unix_time w (h @ [Now])) localNodes = Some l'"
    using store_after_load by blast
  from store_lastRestart_result(3) [OF l'] t l' show ?thesis
    by (simp add: service_v010_eq split: sum.splits option.splits)
qed

lemma services_v013_return:
  "set invalidNodes \<subseteq> fst ` set localNodes \<Longrightarrow>
   \<exists>localNodes' h'.
     nodeKeeper_services_v013 w dryRun noRestartTime esUrl invalidNodes (localNodes, h) = Some (localNodes', h')
     \<and> map fst localNodes' = map fst localNodes"
proof (induction invalidNodes arbitrary: localNodes h)
  case Nil
  then show ?case by simp
next
  case (Cons service invalidNodes)
  then have "service \<in> fst ` set localNodes" by simp
  from service_v013_returns [OF this, of w dryRun noRestartTime esUrl h] obtain l1 h1
    where 1: "nodeKeeper_service_v013 w dryRun noRestartTime esUrl service (localNodes, h) = Some (l1, h1)"
      and k: "map fst l1 = map fst localNodes"
    by blast
  from Cons.prems k have "set invalidNodes \<subseteq> fst ` set l1"
    by (metis list.set_map set_subset_Cons subset_trans)
  from Cons.IH [OF this, of h1] 1 k show ?case by auto
qed

lemma tick_v013_returns:
  "\<exists>localNodes' h'. nodeKeeper_tick_v013 w dryRun noRestartTime esUrl (localNodes, h) = Some (localNodes', h')
     \<and> map fst localNodes' = map fst localNodes"
proof (cases "getActiveNodes w esUrl h")
  case (Pair r h1)
  show ?thesis
  proof (cases r)
    case (Inl err)
    with Pair show ?thesis by (simp add: nodeKeeper_tick_v013_def)
  next
    case (Inr activeNodes)
    from services_v013_return [OF getInvalidNodes_subset, of w dryRun noRestartTime esUrl localNodes activeNodes h1]
    show ?thesis using Pair Inr by (auto simp: nodeKeeper_tick_v013_def)
  qed
qed

lemma nodeKeeper_v013_returns:
  "\<exists>localNodes' h'. nodeKeeper_v013 w dryRun noRestartTime esUrl n (localNodes, h) = Some (localNodes', h')
     \<and> map fst localNodes' = map fst localNodes"
proof (induction n arbitrary: localNodes h)
  case 0
  then show ?case by simp
next
  case (Suc n)
  from tick_v013_returns [of w dryRun noRestartTime esUrl localNodes h] obtain l1 h1
    where 1: "nodeKeeper_tick_v013 w dryRun noRestartTime esUrl (localNodes, h) = Some (l1, h1)"
      and k: "map fst l1 = map fst localNodes"
    by blast
  from Suc.IH [of l1 h1] 1 k show ?case by auto
qed

lemma services_v010_return:
  "set invalidNodes \<subseteq> fst ` set localNodes \<Longrightarrow>
   \<exists>localNodes' h'.
     nodeKeeper_services_v010 w noRestartTime esURL invalidNodes (localNodes, h) = Some (localNodes', h')
     \<and> map fst localNodes' = map fst localNodes"
proof (induction invalidNodes arbitrary: localNodes h)
  case Nil
  then show ?case by simp
next
  case (Cons service invalidNodes)
  then have "service \<in> fst ` set localNodes" by simp
  from service_v010_returns [OF this, of w noRestartTime esURL h] obtain l1 h1
    where 1: "nodeKeeper_service_v010 w noRestartTime esURL service (localNodes, h) = Some (l1, h1)"
      and k: "map fst l1 = map fst localNodes"
    by blast
  from Cons.prems k have "set invalidNodes \<subseteq> fst ` set l1"
    by (metis list.set_map set_subset_Cons subset_trans)
  from Cons.IH [OF this, of h1] 1 k show ?case by auto
qed

lemma tick_v010_returns:
  "\<exists>localNodes' h'. nodeKeeper_tick_v010 w noRestartTime esURL (localNodes, h) = Some (localNodes', h')
     \<and> map fst localNodes' = map fst localNodes"
proof (cases "getActiveNodes_v010 w esURL h")
  case (Pair r h1)
  show ?thesis
  proof (cases r)
    case (Inl err)
    with Pair show ?thesis by (simp add: nodeKeeper_tick_v010_def)
  next
    case (Inr activeNodes)
    from services_v010_return [OF getInvalidNodes_subset, of w noRestartTime esURL localNodes activeNodes h1]
    show ?thesis using Pair Inr by (auto simp: nodeKeeper_tick_v010_def)
  qed
qed

lemma nodeKeeper_v010_returns:
  "\<exists>localNodes' h'. nodeKeeper_v010 w noRestartTime esURL n (localNodes, h) = Some (localNodes', h')
     \<and> map fst localNodes' = map fst localNodes"
proof (induction n arbitrary: localNodes h)
  case 0
  then show ?case by simp
next
  case (Suc n)
  from tick_v010_returns [of w noRestartTime esURL localNodes h] obtain l1 h1
    where 1: "nodeKeeper_tick_v010 w noRestartTime esURL (localNodes, h) = Some (l1, h1)"
      and k: "map fst l1 = map fst localNodes"
    by blast
  from Suc.IH [of l1 h1] 1 k show ?case by auto
qed

section \<open>Which services a pass works on\<close>

lemma event_names [simp]:
  "restart_event x = restart_event y \<longleftrightarrow> x = y"
  "show_event x = show_event y \<longleftrightarrow> x = y"
  "restart_event_v010 x = restart_event_v010 y \<longleftrightarrow> x = y"
  "restart_event x \<noteq> show_event y" "show_event y \<noteq> restart_event x"
  "restart_event x \<noteq> restart_event_v010 y" "restart_event_v010 y \<noteq> restart_event x"
  "show_event x \<noteq> restart_event_v010 y" "restart_event_v010 y \<noteq> show_event x"
  "restart_event x \<noteq> Now" "show_event x \<noteq> Now" "restart_event_v010 x \<noteq> Now"
  "Now \<noteq> restart_event x" "Now \<noteq> show_event x" "Now \<noteq> restart_event_v010 x"
  "restart_event x \<noteq> HttpGet u" "show_event x \<noteq> HttpGet u" "restart_event_v010 x \<noteq> HttpGet u"
  "HttpGet u \<noteq> restart_event x" "HttpGet u \<noteq> show_event x" "HttpGet u \<noteq> restart_event_v010 x"
  "restart_event x \<noteq> Sleep n" "show_event x \<noteq> Sleep n" "restart_event_v010 x \<noteq> Sleep n"
  "Sleep n \<noteq> restart_event x" "Sleep n \<noteq> show_event x" "Sleep n \<noteq> restart_event_v010 x"
  "\<not> is_sleep (restart_event x)" "\<not> is_sleep (show_event x)" "\<not> is_sleep (restart_event_v010 x)"
  by (simp_all add: restart_event_def show_event_def restart_event_v010_def)

lemma service_v013_pass:
  assumes "nodeKeeper_service_v013 w d n u s (l, h) = Some (l', h')"
  shows "\<exists>evs. h' = h @ Now # evs \<and> Now \<notin> set evs \<and> (\<forall>e \<in> set evs. \<not> is_sleep e)
           \<and> (\<forall>x. restart_event x \<in> set evs \<longrightarrow> x = s)
           \<and> (\<forall>x. show_event x \<notin> set evs) \<and> (\<forall>x. restart_event_v010 x \<notin> set evs)
           \<and> (\<forall>x. x \<noteq> s \<longrightarrow> map_of l' x = map_of l x)"
  using assms
  by (auto simp: service_v013_eq split: sum.splits option.splits if_splits
      dest: store_lastRestart_result(2))


lemma service_v010_pass:
  assumes "nodeKeeper_service_v010 w n u s (l, h) = Some (l', h')"
  shows "\<exists>evs. h' = h @ Now # evs \<and> Now \<notin> set evs \<and> (\<forall>e \<in> set evs. \<not> is_sleep e)
           \<and> (\<forall>x. restart_event_v010 x \<in> set evs \<longrightarrow> x = s)
           \<and> (\<forall>x. show_event x \<notin> set evs) \<and> (\<forall>x. restart_event x \<notin> set evs)
           \<and> (\<forall>x. x \<noteq> s \<longrightarrow> map_of l' x = map_of l x)"
  using assms
  by (auto simp: service_v010_eq split: sum.splits option.splits if_splits
      dest: store_lastRestart_result(2))

lemma service_v019_pass:
  assumes "nodeKeeper_service_v019 w d p u s (l, h) = Some (l', h')"
  shows "\<exists>evs. h' = h @ show_event s # Now # evs \<and> Now \<notin> set evs
           \<and> (\<forall>e \<in> set evs. \<not> is_sleep e)
           \<and> (\<forall>x. restart_event x \<in> set evs \<longrightarrow> x = s)
           \<and> (\<forall>x. show_event x \<notin> set evs) \<and> (\<forall>x. restart_event_v010 x \<notin> set evs)
           \<and> (\<forall>x. x \<noteq> s \<longrightarrow> map_of l' x = map_of l x)"
proof -
  from assms obtain l1 where 1: "nodeKeeper_rederive_v019 w s (l, h) = Some (l1, h @ [show_event s])"
    and 2: "nodeKeeper_decide_v019 w d p u s (l1, h @ [show_event s]) = Some (l', h')"
    by (auto simp: nodeKeeper_service_v019_def rederive_v019_eq split: sum.splits option.splits)
  from 1 have 3: "\<forall>x. x \<noteq> s \<longrightarrow> map_of l1 x = map_of l x"
    by (auto simp: rederive_v019_eq split: sum.splits option.splits
        dest: store_lastRestart_result(2))
  from 2 have "\<exists>evs. h' = (h @ [show_event s]) @ Now # evs \<and> Now \<notin> set evs
           \<and> (\<forall>e \<in> set evs. \<not> is_sleep e)
           \<and> (\<forall>x. restart_event x \<in> set evs \<longrightarrow> x = s)
           \<and> (\<forall>x. show_event x \<notin> set evs) \<and> (\<forall>x. restart_event_v010 x \<notin> set evs)
           \<and> (\<forall>x. x \<noteq> s \<longrightarrow> map_of l' x = map_of l1 x)"
    by (auto simp: decide_v019_eq split: sum.splits option.splits if_splits
        dest: store_lastRestart_result(2))
  with 3 show ?thesis by auto
qed

lemma loop_summary_Nil: "loop_summary [] l l []"
  by (simp add: loop_summary_def)

lemma loop_summary_Cons:
  assumes "Now \<notin> set evs" "\<forall>e \<in> set evs. \<not> is_sleep e"
    "\<forall>x. restart_event x \<in> set evs \<longrightarrow> x = s"
    "\<forall>x. restart_event_v010 x \<in> set evs \<longrightarrow> x = s"
    "\<forall>x. show_event x \<in> set evs \<longrightarrow> x = s"
    "\<forall>x. x \<noteq> s \<longrightarrow> map_of l1 x = map_of l x"
    and "loop_summary ss l1 l' evs'"
  shows "loop_summary (s # ss) l l' (Now # evs @ evs')"
    and "loop_summary (s # ss) l l' (show_event s # Now # evs @ evs')"
proof -
  from assms(1) have "filter (\<lambda>e. e = Now) evs = []"
    by (auto simp: filter_empty_conv)
  with assms show "loop_summary (s # ss) l l' (Now # evs @ evs')"
    and "loop_summary (s # ss) l l' (show_event s # Now # evs @ evs')"
    by (auto simp: loop_summary_def)
qed

lemma services_v013_summary:
  "nodeKeeper_services_v013 w d n u ss (l, h) = Some (l', h') \<Longrightarrow>
   \<exists>evs. h' = h @ evs \<and> loop_summary ss l l' evs"
proof (induction ss arbitrary: l h)
  case Nil
  then show ?case by (simp add: loop_summary_Nil)
next
  case (Cons s ss)
  then obtain l1 h1 where 1: "nodeKeeper_service_v013 w d n u s (l, h) = Some (l1, h1)"
    and 2: "nodeKeeper_services_v013 w d n u ss (l1, h1) = Some (l', h')"
    by (auto split: option.splits)
  from service_v013_pass [OF 1] obtain evs where e: "h1 = h @ Now # evs" "Now \<notin> set evs"
    "\<forall>e \<in> set evs. \<not> is_sleep e" "\<forall>x. restart_event x \<in> set evs \<longrightarrow> x = s"
    "\<forall>x. show_event x \<notin> set evs" "\<forall>x. restart_event_v010 x \<notin> set evs"
    "\<forall>x. x \<noteq> s \<longrightarrow> map_of l1 x = map_of l x"
    by blast
  from Cons.IH [OF 2] obtain evs' where e': "h' = h1 @ evs'" "loop_summary ss l1 l' evs'"
    by blast
  from e e' have "loop_summary (s # ss) l l' (Now # evs @ evs')"
    by (intro loop_summary_Cons(1)) auto
  with e(1) e'(1) show ?case by auto
qed

lemma services_v019_summary:
  "nodeKeeper_services_v019 w d p u ss (l, h) = Some (l', h') \<Longrightarrow>
   \<exists>evs. h' = h @ evs \<and> loop_summary ss l l' evs"
proof (induction ss arbitrary: l h)
  case Nil
  then show ?case by (simp add: loop_summary_Nil)
next
  case (Cons s ss)
  then obtain l1 h1 where 1: "nodeKeeper_service_v019 w d p u s (l, h) = Some (l1, h1)"
    and 2: "nodeKeeper_services_v019 w d p u ss (l1, h1) = Some (l', h')"
    by (auto split: option.splits)
  from service_v019_pass [OF 1] obtain evs where e: "h1 = h @ show_event s # Now # evs" "Now \<notin> set evs"
    "\<forall>e \<in> set evs. \<not> is_sleep e" "\<forall>x. restart_event x \<in> set evs \<longrightarrow> x = s"
    "\<forall>x. show_event x \<notin> set evs" "\<forall>x. restart_event_v010 x \<notin> set evs"
    "\<forall>x. x \<noteq> s \<longrightarrow> map_of l1 x = map_of l x"
    by blast
  from Cons.IH [OF 2] obtain evs' where e': "h' = h1 @ evs'" "loop_summary ss l1 l' evs'"
    by blast
  from e e' have "loop_summary (s # ss) l l' (show_event s # Now # evs @ evs')"
    by (intro loop_summary_Cons(2)) auto
  with e(1) e'(1) show ?case by auto
qed

lemma services_v010_summary:
  "nodeKeeper_services_v010 w n u ss (l, h) = Some (l', h') \<Longrightarrow>
   \<exists>evs. h' = h @ evs \<and> loop_summary ss l l' evs"
proof (induction ss arbitrary: l h)
  case Nil
  then show ?case by (simp add: loop_summary_Nil)
next
  case (Cons s ss)
  then obtain l1 h1 where 1: "nodeKeeper_service_v010 w n u s (l, h) = Some (l1, h1)"
    and 2: "nodeKeeper_services_v010 w n u ss (l1, h1) = Some (l', h')"
    by (auto split: option.splits)
  from service_v010_pass [OF 1] obtain evs where e: "h1 = h @ Now # evs" "Now \<notin> set evs"
    "\<forall>e \<in> set evs. \<not> is_sleep e" "\<forall>x. restart_event_v010 x \<in> set evs \<longrightarrow> x = s"
    "\<forall>x. show_event x \<notin> set evs" "\<forall>x. restart_event x \<notin> set evs"
    "\<forall>x. x \<noteq> s \<longrightarrow> map_of l1 x = map_of l x"
    by blast
  from Cons.IH [OF 2] obtain evs' where e': "h' = h1 @ evs'" "loop_summary ss l1 l' evs'"
    by blast
  from e e' have "loop_summary (s # ss) l l' (Now # evs @ evs')"
    by (intro loop_summary_Cons(1)) auto
  with e(1) e'(1) show ?case by auto
qed


lemma tick_v019_summary:
  assumes "nodeKeeper_tick_v019 w d p u (l, h) = Some (l', h')"
    and "fst (getActiveNodes w u h) = Inr A"
  shows "\<exists>evs. h' = h @ HttpGet (u @ ''/_cat/nodes?h=name&format=json'') # evs @ [Sleep 30]
           \<and> loop_summary (getInvalidNodes l A) l l' evs"
proof -
  from assms(2) have g: "getActiveNodes w u h = (Inr A, h @ [HttpGet (u @ ''/_cat/nodes?h=name&format=json'')])"
    using snd_getActiveNodes [of w u h] by (cases "getActiveNodes w u h") simp
  with assms(1) obtain h2 where 1: "nodeKeeper_services_v019 w d p u (getInvalidNodes l A)
        (l, h @ [HttpGet (u @ ''/_cat/nodes?h=name&format=json'')]) = Some (l', h2)"
    and 2: "h' = h2 @ [Sleep 30]"
    by (auto simp: nodeKeeper_tick_v019_def sleepLoop_def interval_def split: option.splits)
  from services_v019_summary [OF 1] 2 show ?thesis by auto
qed

lemma tick_v013_summary:
  assumes "nodeKeeper_tick_v013 w d n u (l, h) = Some (l', h')"
    and "fst (getActiveNodes w u h) = Inr A"
  shows "\<exists>evs. h' = h @ HttpGet (u @ ''/_cat/nodes?h=name&format=json'') # evs @ [Sleep 30]
           \<and> loop_summary (getInvalidNodes l A) l l' evs"
proof -
  from assms(2) have g: "getActiveNodes w u h = (Inr A, h @ [HttpGet (u @ ''/_cat/nodes?h=name&format=json'')])"
    using snd_getActiveNodes [of w u h] by (cases "getActiveNodes w u h") simp
  with assms(1) obtain h2 where 1: "nodeKeeper_services_v013 w d n u (getInvalidNodes l A)
        (l, h @ [HttpGet (u @ ''/_cat/nodes?h=name&format=json'')]) = Some (l', h2)"
    and 2: "h' = h2 @ [Sleep 30]"
    by (auto simp: nodeKeeper_tick_v013_def sleepLoop_def interval_def split: option.splits)
  from services_v013_summary [OF 1] 2 show ?thesis by auto
qed

lemma tick_v010_summary:
  assumes "nodeKeeper_tick_v010 w n u (l, h) = Some (l', h')"
    and "fst (getActiveNodes_v010 w u h) = Inr A"
  shows "\<exists>evs. h' = h @ HttpGet (u @ ''/_cat/nodes?h=name&format=json'') # evs @ [Sleep 30]
           \<and> loop_summary (getInvalidNodes l A) l l' evs"
proof -
  from assms(2) have g: "getActiveNodes_v010 w u h = (Inr A, h @ [HttpGet (u @ ''/_cat/nodes?h=name&format=json'')])"
    using snd_getActiveNodes_v010 [of w u h] by (cases "getActiveNodes_v010 w u h") simp
  with assms(1) obtain h2 where 1: "nodeKeeper_services_v010 w n u (getInvalidNodes l A)
        (l, h @ [HttpGet (u @ ''/_cat/nodes?h=name&format=json'')]) = Some (l', h2)"
    and 2: "h' = h2 @ [Sleep 30]"
    by (auto simp: nodeKeeper_tick_v010_def interval_def split: option.splits)
  from services_v010_summary [OF 1] 2 show ?thesis by auto
qed

lemma getInvalidNodes_iff:
  assumes "distinct (map fst localNodes)"
  shows "service \<in> set (getInvalidNodes localNodes activeNodes) \<longleftrightarrow>
           (\<exists>v. map_of localNodes service = Some v \<and> instanceName v \<notin> activeNodes)"
  using assms by (force simp: getInvalidNodes_def)

lemma active_not_evaluated:
  assumes "distinct (map fst l)" "map_of l s = Some v" "instanceName v \<in> A"
    and "h' = h @ HttpGet url # evs @ [Sleep 30]"
    and "loop_summary (getInvalidNodes l A) l l' evs"
  shows "restart_event s \<notin> set (drop (length h) h')"
    and "restart_event_v010 s \<notin> set (drop (length h) h')"
    and "show_event s \<notin> set (drop (length h) h')"
    and "map_of l' s = Some v"
    and "length (filter (\<lambda>e. e = Now) (drop (length h) h')) = length (getInvalidNodes l A)"
proof -
  from assms(1-3) have "s \<notin> set (getInvalidNodes l A)"
    by (simp add: getInvalidNodes_iff)
  with assms(2,4,5) show "restart_event s \<notin> set (drop (length h) h')"
    and "restart_event_v010 s \<notin> set (drop (length h) h')"
    and "show_event s \<notin> set (drop (length h) h')"
    and "map_of l' s = Some v"
    and "length (filter (\<lambda>e. e = Now) (drop (length h) h')) = length (getInvalidNodes l A)"
    by (auto simp: loop_summary_def)
qed

text \<open>
  C8. For a registry (one entry per service) and a set of active instance names, a service
  is in the list of invalid services exactly when the registry holds it and its expected
  instance name is not in the set. And in a pass of the outer loop, in each of the three
  versions, a service whose expected instance name is in the fetched set of active nodes
  is not worked on: the pass runs no command for it (no restart and, in version 0.19, no
  query of its activation time), its entry in the registry is as before, and the pass
  reads the clock, which every service worked on does once before anything else, exactly
  as many times as there are invalid services.
\<close>

theorem active_service_never_evaluated:
  "(distinct (map fst localNodes)
      \<longrightarrow> (service \<in> set (getInvalidNodes localNodes activeNodes) \<longleftrightarrow>
             (\<exists>v. map_of localNodes service = Some v \<and> instanceName v \<notin> activeNodes)))
   \<and> (distinct (map fst localNodes)
        \<and> fst (getActiveNodes w esUrl h) = Inr activeNodes
        \<and> map_of localNodes service = Some v \<and> instanceName v \<in> activeNodes
        \<and> nodeKeeper_tick_v019 w dryRun period esUrl (localNodes, h) = Some (localNodes', h')
      \<longrightarrow> restart_event service \<notin> set (drop (length h) h')
          \<and> show_event service \<notin> set (drop (length h) h')
          \<and> map_of localNodes' service = Some v
          \<and> length (filter (\<lambda>e. e = Now) (drop (length h) h'))
              = length (getInvalidNodes localNodes activeNodes))
   \<and> (distinct (map fst localNodes)
        \<and> fst (getActiveNodes w esUrl h) = Inr activeNodes
        \<and> map_of localNodes service = Some v \<and> instanceName v \<in> activeNodes
        \<and> nodeKeeper_tick_v013 w dryRun noRestartTime esUrl (localNodes, h)
            = Some (localNodes', h')
      \<longrightarrow> restart_event service \<notin> set (drop (length h) h')
          \<and> map_of localNodes' service = Some v
          \<and> length (filter (\<lambda>e. e = Now) (drop (length h) h'))
              = length (getInvalidNodes localNodes activeNodes))
   \<and> (distinct (map fst localNodes)
        \<and> fst (getActiveNodes_v010 w esUrl h) = Inr activeNodes
        \<and> map_of localNodes service = Some v \<and> instanceName v \<in> activeNodes
        \<and> nodeKeeper_tick_v010 w noRestartTime esUrl (localNodes, h) = Some (localNodes', h')
      \<longrightarrow> restart_event_v010 service \<notin> set (drop (length h) h')
          \<and> map_of localNodes' service = Some v
          \<and> length (filter (\<lambda>e. e = Now) (drop (length h) h'))
              = length (getInvalidNodes localNodes activeNodes))"
proof (intro conjI impI)
  assume "distinct (map fst localNodes)"
  then show "service \<in> set (getInvalidNodes localNodes activeNodes) \<longleftrightarrow>
             (\<exists>v. map_of localNodes service = Some v \<and> instanceName v \<notin> activeNodes)"
    by (rule getInvalidNodes_iff)
next
  assume a: "distinct (map fst localNodes)
        \<and> fst (getActiveNodes w esUrl h) = Inr activeNodes
        \<and> map_of localNodes service = Some v \<and> instanceName v \<in> activeNodes
        \<and> nodeKeeper_tick_v019 w dryRun period esUrl (localNodes, h) = Some (localNodes', h')"
  then obtain evs
    where e: "h' = h @ HttpGet (esUrl @ ''/_cat/nodes?h=name&format=json'') # evs @ [Sleep 30]"
      "loop_summary (getInvalidNodes localNodes activeNodes) localNodes localNodes' evs"
    using tick_v019_summary by blast
  from a have b: "distinct (map fst localNodes)" "map_of localNodes service = Some v"
    "instanceName v \<in> activeNodes"
    by blast+
  note r = active_not_evaluated [OF b e]
  from r(1) show "restart_event service \<notin> set (drop (length h) h')" .
  from r(3) show "show_event service \<notin> set (drop (length h) h')" .
  from r(4) show "map_of localNodes' service = Some v" .
  from r(5) show "length (filter (\<lambda>e. e = Now) (drop (length h) h'))
              = length (getInvalidNodes localNodes activeNodes)" .
next
  assume a: "distinct (map fst localNodes)
        \<and> fst (getActiveNodes w esUrl h) = Inr activeNodes
        \<and> map_of localNodes service = Some v \<and> instanceName v \<in> activeNodes
        \<and> nodeKeeper_tick_v013 w dryRun noRestartTime esUrl (localNodes, h)
            = Some (localNodes', h')"
  then obtain evs
    where e: "h' = h @ HttpGet (esUrl @ ''/_cat/nodes?h=name&format=json'') # evs @ [Sleep 30]"
      "loop_summary (getInvalidNodes localNodes activeNodes) localNodes localNodes' evs"
    using tick_v013_summary by blast
  from a have b: "distinct (map fst localNodes)" "map_of localNodes service = Some v"
    "instanceName v \<in> activeNodes"
    by blast+
  note r = active_not_evaluated [OF b e]
  from r(1) show "restart_event service \<notin> set (drop (length h) h')" .
  from r(4) show "map_of localNodes' service = Some v" .
  from r(5) show "length (filter (\<lambda>e. e = Now) (drop (length h) h'))
              = length (getInvalidNodes localNodes activeNodes)" .
next
  assume a: "distinct (map fst localNodes)
        \<and> fst (getActiveNodes_v010 w esUrl h) = Inr activeNodes
        \<and> map_of localNodes service = Some v \<and> instanceName v \<in> activeNodes
        \<and> nodeKeeper_tick_v010 w noRestartTime esUrl (localNodes, h) = Some (localNodes', h')"
  then obtain evs
    where e: "h' = h @ HttpGet (esUrl @ ''/_cat/nodes?h=name&format=json'') # evs @ [Sleep 30]"
      "loop_summary (getInvalidNodes localNodes activeNodes) localNodes localNodes' evs"
    using tick_v010_summary by blast
  from a have b: "distinct (map fst localNodes)" "map_of localNodes service = Some v"
    "instanceName v \<in> activeNodes"
    by blast+
  note r = active_not_evaluated [OF b e]
  from r(2) show "restart_event_v010 service \<notin> set (drop (length h) h')" .
  from r(4) show "map_of localNodes' service = Some v" .
  from r(5) show "length (filter (\<lambda>e. e = Now) (drop (length h) h'))
              = length (getInvalidNodes localNodes activeNodes)" .
qed

text \<open>
  The cluster lists \<^verbatim>\<open>instA\<close>; of the two services only \<^verbatim>\<open>svc2\<close>, which expects
  \<^verbatim>\<open>instB\<close>, is invalid. Each version works on \<^verbatim>\<open>svc2\<close> and restarts it, and leaves
  \<^verbatim>\<open>svc1\<close> alone.
\<close>

theorem active_service_never_evaluated_witness:
  "distinct (map fst (localNodesToMap two_config))
   \<and> fst (getActiveNodes instA_world ''es'' []) = Inr {''instA''}
   \<and> fst (getActiveNodes_v010 instA_world ''es'' []) = Inr {''instA''}
   \<and> map_of (localNodesToMap two_config) ''svc1''
       = Some \<lparr>instanceName = ''instA'', lastRestart = 0\<rparr>
   \<and> instanceName \<lparr>instanceName = ''instA'', lastRestart = 0 :: go_int\<rparr> \<in> {''instA''}
   \<and> getInvalidNodes (localNodesToMap two_config) {''instA''} = [''svc2'']
   \<and> ''svc1'' \<notin> set (getInvalidNodes (localNodesToMap two_config) {''instA''})
   \<and> nodeKeeper_tick_v019 instA_world False 600 ''es'' (localNodesToMap two_config, [])
       = Some ([(''svc1'', \<lparr>instanceName = ''instA'', lastRestart = 0\<rparr>),
                (''svc2'', \<lparr>instanceName = ''instB'', lastRestart = 1000\<rparr>)],
               [HttpGet ''es/_cat/nodes?h=name&format=json'', show_event ''svc2'', Now,
                HttpGet ''es/_cluster/health'', HttpGet ''es/_cluster/settings'',
                restart_event ''svc2'', Sleep 30])
   \<and> nodeKeeper_tick_v013 instA_world False 10 ''es'' (localNodesToMap two_config, [])
       = Some ([(''svc1'', \<lparr>instanceName = ''instA'', lastRestart = 0\<rparr>),
                (''svc2'', \<lparr>instanceName = ''instB'', lastRestart = 1000\<rparr>)],
               [HttpGet ''es/_cat/nodes?h=name&format=json'', Now,
                HttpGet ''es/_cluster/health'', HttpGet ''es/_cluster/settings'',
                restart_event ''svc2'', Sleep 30])
   \<and> nodeKeeper_tick_v010 instA_world 10 ''es'' (localNodesToMap two_config, [])
       = Some ([(''svc1'', \<lparr>instanceName = ''instA'', lastRestart = 0\<rparr>),
                (''svc2'', \<lparr>instanceName = ''instB'', lastRestart = 1000\<rparr>)],
               [HttpGet ''es/_cat/nodes?h=name&format=json'', Now,
                HttpGet ''es/_cluster/health'', HttpGet ''es/_cluster/settings'',
                restart_event_v010 ''svc2'', Sleep 30])
   \<and> show_event ''svc1'' \<notin> set (drop (length ([] :: event list))
         [HttpGet ''es/_cat/nodes?h=name&format=json'', show_event ''svc2'', Now,
          HttpGet ''es/_cluster/health'', HttpGet ''es/_cluster/settings'',
          restart_event ''svc2'', Sleep 30])
   \<and> length (filter (\<lambda>e. e = Now) (drop (length ([] :: event list))
         [HttpGet ''es/_cat/nodes?h=name&format=json'', show_event ''svc2'', Now,
          HttpGet ''es/_cluster/health'', HttpGet ''es/_cluster/settings'',
          restart_event ''svc2'', Sleep 30]))
       = length (getInvalidNodes (localNodesToMap two_config) {''instA''})
   \<and> restart_event ''svc1'' \<notin> set (drop (length ([] :: event list))
         [HttpGet ''es/_cat/nodes?h=name&format=json'', Now,
          HttpGet ''es/_cluster/health'', HttpGet ''es/_cluster/settings'',
          restart_event ''svc2'', Sleep 30])
   \<and> restart_event_v010 ''svc1'' \<notin> set (drop (length ([] :: event list))
         [HttpGet ''es/_cat/nodes?h=name&format=json'', Now,
          HttpGet ''es/_cluster/health'', HttpGet ''es/_cluster/settings'',
          restart_event_v010 ''svc2'', Sleep 30])"
proof -
  let ?reg = "localNodesToMap two_config"
  let ?v = "\<lparr>instanceName = ''instA'', lastRestart = 0 :: go_int\<rparr>"
  let ?reg' = "[(''svc1'', \<lparr>instanceName = ''instA'', lastRestart = 0 :: go_int\<rparr>),
                (''svc2'', \<lparr>instanceName = ''instB'', lastRestart = 1000\<rparr>)]"
  let ?h19 = "[HttpGet ''es/_cat/nodes?h=name&format=json'', show_event ''svc2'', Now,
               HttpGet ''es/_cluster/health'', HttpGet ''es/_cluster/settings'',
               restart_event ''svc2'', Sleep 30]"
  let ?h13 = "[HttpGet ''es/_cat/nodes?h=name&format=json'', Now,
               HttpGet ''es/_cluster/health'', HttpGet ''es/_cluster/settings'',
               restart_event ''svc2'', Sleep 30]"
  let ?h10 = "[HttpGet ''es/_cat/nodes?h=name&format=json'', Now,
               HttpGet ''es/_cluster/health'', HttpGet ''es/_cluster/settings'',
               restart_event_v010 ''svc2'', Sleep 30]"
  note defs = run_simps instA_world_def two_config_def
  have a: "distinct (map fst ?reg)"
    by (simp add: defs)
  have b: "fst (getActiveNodes instA_world ''es'' []) = Inr {''instA''}"
    "fst (getActiveNodes_v010 instA_world ''es'' []) = Inr {''instA''}"
    by (simp_all add: defs)
  have c: "map_of ?reg ''svc1'' = Some ?v" "instanceName ?v \<in> {''instA''}"
    by (simp_all add: defs)
  have d: "getInvalidNodes ?reg {''instA''} = [''svc2'']"
    by (simp add: defs)
  have e: "nodeKeeper_tick_v019 instA_world False 600 ''es'' (?reg, []) = Some (?reg', ?h19)"
    by (simp add: defs)
  have f: "nodeKeeper_tick_v013 instA_world False 10 ''es'' (?reg, []) = Some (?reg', ?h13)"
    by (simp add: defs)
  have g: "nodeKeeper_tick_v010 instA_world 10 ''es'' (?reg, []) = Some (?reg', ?h10)"
    by (simp add: defs)
  note t = active_service_never_evaluated
  from t [of ?reg "''svc1''" "{''instA''}", THEN conjunct1] a
  have "''svc1'' \<in> set (getInvalidNodes ?reg {''instA''}) \<longleftrightarrow>
          (\<exists>v. map_of ?reg ''svc1'' = Some v \<and> instanceName v \<notin> {''instA''})"
    by (rule mp)
  with c have i: "''svc1'' \<notin> set (getInvalidNodes ?reg {''instA''})"
    by simp
  from a b c e t [of ?reg "''svc1''" "{''instA''}" instA_world "''es''" "[]" ?v False 600
      ?reg' ?h19]
  have j: "show_event ''svc1'' \<notin> set (drop (length ([] :: event list)) ?h19)"
    "length (filter (\<lambda>e. e = Now) (drop (length ([] :: event list)) ?h19))
       = length (getInvalidNodes ?reg {''instA''})"
    by blast+
  from a b c f t [of ?reg "''svc1''" "{''instA''}" instA_world "''es''" "[]" ?v False 600
      ?reg' ?h13 10]
  have k: "restart_event ''svc1'' \<notin> set (drop (length ([] :: event list)) ?h13)"
    by blast
  from a b c g t [of ?reg "''svc1''" "{''instA''}" instA_world "''es''" "[]" ?v False 600
      ?reg' ?h10 10]
  have l: "restart_event_v010 ''svc1'' \<notin> set (drop (length ([] :: event list)) ?h10)"
    by blast
  from a b c d e f g i j k l show ?thesis
    by blast
qed

section \<open>The timestamp across passes\<close>

lemma restart_v013_success:
  "fst (restartSystemdService_v013 w (s @ ''.service'') h) = None
   \<longleftrightarrow> run_error (run w (h @ [restart_event s])) = None"
  by (simp add: restartSystemdService_v013_def restart_event_def Let_def split: option.splits)

lemma restart_v019_success:
  "fst (restartSystemdService w (s @ ''.service'') h) = None
   \<longleftrightarrow> run_error (run w (h @ [restart_event s])) = None"
  by (simp add: restartSystemdService_def executeCommand_def restart_event_def Let_def
      split: option.splits)

lemma last_successful_restart_append:
  "last_successful_restart w s h (a @ b) t
   = last_successful_restart w s (h @ a) b (last_successful_restart w s h a t)"
  by (induction a arbitrary: h t) simp_all

lemma last_successful_restart_none:
  "restart_event s \<notin> set evs \<Longrightarrow> last_successful_restart w s h evs t = t"
  by (induction evs arbitrary: h) auto

lemma pass_now_after_fetch:
  "pass_now w (h @ [Now, HttpGet a, HttpGet b]) = unix_time w (h @ [Now])"
  by (simp add: pass_now_def)

lemma load_cong: "map_of l' x = map_of l x \<Longrightarrow> load_lastRestart l' x = load_lastRestart l x"
  by (simp add: load_lastRestart_def)

lemma service_v013_outcomes:
  assumes "nodeKeeper_service_v013 w d n u s (l, h) = Some (l', h')"
  shows "(l' = l \<and> (\<exists>evs. h' = h @ evs \<and> (\<forall>e \<in> set evs. \<not> is_sleep e)
                     \<and> (\<forall>x. restart_event x \<notin> set evs)))
       \<or> (l' = l
           \<and> h' = h @ [Now, HttpGet (u @ ''/_cluster/health''), HttpGet (u @ ''/_cluster/settings''),
                        restart_event s]
           \<and> run_error (run w (h @ [Now, HttpGet (u @ ''/_cluster/health''),
                                     HttpGet (u @ ''/_cluster/settings''), restart_event s])) \<noteq> None)
       \<or> (store_lastRestart s (unix_time w (h @ [Now])) l = Some l'
           \<and> h' = h @ [Now, HttpGet (u @ ''/_cluster/health''), HttpGet (u @ ''/_cluster/settings''),
                        restart_event s]
           \<and> run_error (run w (h @ [Now, HttpGet (u @ ''/_cluster/health''),
                                     HttpGet (u @ ''/_cluster/settings''), restart_event s])) = None)"
proof -
  let ?hr = "h @ [Now, HttpGet (u @ ''/_cluster/health''), HttpGet (u @ ''/_cluster/settings'')]"
  have r: "run_error (run w (h @ [Now, HttpGet (u @ ''/_cluster/health''),
                                  HttpGet (u @ ''/_cluster/settings''), restart_event s])) = None
           \<longleftrightarrow> fst (restartSystemdService_v013 w (s @ ''.service'') ?hr) = None"
    by (simp add: restart_v013_success)
  from assms [symmetric] show ?thesis
    unfolding service_v013_eq
    by (simp add: r split: sum.splits option.splits if_splits)
qed

lemma replay_pass_events:
  fixes u :: string
  defines "r \<equiv> \<lambda>s. [Now, HttpGet (u @ ''/_cluster/health''), HttpGet (u @ ''/_cluster/settings''),
                       restart_event s]"
  shows "\<forall>e \<in> set (r s). \<not> is_sleep e"
    and "run_error (run w (h @ r s)) \<noteq> None \<Longrightarrow> last_successful_restart w x h (r s) t = t"
    and "run_error (run w (h @ r s)) = None \<Longrightarrow>
         last_successful_restart w s h (r s) t = unix_time w (h @ [Now])"
  by (simp_all add: r_def pass_now_after_fetch del: not_None_eq)


lemma replay_result:
  assumes "h' = h @ evs" "\<forall>e \<in> set evs. \<not> is_sleep e"
    "load_lastRestart l' x = Some t'" "last_successful_restart w x h evs t = t'"
  shows "\<exists>evs. h' = h @ evs \<and> (\<forall>e \<in> set evs. \<not> is_sleep e)
           \<and> load_lastRestart l' x = Some (last_successful_restart w x h evs t)"
  using assms by blast

lemma service_v013_replay:
  assumes "nodeKeeper_service_v013 w d n u s (l, h) = Some (l', h')"
    and "load_lastRestart l x = Some t"
  shows "\<exists>evs. h' = h @ evs \<and> (\<forall>e \<in> set evs. \<not> is_sleep e)
           \<and> load_lastRestart l' x = Some (last_successful_restart w x h evs t)"
proof (cases "x = s")
  case True
  let ?r = "[Now, HttpGet (u @ ''/_cluster/health''), HttpGet (u @ ''/_cluster/settings''),
             restart_event s]"
  note ev = replay_pass_events
  from service_v013_outcomes [OF assms(1)] show ?thesis
  proof (elim disjE conjE exE)
    fix evs assume a: "l' = l" "h' = h @ evs" "\<forall>e \<in> set evs. \<not> is_sleep e"
      "\<forall>x. restart_event x \<notin> set evs"
    from a(4) have "last_successful_restart w x h evs t = t"
      by (simp add: last_successful_restart_none)
    moreover from a(1) assms(2) have "load_lastRestart l' x = Some t" by simp
    ultimately show ?thesis using a(2,3) by (intro replay_result)
  next
    assume a: "l' = l" "h' = h @ ?r" "run_error (run w (h @ ?r)) \<noteq> None"
    from ev(2) [OF a(3)] have "last_successful_restart w x h ?r t = t" .
    moreover from a(1) assms(2) have "load_lastRestart l' x = Some t" by simp
    ultimately show ?thesis using a(2) ev(1) [of u s] by (intro replay_result)
  next
    assume st: "store_lastRestart s (unix_time w (h @ [Now])) l = Some l'"
      and a: "h' = h @ ?r" "run_error (run w (h @ ?r)) = None"
    from ev(3) [OF a(2)] True
    have "last_successful_restart w x h ?r t = unix_time w (h @ [Now])" by simp
    moreover from store_lastRestart_result(1) [OF st] True
    have "load_lastRestart l' x = Some (unix_time w (h @ [Now]))" by simp
    ultimately show ?thesis using a(1) ev(1) [of u s] by (intro replay_result)
  qed
next
  case False
  from service_v013_pass [OF assms(1)] obtain evs where e: "h' = h @ Now # evs"
    "\<forall>e \<in> set evs. \<not> is_sleep e" "\<forall>y. restart_event y \<in> set evs \<longrightarrow> y = s"
    "\<forall>y. y \<noteq> s \<longrightarrow> map_of l' y = map_of l y"
    by blast
  from e(3) False have "restart_event x \<notin> set (Now # evs)" by auto
  then have "last_successful_restart w x h (Now # evs) t = t"
    by (rule last_successful_restart_none)
  moreover from e(4) False assms(2) have "load_lastRestart l' x = Some t"
    using load_cong [of l' x l] by simp
  moreover from e(2) have "\<forall>e \<in> set (Now # evs). \<not> is_sleep e" by simp
  ultimately show ?thesis using e(1) by (intro replay_result)
qed

lemma services_v013_replay:
  "nodeKeeper_services_v013 w d n u ss (l, h) = Some (l', h') \<Longrightarrow>
   load_lastRestart l x = Some t \<Longrightarrow>
   \<exists>evs. h' = h @ evs \<and> (\<forall>e \<in> set evs. \<not> is_sleep e)
     \<and> load_lastRestart l' x = Some (last_successful_restart w x h evs t)"
proof (induction ss arbitrary: l h t)
  case Nil
  then show ?case by simp
next
  case (Cons s ss)
  then obtain l1 h1 where 1: "nodeKeeper_service_v013 w d n u s (l, h) = Some (l1, h1)"
    and 2: "nodeKeeper_services_v013 w d n u ss (l1, h1) = Some (l', h')"
    by (auto split: option.splits)
  from service_v013_replay [OF 1 Cons.prems(2)] obtain evs where e: "h1 = h @ evs"
    "\<forall>e \<in> set evs. \<not> is_sleep e"
    "load_lastRestart l1 x = Some (last_successful_restart w x h evs t)"
    by blast
  from Cons.IH [OF 2 e(3)] obtain evs' where e': "h' = h1 @ evs'"
    "\<forall>e \<in> set evs'. \<not> is_sleep e"
    "load_lastRestart l' x
       = Some (last_successful_restart w x h1 evs' (last_successful_restart w x h evs t))"
    by blast
  from e e' show ?case
    by (intro exI [of _ "evs @ evs'"]) (auto simp: last_successful_restart_append)
qed

lemma tick_v013_replay:
  assumes "nodeKeeper_tick_v013 w d n u (l, h) = Some (l', h')"
    and "load_lastRestart l x = Some t"
  shows "\<exists>evs. h' = h @ evs
           \<and> load_lastRestart l' x = Some (last_successful_restart w x h evs t)"
proof (cases "fst (getActiveNodes w u h)")
  case (Inl err)
  from tick_v013_fetch_error [OF Inl, of d n l] assms show ?thesis
    by (auto simp: last_successful_restart_none)
next
  case (Inr A)
  let ?g = "HttpGet (u @ ''/_cat/nodes?h=name&format=json'')"
  from Inr have g: "getActiveNodes w u h = (Inr A, h @ [?g])"
    using snd_getActiveNodes [of w u h] by (cases "getActiveNodes w u h") simp
  with assms(1) obtain h2 where 1: "nodeKeeper_services_v013 w d n u (getInvalidNodes l A)
        (l, h @ [?g]) = Some (l', h2)"
    and 2: "h' = h2 @ [Sleep 30]"
    by (auto simp: nodeKeeper_tick_v013_def sleepLoop_def interval_def split: option.splits)
  from services_v013_replay [OF 1 assms(2)] obtain evs where e: "h2 = (h @ [?g]) @ evs"
    "load_lastRestart l' x = Some (last_successful_restart w x (h @ [?g]) evs t)"
    by blast
  have "last_successful_restart w x h (?g # evs @ [Sleep 30]) t
        = last_successful_restart w x (h @ [?g]) evs t"
    by (simp add: last_successful_restart_append)
  with e 2 show ?thesis
    by (intro exI [of _ "?g # evs @ [Sleep 30]"]) auto
qed

lemma nodeKeeper_v013_replay:
  "nodeKeeper_v013 w d n u k (l, h) = Some (l', h') \<Longrightarrow>
   load_lastRestart l x = Some t \<Longrightarrow>
   \<exists>evs. h' = h @ evs \<and> load_lastRestart l' x = Some (last_successful_restart w x h evs t)"
proof (induction k arbitrary: l h t)
  case 0
  then show ?case by simp
next
  case (Suc k)
  then obtain l1 h1 where 1: "nodeKeeper_tick_v013 w d n u (l, h) = Some (l1, h1)"
    and 2: "nodeKeeper_v013 w d n u k (l1, h1) = Some (l', h')"
    by (auto split: option.splits)
  from tick_v013_replay [OF 1 Suc.prems(2)] obtain evs where e: "h1 = h @ evs"
    "load_lastRestart l1 x = Some (last_successful_restart w x h evs t)"
    by blast
  from Suc.IH [OF 2 e(2)] obtain evs' where e': "h' = h1 @ evs'"
    "load_lastRestart l' x
       = Some (last_successful_restart w x h1 evs' (last_successful_restart w x h evs t))"
    by blast
  from e e' show ?case
    by (intro exI [of _ "evs @ evs'"]) (auto simp: last_successful_restart_append)
qed

lemma service_v013_suppressed:
  assumes "load_lastRestart l s = Some t"
    and "sint (unix_time w (h @ [Now])) - sint t \<le> sint n * 60"
    and "- (2 ^ 63) \<le> sint (unix_time w (h @ [Now])) - sint t"
    and "sint (unix_time w (h @ [Now])) - sint t < 2 ^ 63"
    and "- (2 ^ 63) \<le> sint n * 60" "sint n * 60 < 2 ^ 63"
  shows "nodeKeeper_service_v013 w d n u s (l, h) = Some (l, h @ [Now])"
  using assms(1) guard_fails_minutes [OF assms(2-6)]
  by (simp add: service_v013_eq)

lemma decide_v019_suppressed:
  assumes "load_lastRestart l s = Some t"
    and "sint (unix_time w (h @ [Now])) - sint t \<le> sint p"
    and "- (2 ^ 63) \<le> sint (unix_time w (h @ [Now])) - sint t"
    and "sint (unix_time w (h @ [Now])) - sint t < 2 ^ 63"
  shows "nodeKeeper_decide_v019 w d p u s (l, h) = Some (l, h @ [Now])"
  using assms(1) guard_fails_seconds [OF assms(2-4)]
  by (simp add: decide_v019_eq)

lemma services_v013_suppressed:
  assumes "nodeKeeper_services_v013 w d n u ss (l, h) = Some (l', h')"
    and "load_lastRestart l s = Some t"
    and "- (2 ^ 63) \<le> sint n * 60" "sint n * 60 < 2 ^ 63"
    and "\<And>ext. filter is_sleep ext = [] \<Longrightarrow>
           sint (unix_time w (h @ ext)) - sint t \<le> sint n * 60
           \<and> - (2 ^ 63) \<le> sint (unix_time w (h @ ext)) - sint t
           \<and> sint (unix_time w (h @ ext)) - sint t < 2 ^ 63"
  shows "\<exists>evs. h' = h @ evs \<and> restart_event s \<notin> set evs \<and> load_lastRestart l' s = Some t"
  using assms
proof (induction ss arbitrary: l h)
  case Nil
  then show ?case by simp
next
  case (Cons s' ss)
  from Cons.prems(1) obtain l1 h1
    where 1: "nodeKeeper_service_v013 w d n u s' (l, h) = Some (l1, h1)"
      and 2: "nodeKeeper_services_v013 w d n u ss (l1, h1) = Some (l', h')"
    by (auto split: option.splits)
  have "\<exists>evs. h1 = h @ evs \<and> filter is_sleep evs = [] \<and> restart_event s \<notin> set evs
          \<and> load_lastRestart l1 s = Some t"
  proof (cases "s' = s")
    case True
    have "filter is_sleep [Now] = []" by simp
    from Cons.prems(5) [OF this]
    have b: "sint (unix_time w (h @ [Now])) - sint t \<le> sint n * 60"
      "- (2 ^ 63) \<le> sint (unix_time w (h @ [Now])) - sint t"
      "sint (unix_time w (h @ [Now])) - sint t < 2 ^ 63"
      by blast+
    from service_v013_suppressed [OF Cons.prems(2) b Cons.prems(3,4)] True
    have "nodeKeeper_service_v013 w d n u s' (l, h) = Some (l, h @ [Now])"
      by simp
    with 1 Cons.prems(2) show ?thesis
      by (intro exI [of _ "[Now]"]) simp
  next
    case False
    from service_v013_pass [OF 1] obtain evs where e: "h1 = h @ Now # evs"
      "\<forall>e \<in> set evs. \<not> is_sleep e" "\<forall>y. restart_event y \<in> set evs \<longrightarrow> y = s'"
      "\<forall>y. y \<noteq> s' \<longrightarrow> map_of l1 y = map_of l y"
      by blast
    from e(2) have "filter is_sleep (Now # evs) = []"
      by (simp add: filter_empty_conv)
    moreover from e(3) False have "restart_event s \<notin> set (Now # evs)" by auto
    moreover from e(4) False Cons.prems(2) have "load_lastRestart l1 s = Some t"
      using load_cong [of l1 s l] by simp
    ultimately show ?thesis using e(1) by blast
  qed
  then obtain evs where e: "h1 = h @ evs" "filter is_sleep evs = []"
    "restart_event s \<notin> set evs" "load_lastRestart l1 s = Some t"
    by blast
  have "sint (unix_time w (h1 @ ext)) - sint t \<le> sint n * 60
           \<and> - (2 ^ 63) \<le> sint (unix_time w (h1 @ ext)) - sint t
           \<and> sint (unix_time w (h1 @ ext)) - sint t < 2 ^ 63"
    if "filter is_sleep ext = []" for ext
    using Cons.prems(5) [of "evs @ ext"] e(1,2) that by simp
  from Cons.IH [OF 2 e(4) Cons.prems(3,4) this] obtain evs'
    where e': "h' = h1 @ evs'" "restart_event s \<notin> set evs'" "load_lastRestart l' s = Some t"
    by blast
  from e e' show ?case
    by (intro exI [of _ "evs @ evs'"]) simp
qed

lemma tick_v013_suppressed:
  assumes "nodeKeeper_tick_v013 w d n u (l, h) = Some (l', h')"
    and "load_lastRestart l s = Some t"
    and "- (2 ^ 63) \<le> sint n * 60" "sint n * 60 < 2 ^ 63"
    and "\<And>ext. filter is_sleep ext = [] \<Longrightarrow>
           sint (unix_time w (h @ ext)) - sint t \<le> sint n * 60
           \<and> - (2 ^ 63) \<le> sint (unix_time w (h @ ext)) - sint t
           \<and> sint (unix_time w (h @ ext)) - sint t < 2 ^ 63"
  shows "restart_event s \<notin> set (drop (length h) h') \<and> load_lastRestart l' s = Some t"
proof (cases "fst (getActiveNodes w u h)")
  case (Inl err)
  from tick_v013_fetch_error [OF Inl, of d n l] assms(1,2) show ?thesis
    by auto
next
  case (Inr A)
  let ?g = "HttpGet (u @ ''/_cat/nodes?h=name&format=json'')"
  from Inr have g: "getActiveNodes w u h = (Inr A, h @ [?g])"
    using snd_getActiveNodes [of w u h] by (cases "getActiveNodes w u h") simp
  with assms(1) obtain h2 where 1: "nodeKeeper_services_v013 w d n u (getInvalidNodes l A)
        (l, h @ [?g]) = Some (l', h2)"
    and 2: "h' = h2 @ [Sleep 30]"
    by (auto simp: nodeKeeper_tick_v013_def sleepLoop_def interval_def split: option.splits)
  have "sint (unix_time w ((h @ [?g]) @ ext)) - sint t \<le> sint n * 60
           \<and> - (2 ^ 63) \<le> sint (unix_time w ((h @ [?g]) @ ext)) - sint t
           \<and> sint (unix_time w ((h @ [?g]) @ ext)) - sint t < 2 ^ 63"
    if "filter is_sleep ext = []" for ext
    using assms(5) [of "?g # ext"] that by simp
  from services_v013_suppressed [OF 1 assms(2-4) this] obtain evs
    where e: "h2 = (h @ [?g]) @ evs" "restart_event s \<notin> set evs" "load_lastRestart l' s = Some t"
    by blast
  from e 2 show ?thesis by simp
qed

text \<open>
  C6, as the code has it. When the decision of version 0.19, or the pass of version 0.13,
  runs the restart command: if the command succeeds the registry afterwards is the one
  before with the timestamp of this service set to the \<open>now\<close> of the pass, and nothing
  else changed; if it fails the registry is as it was when the restart was attempted.

  A later exclusion check of the service that finds the time \<open>t\<close> stored and reads a clock
  not more than the exclusion period after \<open>t\<close> (as integers, the difference and the
  product with 60 within 64 bits) ends without a request and without a restart. In
  version 0.19 the value that check finds is the one the re-derivation of that pass left.

  In version 0.13 the value stored for a service after any number of passes of the outer
  loop is the time of its last successful restart in those passes, or the value stored
  before them when there was none. And a pass of the outer loop of version 0.13 in which
  every clock reading is within the exclusion period of the stored time does not restart
  the service and leaves its timestamp as it was.
\<close>

theorem restart_outcome_and_timestamp:
  "(nodeKeeper_decide_v019 w dryRun period esUrl service (localNodes, h) = Some (localNodes', h')
        \<and> (\<exists>ev \<in> set (drop (length h) h'). is_restart ev)
      \<longrightarrow> (case fst (restartSystemdService w (service @ ''.service'')
                       (h @ [Now, HttpGet (esUrl @ ''/_cluster/health''),
                             HttpGet (esUrl @ ''/_cluster/settings'')])) of
             None \<Rightarrow> store_lastRestart service (unix_time w (h @ [Now])) localNodes
                       = Some localNodes'
           | Some err \<Rightarrow> localNodes' = localNodes))
   \<and> (nodeKeeper_service_v013 w dryRun noRestartTime esUrl service (localNodes, h)
          = Some (localNodes', h')
        \<and> (\<exists>ev \<in> set (drop (length h) h'). is_restart ev)
      \<longrightarrow> (case fst (restartSystemdService_v013 w (service @ ''.service'')
                       (h @ [Now, HttpGet (esUrl @ ''/_cluster/health''),
                             HttpGet (esUrl @ ''/_cluster/settings'')])) of
             None \<Rightarrow> store_lastRestart service (unix_time w (h @ [Now])) localNodes
                       = Some localNodes'
           | Some err \<Rightarrow> localNodes' = localNodes))
   \<and> (store_lastRestart service t localNodes = Some localNodes'
      \<longrightarrow> load_lastRestart localNodes' service = Some t
          \<and> (\<forall>s. s \<noteq> service \<longrightarrow> map_of localNodes' s = map_of localNodes s))
   \<and> (load_lastRestart localNodes service = Some t
        \<and> sint (unix_time w (h @ [Now])) - sint t \<le> sint period
        \<and> - (2 ^ 63) \<le> sint (unix_time w (h @ [Now])) - sint t
        \<and> sint (unix_time w (h @ [Now])) - sint t < 2 ^ 63
      \<longrightarrow> nodeKeeper_decide_v019 w dryRun period esUrl service (localNodes, h)
            = Some (localNodes, h @ [Now]))
   \<and> (load_lastRestart localNodes service = Some t
        \<and> sint (unix_time w (h @ [Now])) - sint t \<le> sint noRestartTime * 60
        \<and> - (2 ^ 63) \<le> sint (unix_time w (h @ [Now])) - sint t
        \<and> sint (unix_time w (h @ [Now])) - sint t < 2 ^ 63
        \<and> - (2 ^ 63) \<le> sint noRestartTime * 60 \<and> sint noRestartTime * 60 < 2 ^ 63
      \<longrightarrow> nodeKeeper_service_v013 w dryRun noRestartTime esUrl service (localNodes, h)
            = Some (localNodes, h @ [Now]))
   \<and> (nodeKeeper_v013 w dryRun noRestartTime esUrl n (localNodes, h) = Some (localNodes', h')
        \<and> load_lastRestart localNodes service = Some t
      \<longrightarrow> load_lastRestart localNodes' service
            = Some (last_successful_restart w service h (drop (length h) h') t))
   \<and> (nodeKeeper_tick_v013 w dryRun noRestartTime esUrl (localNodes, h) = Some (localNodes', h')
        \<and> load_lastRestart localNodes service = Some t
        \<and> - (2 ^ 63) \<le> sint noRestartTime * 60 \<and> sint noRestartTime * 60 < 2 ^ 63
        \<and> (\<forall>ext. filter is_sleep ext = [] \<longrightarrow>
               sint (unix_time w (h @ ext)) - sint t \<le> sint noRestartTime * 60
               \<and> - (2 ^ 63) \<le> sint (unix_time w (h @ ext)) - sint t
               \<and> sint (unix_time w (h @ ext)) - sint t < 2 ^ 63)
      \<longrightarrow> restart_event service \<notin> set (drop (length h) h')
          \<and> load_lastRestart localNodes' service = Some t)"
proof (intro conjI impI)
  assume "nodeKeeper_decide_v019 w dryRun period esUrl service (localNodes, h)
            = Some (localNodes', h')
        \<and> (\<exists>ev \<in> set (drop (length h) h'). is_restart ev)"
  then show "case fst (restartSystemdService w (service @ ''.service'')
                       (h @ [Now, HttpGet (esUrl @ ''/_cluster/health''),
                             HttpGet (esUrl @ ''/_cluster/settings'')])) of
             None \<Rightarrow> store_lastRestart service (unix_time w (h @ [Now])) localNodes
                       = Some localNodes'
           | Some err \<Rightarrow> localNodes' = localNodes"
    using decide_v019_restart_outcome by blast
next
  assume "nodeKeeper_service_v013 w dryRun noRestartTime esUrl service (localNodes, h)
          = Some (localNodes', h')
        \<and> (\<exists>ev \<in> set (drop (length h) h'). is_restart ev)"
  then show "case fst (restartSystemdService_v013 w (service @ ''.service'')
                       (h @ [Now, HttpGet (esUrl @ ''/_cluster/health''),
                             HttpGet (esUrl @ ''/_cluster/settings'')])) of
             None \<Rightarrow> store_lastRestart service (unix_time w (h @ [Now])) localNodes
                       = Some localNodes'
           | Some err \<Rightarrow> localNodes' = localNodes"
    using service_v013_restart_outcome by blast
next
  assume a: "store_lastRestart service t localNodes = Some localNodes'"
  from store_lastRestart_result(1) [OF a]
  show "load_lastRestart localNodes' service = Some t" .
  from store_lastRestart_result(2) [OF a]
  show "\<forall>s. s \<noteq> service \<longrightarrow> map_of localNodes' s = map_of localNodes s"
    by blast
next
  assume "load_lastRestart localNodes service = Some t
        \<and> sint (unix_time w (h @ [Now])) - sint t \<le> sint period
        \<and> - (2 ^ 63) \<le> sint (unix_time w (h @ [Now])) - sint t
        \<and> sint (unix_time w (h @ [Now])) - sint t < 2 ^ 63"
  then show "nodeKeeper_decide_v019 w dryRun period esUrl service (localNodes, h)
            = Some (localNodes, h @ [Now])"
    using decide_v019_suppressed by blast
next
  assume "load_lastRestart localNodes service = Some t
        \<and> sint (unix_time w (h @ [Now])) - sint t \<le> sint noRestartTime * 60
        \<and> - (2 ^ 63) \<le> sint (unix_time w (h @ [Now])) - sint t
        \<and> sint (unix_time w (h @ [Now])) - sint t < 2 ^ 63
        \<and> - (2 ^ 63) \<le> sint noRestartTime * 60 \<and> sint noRestartTime * 60 < 2 ^ 63"
  then show "nodeKeeper_service_v013 w dryRun noRestartTime esUrl service (localNodes, h)
            = Some (localNodes, h @ [Now])"
    using service_v013_suppressed by blast
next
  assume a: "nodeKeeper_v013 w dryRun noRestartTime esUrl n (localNodes, h)
          = Some (localNodes', h')
        \<and> load_lastRestart localNodes service = Some t"
  then obtain evs where "h' = h @ evs"
    "load_lastRestart localNodes' service = Some (last_successful_restart w service h evs t)"
    using nodeKeeper_v013_replay by blast
  then show "load_lastRestart localNodes' service
            = Some (last_successful_restart w service h (drop (length h) h') t)"
    by simp
next
  assume a: "nodeKeeper_tick_v013 w dryRun noRestartTime esUrl (localNodes, h)
          = Some (localNodes', h')
        \<and> load_lastRestart localNodes service = Some t
        \<and> - (2 ^ 63) \<le> sint noRestartTime * 60 \<and> sint noRestartTime * 60 < 2 ^ 63
        \<and> (\<forall>ext. filter is_sleep ext = [] \<longrightarrow>
               sint (unix_time w (h @ ext)) - sint t \<le> sint noRestartTime * 60
               \<and> - (2 ^ 63) \<le> sint (unix_time w (h @ ext)) - sint t
               \<and> sint (unix_time w (h @ ext)) - sint t < 2 ^ 63)"
  then have b: "nodeKeeper_tick_v013 w dryRun noRestartTime esUrl (localNodes, h)
          = Some (localNodes', h')"
    "load_lastRestart localNodes service = Some t"
    "- (2 ^ 63) \<le> sint noRestartTime * 60" "sint noRestartTime * 60 < 2 ^ 63"
    by blast+
  from a have c: "sint (unix_time w (h @ ext)) - sint t \<le> sint noRestartTime * 60
               \<and> - (2 ^ 63) \<le> sint (unix_time w (h @ ext)) - sint t
               \<and> sint (unix_time w (h @ ext)) - sint t < 2 ^ 63"
    if "filter is_sleep ext = []" for ext
    using that by blast
  from tick_v013_suppressed [OF b c]
  show "restart_event service \<notin> set (drop (length h) h')"
    and "load_lastRestart localNodes' service = Some t"
    by blast+
qed

text \<open>
  A green cluster with allocation \<open>all\<close> and a host that cannot report an activation
  time. One pass of version 0.13 restarts the service at clock 1000 and stores that; the
  value read off the events of the pass is 1000 too. The next pass, thirty seconds
  later, leaves the service alone. The same holds for the decision of version 0.19 in the
  state its first pass and the failed re-derivation of its second pass lead to. Last, a
  restart that fails, in version 0.13: the registry is as before.
\<close>

theorem restart_outcome_and_timestamp_witness:
  "nodeKeeper_v013 (demo_world no_nodes ''green'' ''all'' show_fails None) False 10 ''es''
       (Suc 0) (localNodesToMap svc1_config, [])
     = Some ([(''svc1'', \<lparr>instanceName = ''instA'', lastRestart = 1000\<rparr>)],
             [HttpGet ''es/_cat/nodes?h=name&format=json'', Now,
              HttpGet ''es/_cluster/health'', HttpGet ''es/_cluster/settings'',
              restart_event ''svc1'', Sleep 30])
   \<and> load_lastRestart [(''svc1'', \<lparr>instanceName = ''instA'', lastRestart = 1000\<rparr>)] ''svc1''
     = Some (last_successful_restart (demo_world no_nodes ''green'' ''all'' show_fails None)
               ''svc1'' []
               (drop (length ([] :: event list))
                  [HttpGet ''es/_cat/nodes?h=name&format=json'', Now,
                   HttpGet ''es/_cluster/health'', HttpGet ''es/_cluster/settings'',
                   restart_event ''svc1'', Sleep 30]) 0)
   \<and> last_successful_restart (demo_world no_nodes ''green'' ''all'' show_fails None)
         ''svc1'' []
         [HttpGet ''es/_cat/nodes?h=name&format=json'', Now,
          HttpGet ''es/_cluster/health'', HttpGet ''es/_cluster/settings'',
          restart_event ''svc1'', Sleep 30] 0 = 1000
   \<and> nodeKeeper_tick_v013 (demo_world no_nodes ''green'' ''all'' show_fails None) False 10 ''es''
       ([(''svc1'', \<lparr>instanceName = ''instA'', lastRestart = 1000\<rparr>)],
        [HttpGet ''es/_cat/nodes?h=name&format=json'', Now,
         HttpGet ''es/_cluster/health'', HttpGet ''es/_cluster/settings'',
         restart_event ''svc1'', Sleep 30])
     = Some ([(''svc1'', \<lparr>instanceName = ''instA'', lastRestart = 1000\<rparr>)],
             [HttpGet ''es/_cat/nodes?h=name&format=json'', Now,
              HttpGet ''es/_cluster/health'', HttpGet ''es/_cluster/settings'',
              restart_event ''svc1'', Sleep 30,
              HttpGet ''es/_cat/nodes?h=name&format=json'', Now, Sleep 30])
   \<and> restart_event ''svc1'' \<notin> set (drop
         (length [HttpGet ''es/_cat/nodes?h=name&format=json'', Now,
                  HttpGet ''es/_cluster/health'', HttpGet ''es/_cluster/settings'',
                  restart_event ''svc1'', Sleep 30])
         [HttpGet ''es/_cat/nodes?h=name&format=json'', Now,
          HttpGet ''es/_cluster/health'', HttpGet ''es/_cluster/settings'',
          restart_event ''svc1'', Sleep 30,
          HttpGet ''es/_cat/nodes?h=name&format=json'', Now, Sleep 30])
   \<and> nodeKeeper_service_v013 (demo_world no_nodes ''green'' ''all'' show_fails None)
       False 10 ''es'' ''svc1''
       ([(''svc1'', \<lparr>instanceName = ''instA'', lastRestart = 1000\<rparr>)],
        [HttpGet ''es/_cat/nodes?h=name&format=json'', Now,
         HttpGet ''es/_cluster/health'', HttpGet ''es/_cluster/settings'',
         restart_event ''svc1'', Sleep 30, HttpGet ''es/_cat/nodes?h=name&format=json''])
     = Some ([(''svc1'', \<lparr>instanceName = ''instA'', lastRestart = 1000\<rparr>)],
             [HttpGet ''es/_cat/nodes?h=name&format=json'', Now,
              HttpGet ''es/_cluster/health'', HttpGet ''es/_cluster/settings'',
              restart_event ''svc1'', Sleep 30, HttpGet ''es/_cat/nodes?h=name&format=json'']
             @ [Now])
   \<and> nodeKeeper_v019 (demo_world no_nodes ''green'' ''all'' show_fails None) False 600 ''es''
       (Suc 0) (localNodesToMap svc1_config, [])
     = Some ([(''svc1'', \<lparr>instanceName = ''instA'', lastRestart = 1000\<rparr>)],
             [HttpGet ''es/_cat/nodes?h=name&format=json'', show_event ''svc1'', Now,
              HttpGet ''es/_cluster/health'', HttpGet ''es/_cluster/settings'',
              restart_event ''svc1'', Sleep 30])
   \<and> nodeKeeper_decide_v019 (demo_world no_nodes ''green'' ''all'' show_fails None)
       False 600 ''es'' ''svc1''
       ([(''svc1'', \<lparr>instanceName = ''instA'', lastRestart = 1000\<rparr>)],
        [HttpGet ''es/_cat/nodes?h=name&format=json'', show_event ''svc1'', Now,
         HttpGet ''es/_cluster/health'', HttpGet ''es/_cluster/settings'',
         restart_event ''svc1'', Sleep 30,
         HttpGet ''es/_cat/nodes?h=name&format=json'', show_event ''svc1''])
     = Some ([(''svc1'', \<lparr>instanceName = ''instA'', lastRestart = 1000\<rparr>)],
             [HttpGet ''es/_cat/nodes?h=name&format=json'', show_event ''svc1'', Now,
              HttpGet ''es/_cluster/health'', HttpGet ''es/_cluster/settings'',
              restart_event ''svc1'', Sleep 30,
              HttpGet ''es/_cat/nodes?h=name&format=json'', show_event ''svc1''] @ [Now])
   \<and> nodeKeeper_decide_v019 (demo_world no_nodes ''green'' ''all'' show_fails None)
       False 600 ''es'' ''svc1''
       (localNodesToMap svc1_config,
        [HttpGet ''es/_cat/nodes?h=name&format=json'', show_event ''svc1''])
     = Some ([(''svc1'', \<lparr>instanceName = ''instA'', lastRestart = 1000\<rparr>)],
             [HttpGet ''es/_cat/nodes?h=name&format=json'', show_event ''svc1'', Now,
              HttpGet ''es/_cluster/health'', HttpGet ''es/_cluster/settings'',
              restart_event ''svc1''])
   \<and> store_lastRestart ''svc1''
         (unix_time (demo_world no_nodes ''green'' ''all'' show_fails None)
            ([HttpGet ''es/_cat/nodes?h=name&format=json'', show_event ''svc1''] @ [Now]))
         (localNodesToMap svc1_config)
     = Some [(''svc1'', \<lparr>instanceName = ''instA'', lastRestart = 1000\<rparr>)]
   \<and> load_lastRestart [(''svc1'', \<lparr>instanceName = ''instA'', lastRestart = 1000\<rparr>)] ''svc1''
     = Some (unix_time (demo_world no_nodes ''green'' ''all'' show_fails None)
               ([HttpGet ''es/_cat/nodes?h=name&format=json'', show_event ''svc1''] @ [Now]))
   \<and> nodeKeeper_service_v013
       (demo_world no_nodes ''green'' ''all'' show_fails (Some ''exit status 1''))
       False 10 ''es'' ''svc1''
       (localNodesToMap svc1_config, [HttpGet ''es/_cat/nodes?h=name&format=json''])
     = Some (localNodesToMap svc1_config,
             [HttpGet ''es/_cat/nodes?h=name&format=json'', Now,
              HttpGet ''es/_cluster/health'', HttpGet ''es/_cluster/settings'',
              restart_event ''svc1''])"
proof -
  let ?w = "demo_world no_nodes ''green'' ''all'' show_fails None"
  let ?wf = "demo_world no_nodes ''green'' ''all'' show_fails (Some ''exit status 1'')"
  let ?reg = "localNodesToMap svc1_config"
  let ?r0 = "[(''svc1'', \<lparr>instanceName = ''instA'', lastRestart = 0 :: go_int\<rparr>)]"
  let ?r1000 = "[(''svc1'', \<lparr>instanceName = ''instA'', lastRestart = 1000 :: go_int\<rparr>)]"
  let ?g = "HttpGet ''es/_cat/nodes?h=name&format=json''"
  let ?H = "HttpGet ''es/_cluster/health''"
  let ?S = "HttpGet ''es/_cluster/settings''"
  let ?h13 = "[?g, Now, ?H, ?S, restart_event ''svc1'', Sleep 30]"
  let ?h19 = "[?g, show_event ''svc1'', Now, ?H, ?S, restart_event ''svc1'', Sleep 30]"
  note defs = run_simps pass_now_def
  note t = restart_outcome_and_timestamp
  have A: "nodeKeeper_v013 ?w False 10 ''es'' (Suc 0) (?reg, []) = Some (?r1000, ?h13)"
    by (simp add: defs)
  have reg: "load_lastRestart ?reg ''svc1'' = Some 0"
    by (simp add: defs)
  from A reg t [where w = ?w and dryRun = False and noRestartTime = 10 and esUrl = "''es''"
      and n = "Suc 0" and localNodes = ?reg and h = "[]" and localNodes' = ?r1000
      and h' = ?h13 and service = "''svc1''" and t = 0,
      THEN conjunct2, THEN conjunct2, THEN conjunct2, THEN conjunct2, THEN conjunct2,
      THEN conjunct1]
  have B: "load_lastRestart ?r1000 ''svc1''
     = Some (last_successful_restart ?w ''svc1'' [] (drop (length ([] :: event list)) ?h13) 0)"
    by blast
  have C: "last_successful_restart ?w ''svc1'' [] ?h13 0 = 1000"
    by (simp add: defs)
  have D: "nodeKeeper_tick_v013 ?w False 10 ''es'' (?r1000, ?h13)
     = Some (?r1000, [?g, Now, ?H, ?S, restart_event ''svc1'', Sleep 30, ?g, Now, Sleep 30])"
    by (simp add: defs)
  have stored: "load_lastRestart ?r1000 ''svc1'' = Some 1000"
    by (simp add: defs)
  have minutes: "- (2 ^ 63) \<le> sint (10 :: go_int) * 60" "sint (10 :: go_int) * 60 < 2 ^ 63"
    by simp_all
  have clock: "\<forall>ext. filter is_sleep ext = [] \<longrightarrow>
       sint (unix_time ?w (?h13 @ ext)) - sint (1000 :: go_int) \<le> sint (10 :: go_int) * 60
       \<and> - (2 ^ 63) \<le> sint (unix_time ?w (?h13 @ ext)) - sint (1000 :: go_int)
       \<and> sint (unix_time ?w (?h13 @ ext)) - sint (1000 :: go_int) < 2 ^ 63"
    by (simp add: demo_world_def restart_event_def)
  from D stored minutes clock
    t [where w = ?w and dryRun = False and noRestartTime = 10 and esUrl = "''es''"
      and localNodes = ?r1000 and h = ?h13 and localNodes' = ?r1000
      and h' = "[?g, Now, ?H, ?S, restart_event ''svc1'', Sleep 30, ?g, Now, Sleep 30]"
      and service = "''svc1''" and t = 1000,
      THEN conjunct2, THEN conjunct2, THEN conjunct2, THEN conjunct2, THEN conjunct2,
      THEN conjunct2]
  have E: "restart_event ''svc1'' \<notin> set (drop (length ?h13)
       [?g, Now, ?H, ?S, restart_event ''svc1'', Sleep 30, ?g, Now, Sleep 30])"
    by blast
  have c5: "sint (unix_time ?w ((?h13 @ [?g]) @ [Now])) - sint (1000 :: go_int)
              \<le> sint (10 :: go_int) * 60"
    "- (2 ^ 63) \<le> sint (unix_time ?w ((?h13 @ [?g]) @ [Now])) - sint (1000 :: go_int)"
    "sint (unix_time ?w ((?h13 @ [?g]) @ [Now])) - sint (1000 :: go_int) < 2 ^ 63"
    by (simp_all add: defs)
  from stored c5 minutes
    t [where w = ?w and dryRun = False and noRestartTime = 10 and esUrl = "''es''"
      and localNodes = ?r1000 and h = "?h13 @ [?g]" and service = "''svc1''" and t = 1000,
      THEN conjunct2, THEN conjunct2, THEN conjunct2, THEN conjunct2, THEN conjunct1]
  have F': "nodeKeeper_service_v013 ?w False 10 ''es'' ''svc1'' (?r1000, ?h13 @ [?g])
     = Some (?r1000, (?h13 @ [?g]) @ [Now])"
    by blast
  then have F: "nodeKeeper_service_v013 ?w False 10 ''es'' ''svc1''
       (?r1000, [?g, Now, ?H, ?S, restart_event ''svc1'', Sleep 30, ?g])
     = Some (?r1000, [?g, Now, ?H, ?S, restart_event ''svc1'', Sleep 30, ?g] @ [Now])"
    by simp
  have G: "nodeKeeper_v019 ?w False 600 ''es'' (Suc 0) (?reg, []) = Some (?r1000, ?h19)"
    by (simp add: defs)
  have c4: "sint (unix_time ?w ((?h19 @ [?g, show_event ''svc1'']) @ [Now])) - sint (1000 :: go_int)
              \<le> sint (600 :: go_int)"
    "- (2 ^ 63) \<le> sint (unix_time ?w ((?h19 @ [?g, show_event ''svc1'']) @ [Now]))
                   - sint (1000 :: go_int)"
    "sint (unix_time ?w ((?h19 @ [?g, show_event ''svc1'']) @ [Now])) - sint (1000 :: go_int)
       < 2 ^ 63"
    by (simp_all add: defs)
  from stored c4
    t [where w = ?w and dryRun = False and period = 600 and esUrl = "''es''"
      and localNodes = ?r1000 and h = "?h19 @ [?g, show_event ''svc1'']"
      and service = "''svc1''" and t = 1000,
      THEN conjunct2, THEN conjunct2, THEN conjunct2, THEN conjunct1]
  have H': "nodeKeeper_decide_v019 ?w False 600 ''es'' ''svc1''
       (?r1000, ?h19 @ [?g, show_event ''svc1''])
     = Some (?r1000, (?h19 @ [?g, show_event ''svc1'']) @ [Now])"
    by blast
  then have H: "nodeKeeper_decide_v019 ?w False 600 ''es'' ''svc1''
       (?r1000, [?g, show_event ''svc1'', Now, ?H, ?S, restart_event ''svc1'', Sleep 30,
                 ?g, show_event ''svc1''])
     = Some (?r1000, [?g, show_event ''svc1'', Now, ?H, ?S, restart_event ''svc1'', Sleep 30,
                      ?g, show_event ''svc1''] @ [Now])"
    by simp
  let ?h1 = "[?g, show_event ''svc1'', Now, ?H, ?S, restart_event ''svc1'']"
  have I: "nodeKeeper_decide_v019 ?w False 600 ''es'' ''svc1'' (?reg, [?g, show_event ''svc1''])
     = Some (?r1000, ?h1)"
    by (simp add: defs)
  have I': "\<exists>ev \<in> set (drop (length [?g, show_event ''svc1'']) ?h1). is_restart ev"
    by simp
  have ok: "fst (restartSystemdService ?w (''svc1'' @ ''.service'')
              ([?g, show_event ''svc1''] @ [Now, HttpGet (''es'' @ ''/_cluster/health''),
                                            HttpGet (''es'' @ ''/_cluster/settings'')])) = None"
    by (simp add: defs)
  from I I' t [where w = ?w and dryRun = False and period = 600 and esUrl = "''es''"
      and localNodes = ?reg and h = "[?g, show_event ''svc1'']" and localNodes' = ?r1000
      and h' = ?h1 and service = "''svc1''",
      THEN conjunct1]
  have "case fst (restartSystemdService ?w (''svc1'' @ ''.service'')
              ([?g, show_event ''svc1''] @ [Now, HttpGet (''es'' @ ''/_cluster/health''),
                                            HttpGet (''es'' @ ''/_cluster/settings'')])) of
          None \<Rightarrow> store_lastRestart ''svc1'' (unix_time ?w ([?g, show_event ''svc1''] @ [Now])) ?reg
                    = Some ?r1000
        | Some err \<Rightarrow> ?r1000 = ?reg"
    by blast
  with ok have J: "store_lastRestart ''svc1'' (unix_time ?w ([?g, show_event ''svc1''] @ [Now])) ?reg
     = Some ?r1000"
    by simp
  from J t [where service = "''svc1''" and localNodes = ?reg and localNodes' = ?r1000
      and t = "unix_time ?w ([?g, show_event ''svc1''] @ [Now])",
      THEN conjunct2, THEN conjunct2, THEN conjunct1]
  have K: "load_lastRestart ?r1000 ''svc1''
     = Some (unix_time ?w ([?g, show_event ''svc1''] @ [Now]))"
    by blast
  let ?h2 = "[?g, Now, ?H, ?S, restart_event ''svc1'']"
  have L0: "nodeKeeper_service_v013 ?wf False 10 ''es'' ''svc1'' (?reg, [?g]) = Some (?r0, ?h2)"
    by (simp add: defs)
  have L': "\<exists>ev \<in> set (drop (length [?g]) ?h2). is_restart ev"
    by simp
  have failed: "fst (restartSystemdService_v013 ?wf (''svc1'' @ ''.service'')
              ([?g] @ [Now, HttpGet (''es'' @ ''/_cluster/health''),
                       HttpGet (''es'' @ ''/_cluster/settings'')])) = Some ''exit status 1: ''"
    by (simp add: defs)
  from L0 L' t [where w = ?wf and dryRun = False and noRestartTime = 10 and esUrl = "''es''"
      and localNodes = ?reg and h = "[?g]" and localNodes' = ?r0 and h' = ?h2
      and service = "''svc1''",
      THEN conjunct2, THEN conjunct1]
  have "case fst (restartSystemdService_v013 ?wf (''svc1'' @ ''.service'')
              ([?g] @ [Now, HttpGet (''es'' @ ''/_cluster/health''),
                       HttpGet (''es'' @ ''/_cluster/settings'')])) of
          None \<Rightarrow> store_lastRestart ''svc1'' (unix_time ?wf ([?g] @ [Now])) ?reg = Some ?r0
        | Some err \<Rightarrow> ?r0 = ?reg"
    by blast
  with failed have "?r0 = ?reg"
    by simp
  with L0 have L: "nodeKeeper_service_v013 ?wf False 10 ''es'' ''svc1'' (?reg, [?g])
     = Some (?reg, ?h2)"
    by simp
  show ?thesis
    by (intro conjI) (fact A B C D E F G H I J K L)+
qed

text \<open>
  C6 fails as it is stated. The host reports activation at 100 on every query and the
  exclusion period is 600. The first pass of version 0.19 restarts the service at clock
  1000, the command succeeds and 1000 is stored. The second pass reads the clock at 1030,
  thirty seconds after that restart, and restarts the service again: its re-derivation
  has put 100 in the place of 1000.
\<close>

theorem restart_repeated_within_exclusion_v019:
  "nodeKeeper_v019 (demo_world no_nodes ''green'' ''all'' show_T100 None) False 600 ''es''
       (Suc (Suc 0)) (localNodesToMap svc1_config, [])
     = Some ([(''svc1'', \<lparr>instanceName = ''instA'', lastRestart = 1030\<rparr>)],
             [HttpGet ''es/_cat/nodes?h=name&format=json'', show_event ''svc1'', Now,
              HttpGet ''es/_cluster/health'', HttpGet ''es/_cluster/settings'',
              restart_event ''svc1'', Sleep 30,
              HttpGet ''es/_cat/nodes?h=name&format=json'', show_event ''svc1'', Now,
              HttpGet ''es/_cluster/health'', HttpGet ''es/_cluster/settings'',
              restart_event ''svc1'', Sleep 30])
   \<and> unix_time (demo_world no_nodes ''green'' ''all'' show_T100 None)
        [HttpGet ''es/_cat/nodes?h=name&format=json'', show_event ''svc1'', Now] = 1000
   \<and> fst (restartSystemdService (demo_world no_nodes ''green'' ''all'' show_T100 None)
            ''svc1.service''
            [HttpGet ''es/_cat/nodes?h=name&format=json'', show_event ''svc1'', Now,
             HttpGet ''es/_cluster/health'', HttpGet ''es/_cluster/settings'']) = None
   \<and> unix_time (demo_world no_nodes ''green'' ''all'' show_T100 None)
        [HttpGet ''es/_cat/nodes?h=name&format=json'', show_event ''svc1'', Now,
         HttpGet ''es/_cluster/health'', HttpGet ''es/_cluster/settings'',
         restart_event ''svc1'', Sleep 30,
         HttpGet ''es/_cat/nodes?h=name&format=json'', show_event ''svc1'', Now] = 1030
   \<and> sint (1030 - 1000 :: go_int) \<le> sint (600 :: go_int)"
  by (simp add: run_simps)

end
